theory Spec2Isabelle
  imports Main "HOL-Library.Word" "HOL-Library.Sublist" "HOL-Library.AList"
begin

unbundle bit_operations_syntax

section \<open>Values shared by the whole agent\<close>

text \<open>
  The agent talks to three things outside itself: an S3-compatible object store, the
  control plane that hands out credentials, and the local file system. Every call that
  leaves the process is one function of this theory on an explicit \<open>world\<close>: it appends
  an event to the world's trace, reads the next scripted fault, and answers from the
  world's state. The functions of the repository are then written over these calls, in
  the order and with the branches of the Go source.
\<close>

type_synonym bytes = "8 word list"

text \<open>
  A Go \<open>error\<close> value. \<open>AwsError code\<close> is an error for which the type assertion
  \<open>err.(awserr.Error)\<close> succeeds, with \<open>aerr.Code() = code\<close>; \<open>ErrNotExist\<close> is an
  error for which \<open>os.IsNotExist\<close> holds; \<open>ErrorGotCancelRequest\<close> is the package
  variable of that name; \<open>Error msg\<close> is any other error.
\<close>

datatype go_error =
    AwsError string
  | ErrNotExist
  | ErrorGotCancelRequest
  | Error string

text \<open>\<open>storage_vault.Credential\<close>: the static credentials of one session.\<close>

record credential =
  AwsAccessKeyId :: string
  AwsSecretAccessKey :: string
  Token :: string

text \<open>
  What the script can make of one S3 request: the request fails with an error, or (for a
  download) the body stream breaks after some bytes.
\<close>

datatype fault = Fails go_error | BodyBreaks nat

subsection \<open>Paths, times and the file system's inodes\<close>

text \<open>
  A path is kept as the list of its components, cleaned and absolute (the empty list is
  the root), so \<open>filepath.Join\<close> is \<open>@\<close> and \<open>filepath.Dir\<close> drops the last component.
\<close>

type_synonym path = "string list"

definition Dir :: "path \<Rightarrow> path" where
  "Dir p = butlast p"

text \<open>
  A \<open>time.Time\<close> as \<open>Format\<close> reads it: the date and the clock in the value's location,
  and the nanoseconds of the second.
\<close>

record Time =
  year :: nat
  month :: nat
  day :: nat
  hour :: nat
  minute :: nat
  second :: nat
  nanosecond :: nat

datatype kind = RegularFile | Directory | SymbolicLink

text \<open>
  What a symbolic link holds: an absolute path, or a path relative to the directory the
  link is in (a \<open>..\<close> in it is not interpreted).
\<close>

datatype link = Absolute path | Relative path

fun link_path :: "path \<Rightarrow> link \<Rightarrow> path" where
  "link_path p (Absolute q) = q"
| "link_path p (Relative r) = Dir p @ r"

text \<open>
  \<open>i_mode\<close> holds the permission bits and the setuid, setgid and sticky bits, in the
  positions of Go's \<open>fs.FileMode\<close>; uids, gids, offsets and lengths are natural
  numbers (they stay far below the width of Go's \<open>int\<close>, where its integer types agree).
\<close>

record inode =
  i_kind :: kind
  i_data :: bytes
  i_mode :: "32 word"
  i_uid :: nat
  i_gid :: nat
  i_atime :: Time
  i_mtime :: Time
  i_ctime :: Time
  i_target :: link

subsection \<open>The cache's records (pkg/cache) and the progress sink (pkg/progress)\<close>

record chunk_range =
  Start :: nat
  Length :: nat

text \<open>\<open>cache.ChunkInfo\<close>, the ChunkRef of a Node.\<close>

record ChunkInfo = chunk_range +
  Etag :: string

text \<open>\<open>chunker.Chunk\<close>, what the chunker's \<open>Next\<close> returns.\<close>

record chunker_Chunk = chunk_range +
  Data :: bytes

text \<open>\<open>cache.Node\<close>.\<close>

record Node =
  Name :: string
  Type :: string
  AbsolutePath :: path
  RelativePath :: path
  BasePath :: path
  Mode :: "32 word"
  UID :: nat
  GID :: nat
  AccessTime :: Time
  ModTime :: Time
  ChangeTime :: Time
  LinkTarget :: link
  Sha256Hash :: bytes
  Content :: "ChunkInfo list"

text \<open>
  \<open>cache.Chunk\<close>, one chunk manifest record: \<open>Chunks\<close> maps an etag to the pair of
  strings (multiplicity, length).
\<close>

record cache_Chunk =
  BackupDirectoryID :: string
  RecoveryPointID :: string
  Chunks :: "(string \<times> string list) list"

text \<open>\<open>progress.Stat\<close>.\<close>

record Stat =
  Items :: nat
  Bytes :: nat
  Storage :: nat
  ItemName :: "path list"
  Errors :: bool

subsection \<open>The world\<close>

text \<open>Calls that leave the process, as the trace records them.\<close>

datatype event =
    EvHeadObject string
  | EvPutObject string bytes
  | EvGetObject string
  | EvGetCredentialStorageVault
  | EvNewSession credential
  | EvSleepSeconds nat
  | EvSleepBackOff
  | EvStat path
  | EvOpen path
  | EvRemove path
  | EvCreate path
  | EvMkdirAll path "32 word"
  | EvSymlink link path
  | EvChmod path "32 word"
  | EvChown path nat nat
  | EvChtimes path Time Time
  | EvWriteAt path nat bytes
  | EvProgressCancel

record world =
  objects :: "string \<rightharpoonup> (bytes \<times> string)"
  etag_of :: "bytes \<Rightarrow> string"
  s3_script :: "fault option list"
  CredentialType :: string
  S3Session :: credential
  cp_script :: "credential option list"
  bo_script :: "nat list"
  rand_script :: "nat list"
  trace :: "event list"
  files :: "(path \<times> inode) list"
  os_script :: "go_error option list"
  now :: Time
  euid :: nat
  egid :: nat
  umask :: "32 word"
  read_script :: "nat option list"
  cut :: "bytes \<Rightarrow> nat"
  md5_Sum :: "bytes \<Rightarrow> bytes"
  sha256_Sum :: "bytes \<Rightarrow> bytes"
  progress :: "Stat list"
  pipe :: "cache_Chunk list"
  cancel_in :: "nat option"

text \<open>
  \<^item> \<open>objects\<close>: the bucket, key to body and ETag; \<open>etag_of\<close> is the ETag the store
    computes for an uploaded body.
  \<^item> \<open>s3_script\<close>: one entry per S3 request, in order; \<open>None\<close>, or a script that has run
    out, lets the request through to the bucket.
  \<^item> \<open>cp_script\<close>: the control plane's answers to \<open>GetCredentialStorageVault\<close>, in
    order; \<open>None\<close>, or a script that has run out, is a failed call.
  \<^item> \<open>bo_script\<close>: for each \<open>backoff.NewExponentialBackOff()\<close>, how many times its
    \<open>NextBackOff\<close> answers with a delay before it answers \<open>Stop\<close> (it depends on the
    wall clock: three minutes of elapsed time); a script that has run out gives 0.
  \<^item> \<open>rand_script\<close>: the values \<open>rand.Intn(3)\<close> draws from, reduced modulo 3.
  \<^item> \<open>files\<close>: the file system, path to inode; \<open>os_script\<close>: one entry per call of
    package \<open>os\<close>, \<open>Some e\<close> makes that call fail with \<open>e\<close>; \<open>now\<close> is the clock the
    file system stamps inodes with; \<open>euid\<close>, \<open>egid\<close> and \<open>umask\<close> are the process's.
  \<^item> \<open>read_script\<close>: one entry per opened source file; \<open>Some n\<close> makes the chunker's
    \<open>Next\<close> fail with a read error once it has returned \<open>n\<close> chunks.
  \<^item> \<open>cut\<close>: where the rolling hash of the chunker puts the end of the next chunk of
    the bytes still to read; \<open>md5_Sum\<close> and \<open>sha256_Sum\<close>: the two digests.
  \<^item> \<open>progress\<close>: the \<open>Stat\<close> records reported to the progress sink; \<open>pipe\<close>: the chunk
    manifest records sent to the cache writer.
  \<^item> \<open>cancel_in\<close>: \<open>Some n\<close> when the session's cancellation arrives after \<open>n\<close> more
    looks at \<open>ctx.Done()\<close>; \<open>None\<close> when it never arrives.

  The worker pool and the goroutines of the restore run one after the other here, each
  job to its end at the place where the source submits it.
\<close>

definition log :: "event \<Rightarrow> world \<Rightarrow> world" where
  "log e w = w\<lparr>trace := trace w @ [e]\<rparr>"

definition next_fault :: "world \<Rightarrow> fault option \<times> world" where
  "next_fault w =
     (case s3_script w of
        [] \<Rightarrow> (None, w)
      | f # fs \<Rightarrow> (f, w\<lparr>s3_script := fs\<rparr>))"

definition NewExponentialBackOff :: "world \<Rightarrow> nat \<times> world" where
  "NewExponentialBackOff w =
     (case bo_script w of
        [] \<Rightarrow> (0, w)
      | n # ns \<Rightarrow> (n, w\<lparr>bo_script := ns\<rparr>))"

text \<open>
  \<open>rand.Seed(...); n := rand.Intn(3); time.Sleep(time.Duration(n) * time.Second)\<close>.
\<close>

definition sleep_rand :: "world \<Rightarrow> world" where
  "sleep_rand w =
     (case rand_script w of
        [] \<Rightarrow> log (EvSleepSeconds 0) w
      | r # rs \<Rightarrow> log (EvSleepSeconds (r mod 3)) (w\<lparr>rand_script := rs\<rparr>))"

subsection \<open>strings\<close>

fun HasPrefix :: "string \<Rightarrow> string \<Rightarrow> bool" where
  "HasPrefix s [] = True"
| "HasPrefix [] (p # ps) = False"
| "HasPrefix (c # s) (p # ps) = (c = p \<and> HasPrefix s ps)"

text \<open>\<open>strings.Contains(s, substr)\<close>.\<close>

fun Contains :: "string \<Rightarrow> string \<Rightarrow> bool" where
  "Contains [] substr = (substr = [])"
| "Contains (c # s) substr = (HasPrefix (c # s) substr \<or> Contains s substr)"

subsection \<open>strconv, strings and the formatting of times\<close>

definition digit_char :: "nat \<Rightarrow> char" where
  "digit_char d = ''0123456789'' ! d"

fun digits :: "nat \<Rightarrow> string" where
  "digits n = (if n < 10 then [digit_char n] else digits (n div 10) @ [digit_char (n mod 10)])"

declare digits.simps [simp del]

text \<open>\<open>strconv.Itoa\<close>.\<close>

definition Itoa :: "int \<Rightarrow> string" where
  "Itoa i = (if i < 0 then CHR ''-'' # digits (nat (- i)) else digits (nat i))"

definition zero_pad :: "nat \<Rightarrow> nat \<Rightarrow> string" where
  "zero_pad width n = replicate (width - length (digits n)) CHR ''0'' @ digits n"

text \<open>
  \<open>timeToString\<close>: \<open>time.Format("2006-01-02 15:04:05.000000")\<close>. The fraction is the
  nanoseconds cut (not rounded) to six digits.
\<close>

definition timeToString :: "Time \<Rightarrow> string" where
  "timeToString t =
     zero_pad 4 (year t) @ ''-'' @ zero_pad 2 (month t) @ ''-'' @ zero_pad 2 (day t) @ '' '' @
     zero_pad 2 (hour t) @ '':'' @ zero_pad 2 (minute t) @ '':'' @ zero_pad 2 (second t) @ ''.'' @
     zero_pad 6 (nanosecond t div 1000)"

text \<open>
  \<open>strings.EqualFold\<close>, on ASCII: equality up to the case of the letters A to Z.
\<close>

definition to_lower :: "char \<Rightarrow> char" where
  "to_lower c =
     (case map_of (zip ''ABCDEFGHIJKLMNOPQRSTUVWXYZ'' ''abcdefghijklmnopqrstuvwxyz'') c of
        Some l \<Rightarrow> l
      | None \<Rightarrow> c)"

definition EqualFold :: "string \<Rightarrow> string \<Rightarrow> bool" where
  "EqualFold s t = (map to_lower s = map to_lower t)"

subsection \<open>Package os on the file system\<close>

text \<open>
  The root directory is there even when \<open>files\<close> does not list it. A path is resolved
  through a symbolic link only in its last component, at most 40 links deep.
\<close>

definition root_inode :: inode where
  "root_inode =
     \<lparr>i_kind = Directory, i_data = [], i_mode = 493, i_uid = 0, i_gid = 0,
      i_atime = \<lparr>year = 1970, month = 1, day = 1, hour = 0, minute = 0, second = 0, nanosecond = 0\<rparr>,
      i_mtime = \<lparr>year = 1970, month = 1, day = 1, hour = 0, minute = 0, second = 0, nanosecond = 0\<rparr>,
      i_ctime = \<lparr>year = 1970, month = 1, day = 1, hour = 0, minute = 0, second = 0, nanosecond = 0\<rparr>,
      i_target = Relative []\<rparr>"

definition inode_at :: "(path \<times> inode) list \<Rightarrow> path \<Rightarrow> inode option" where
  "inode_at fs p =
     (case map_of fs p of
        Some i \<Rightarrow> Some i
      | None \<Rightarrow> if p = [] then Some root_inode else None)"

fun follow :: "nat \<Rightarrow> (path \<times> inode) list \<Rightarrow> path \<Rightarrow> go_error + path" where
  "follow n fs p =
     (case inode_at fs p of
        Some i \<Rightarrow>
          if i_kind i = SymbolicLink then
            (case n of
               0 \<Rightarrow> Inl (Error ''too many levels of symbolic links'')
             | Suc m \<Rightarrow> follow m fs (link_path p (i_target i)))
          else Inr p
      | None \<Rightarrow> Inr p)"

declare follow.simps [simp del]

definition os_fault :: "event \<Rightarrow> world \<Rightarrow> go_error option \<times> world" where
  "os_fault e w =
     (case os_script w of
        [] \<Rightarrow> (None, log e w)
      | f # fs \<Rightarrow> (f, log e (w\<lparr>os_script := fs\<rparr>)))"

text \<open>The inode a path leads to, links followed: what \<open>os.Stat\<close> and \<open>os.Open\<close> find.\<close>

definition resolve :: "(path \<times> inode) list \<Rightarrow> path \<Rightarrow> go_error + path \<times> inode" where
  "resolve fs p =
     (case follow 40 fs p of
        Inl e \<Rightarrow> Inl e
      | Inr q \<Rightarrow>
          (case inode_at fs q of
             None \<Rightarrow> Inl ErrNotExist
           | Some i \<Rightarrow> Inr (q, i)))"

definition os_Stat :: "path \<Rightarrow> world \<Rightarrow> (go_error + inode) \<times> world" where
  "os_Stat p w =
     (case os_fault (EvStat p) w of
        (Some e, w1) \<Rightarrow> (Inl e, w1)
      | (None, w1) \<Rightarrow>
          (case resolve (files w1) p of
             Inl e \<Rightarrow> (Inl e, w1)
           | Inr (q, i) \<Rightarrow> (Inr i, w1)))"

definition os_Open :: "path \<Rightarrow> world \<Rightarrow> (go_error + inode) \<times> world" where
  "os_Open p w =
     (case os_fault (EvOpen p) w of
        (Some e, w1) \<Rightarrow> (Inl e, w1)
      | (None, w1) \<Rightarrow>
          (case resolve (files w1) p of
             Inl e \<Rightarrow> (Inl e, w1)
           | Inr (q, i) \<Rightarrow> (Inr i, w1)))"

definition has_entries :: "(path \<times> inode) list \<Rightarrow> path \<Rightarrow> bool" where
  "has_entries fs p = list_ex (\<lambda>(q, i). strict_prefix p q) fs"

definition os_Remove :: "path \<Rightarrow> world \<Rightarrow> go_error option \<times> world" where
  "os_Remove p w =
     (case os_fault (EvRemove p) w of
        (Some e, w1) \<Rightarrow> (Some e, w1)
      | (None, w1) \<Rightarrow>
          (case inode_at (files w1) p of
             None \<Rightarrow> (Some ErrNotExist, w1)
           | Some i \<Rightarrow>
               if p = [] then (Some (Error ''device or resource busy''), w1)
               else if i_kind i = Directory \<and> has_entries (files w1) p
               then (Some (Error ''directory not empty''), w1)
               else (None, w1\<lparr>files := AList.delete p (files w1)\<rparr>)))"

definition parent_error :: "(path \<times> inode) list \<Rightarrow> path \<Rightarrow> go_error option" where
  "parent_error fs p =
     (case inode_at fs (Dir p) of
        None \<Rightarrow> Some ErrNotExist
      | Some d \<Rightarrow> if i_kind d = Directory then None else Some (Error ''not a directory''))"

definition new_inode :: "kind \<Rightarrow> 32 word \<Rightarrow> link \<Rightarrow> world \<Rightarrow> inode" where
  "new_inode k m t w =
     \<lparr>i_kind = k, i_data = [], i_mode = m, i_uid = euid w, i_gid = egid w,
      i_atime = now w, i_mtime = now w, i_ctime = now w, i_target = t\<rparr>"

text \<open>
  An open file is the name it was opened under (\<open>file.Name()\<close>) and the path of the
  inode that was opened.
\<close>

type_synonym os_File = "path \<times> path"

text \<open>\<open>os.Create\<close>: \<open>O_RDWR|O_CREATE|O_TRUNC\<close> with mode 0666 (438) before the umask.\<close>

definition os_Create :: "path \<Rightarrow> world \<Rightarrow> (go_error + os_File) \<times> world" where
  "os_Create p w =
     (case os_fault (EvCreate p) w of
        (Some e, w1) \<Rightarrow> (Inl e, w1)
      | (None, w1) \<Rightarrow>
          (case follow 40 (files w1) p of
             Inl e \<Rightarrow> (Inl e, w1)
           | Inr q \<Rightarrow>
               (case inode_at (files w1) q of
                  Some i \<Rightarrow>
                    if i_kind i = Directory then (Inl (Error ''is a directory''), w1)
                    else (Inr (p, q),
                          w1\<lparr>files := AList.update q
                                (i\<lparr>i_data := [], i_mtime := now w1, i_ctime := now w1\<rparr>) (files w1)\<rparr>)
                | None \<Rightarrow>
                    (case parent_error (files w1) q of
                       Some e \<Rightarrow> (Inl e, w1)
                     | None \<Rightarrow>
                         (Inr (p, q),
                          w1\<lparr>files := AList.update q
                                (new_inode RegularFile (438 AND NOT (umask w1)) (Relative []) w1) (files w1)\<rparr>)))))"

text \<open>
  \<open>os.MkdirAll\<close>: every missing directory on the way is made; a component that is there
  and is no directory ends the call.
\<close>

fun mkdirs :: "inode \<Rightarrow> path \<Rightarrow> string list \<Rightarrow> (path \<times> inode) list \<Rightarrow> go_error + (path \<times> inode) list" where
  "mkdirs d q [] fs = Inr fs"
| "mkdirs d q (n # ns) fs =
     (case inode_at fs (q @ [n]) of
        Some i \<Rightarrow>
          if i_kind i = Directory then mkdirs d (q @ [n]) ns fs
          else Inl (Error ''not a directory'')
      | None \<Rightarrow> mkdirs d (q @ [n]) ns (AList.update (q @ [n]) d fs))"

definition os_MkdirAll :: "path \<Rightarrow> 32 word \<Rightarrow> world \<Rightarrow> go_error option \<times> world" where
  "os_MkdirAll p m w =
     (case os_fault (EvMkdirAll p m) w of
        (Some e, w1) \<Rightarrow> (Some e, w1)
      | (None, w1) \<Rightarrow>
          (case mkdirs (new_inode Directory (m AND 511 AND NOT (umask w1)) (Relative []) w1) [] p
                  (files w1) of
             Inl e \<Rightarrow> (Some e, w1)
           | Inr fs \<Rightarrow> (None, w1\<lparr>files := fs\<rparr>)))"

text \<open>\<open>os.Symlink(oldname, newname)\<close>.\<close>

definition os_Symlink :: "link \<Rightarrow> path \<Rightarrow> world \<Rightarrow> go_error option \<times> world" where
  "os_Symlink oldname newname w =
     (case os_fault (EvSymlink oldname newname) w of
        (Some e, w1) \<Rightarrow> (Some e, w1)
      | (None, w1) \<Rightarrow>
          (case inode_at (files w1) newname of
             Some i \<Rightarrow> (Some (Error ''file exists''), w1)
           | None \<Rightarrow>
               (case parent_error (files w1) newname of
                  Some e \<Rightarrow> (Some e, w1)
                | None \<Rightarrow>
                    (None,
                     w1\<lparr>files := AList.update newname
                           (new_inode SymbolicLink 511 oldname w1) (files w1)\<rparr>))))"

text \<open>
  The bits \<open>os.Chmod\<close> hands to the system: the permissions (0777) and \<open>ModeSetuid\<close>,
  \<open>ModeSetgid\<close>, \<open>ModeSticky\<close>. Only the owner of a file and root may change it.
\<close>

definition ModeSetuid :: "32 word" where
  "ModeSetuid = push_bit 23 1"

definition ModeSetgid :: "32 word" where
  "ModeSetgid = push_bit 22 1"

definition ModeSticky :: "32 word" where
  "ModeSticky = push_bit 20 1"

definition ModeDir :: "32 word" where
  "ModeDir = push_bit 31 1"

definition chmod_bits :: "32 word \<Rightarrow> 32 word" where
  "chmod_bits m = m AND (511 OR ModeSetuid OR ModeSetgid OR ModeSticky)"

definition may_change :: "world \<Rightarrow> inode \<Rightarrow> bool" where
  "may_change w i = (euid w = 0 \<or> euid w = i_uid i)"

definition os_Chmod :: "path \<Rightarrow> 32 word \<Rightarrow> world \<Rightarrow> go_error option \<times> world" where
  "os_Chmod p m w =
     (case os_fault (EvChmod p m) w of
        (Some e, w1) \<Rightarrow> (Some e, w1)
      | (None, w1) \<Rightarrow>
          (case resolve (files w1) p of
             Inl e \<Rightarrow> (Some e, w1)
           | Inr (q, i) \<Rightarrow>
               if may_change w1 i then
                 (None,
                  w1\<lparr>files := AList.update q
                        (i\<lparr>i_mode := chmod_bits m, i_ctime := now w1\<rparr>) (files w1)\<rparr>)
               else (Some (Error ''operation not permitted''), w1)))"

text \<open>
  \<open>os.Chown\<close>. Root may give a file to anyone; another owner may only leave the owner
  as it is and set the group to the file's or to the process's. As Linux does, a
  successful call on anything but a directory takes the setuid bit away, and the setgid
  bit when the group may execute (bit 0010, here 8).
\<close>

definition chown_allowed :: "world \<Rightarrow> inode \<Rightarrow> nat \<Rightarrow> nat \<Rightarrow> bool" where
  "chown_allowed w i uid gid =
     (euid w = 0 \<or> (euid w = i_uid i \<and> uid = i_uid i \<and> (gid = i_gid i \<or> gid = egid w)))"

definition chown_mode :: "inode \<Rightarrow> 32 word" where
  "chown_mode i =
     (if i_kind i = Directory then i_mode i
      else if i_mode i AND 8 = 0 then i_mode i AND NOT ModeSetuid
      else i_mode i AND NOT ModeSetuid AND NOT ModeSetgid)"

definition os_Chown :: "path \<Rightarrow> nat \<Rightarrow> nat \<Rightarrow> world \<Rightarrow> go_error option \<times> world" where
  "os_Chown p uid gid w =
     (case os_fault (EvChown p uid gid) w of
        (Some e, w1) \<Rightarrow> (Some e, w1)
      | (None, w1) \<Rightarrow>
          (case resolve (files w1) p of
             Inl e \<Rightarrow> (Some e, w1)
           | Inr (q, i) \<Rightarrow>
               if chown_allowed w1 i uid gid then
                 (None,
                  w1\<lparr>files := AList.update q
                        (i\<lparr>i_uid := uid, i_gid := gid, i_mode := chown_mode i,
                           i_ctime := now w1\<rparr>) (files w1)\<rparr>)
               else (Some (Error ''operation not permitted''), w1)))"

definition os_Chtimes :: "path \<Rightarrow> Time \<Rightarrow> Time \<Rightarrow> world \<Rightarrow> go_error option \<times> world" where
  "os_Chtimes p at mt w =
     (case os_fault (EvChtimes p at mt) w of
        (Some e, w1) \<Rightarrow> (Some e, w1)
      | (None, w1) \<Rightarrow>
          (case resolve (files w1) p of
             Inl e \<Rightarrow> (Some e, w1)
           | Inr (q, i) \<Rightarrow>
               if may_change w1 i then
                 (None,
                  w1\<lparr>files := AList.update q
                        (i\<lparr>i_atime := at, i_mtime := mt, i_ctime := now w1\<rparr>) (files w1)\<rparr>)
               else (Some (Error ''operation not permitted''), w1)))"

text \<open>
  \<open>file.WriteAt(b, off)\<close>: the bytes land at the offset; a gap between the old end of
  the file and the offset reads as zeros.
\<close>

definition write_at :: "bytes \<Rightarrow> nat \<Rightarrow> bytes \<Rightarrow> bytes" where
  "write_at old off b =
     take off old @ replicate (off - length old) 0 @ b @ drop (off + length b) old"

definition os_WriteAt :: "os_File \<Rightarrow> nat \<Rightarrow> bytes \<Rightarrow> world \<Rightarrow> go_error option \<times> world" where
  "os_WriteAt file off b w =
     (case os_fault (EvWriteAt (snd file) off b) w of
        (Some e, w1) \<Rightarrow> (Some e, w1)
      | (None, w1) \<Rightarrow>
          (case inode_at (files w1) (snd file) of
             None \<Rightarrow> (Some (Error ''file already closed''), w1)
           | Some i \<Rightarrow>
               (None,
                w1\<lparr>files := AList.update (snd file)
                      (i\<lparr>i_data := write_at (i_data i) off b, i_mtime := now w1,
                         i_ctime := now w1\<rparr>) (files w1)\<rparr>)))"

subsection \<open>The parts of packages support, progress and context that the core calls\<close>

text \<open>
  Modelled from the spec: \<open>support.SetChownItem\<close> (pkg/support is not among the sources)
  is the \<open>chown\<close> of the restore engine's steps ``chmod/chown'': it gives the path to
  the uid and gid.
\<close>

definition SetChownItem :: "path \<Rightarrow> nat \<Rightarrow> nat \<Rightarrow> world \<Rightarrow> go_error option \<times> world" where
  "SetChownItem p uid gid w = os_Chown p uid gid w"

text \<open>
  Modelled from the spec: \<open>support.ItemLocal\<close> (pkg/support is not among the sources)
  reads the times of the file on disk from its \<open>FileInfo\<close>; the callers take the second
  and third result as the change time and the modification time.
\<close>

definition ItemLocal :: "inode \<Rightarrow> Time \<times> Time" where
  "ItemLocal fi = (i_ctime fi, i_mtime fi)"

definition Stat0 :: Stat where
  "Stat0 = \<lparr>Items = 0, Bytes = 0, Storage = 0, ItemName = [], Errors = False\<rparr>"

definition Report :: "Stat \<Rightarrow> world \<Rightarrow> world" where
  "Report s w = w\<lparr>progress := progress w @ [s]\<rparr>"

text \<open>
  \<open>select { case <-ctx.Done(): ... default: ... }\<close> on a context derived from the
  session's: it is done when the session's is, or when the derived context's own
  \<open>cancel\<close> has been called (\<open>cancelled\<close>).
\<close>

definition ctx_Done :: "bool \<Rightarrow> world \<Rightarrow> bool \<times> world" where
  "ctx_Done cancelled w =
     (case cancel_in w of
        None \<Rightarrow> (cancelled, w)
      | Some 0 \<Rightarrow> (True, w)
      | Some (Suc n) \<Rightarrow> (cancelled, w\<lparr>cancel_in := Some n\<rparr>))"

section \<open>The object store client (pkg/storage\_vault/s3/s3.go)\<close>

subsection \<open>The three requests of the SDK session\<close>

text \<open>
  \<open>s3.S3Session.HeadObject\<close>: the ETag of the object, the error \<open>NotFound\<close> when the
  bucket has no such key, or the scripted error.
\<close>

definition sdk_HeadObject :: "string \<Rightarrow> world \<Rightarrow> (go_error + string) \<times> world" where
  "sdk_HeadObject key w =
     (case next_fault (log (EvHeadObject key) w) of
        (Some (Fails e), w1) \<Rightarrow> (Inl e, w1)
      | (_, w1) \<Rightarrow>
          (case objects w1 key of
             None \<Rightarrow> (Inl (AwsError ''NotFound''), w1)
           | Some (body, etag) \<Rightarrow> (Inr etag, w1)))"

text \<open>\<open>s3.S3Session.PutObject\<close>: stores the body under the key, with the store's ETag.\<close>

definition sdk_PutObject :: "string \<Rightarrow> bytes \<Rightarrow> world \<Rightarrow> go_error option \<times> world" where
  "sdk_PutObject key data w =
     (case next_fault (log (EvPutObject key data) w) of
        (Some (Fails e), w1) \<Rightarrow> (Some e, w1)
      | (_, w1) \<Rightarrow> (None, w1\<lparr>objects := (objects w1)(key \<mapsto> (data, etag_of w1 data))\<rparr>))"

text \<open>
  \<open>s3.S3Session.GetObject\<close>: on success the body stream, here the bytes that
  \<open>ioutil.ReadAll\<close> will read from it and the error it will end with.
\<close>

definition sdk_GetObject :: "string \<Rightarrow> world \<Rightarrow> (go_error + bytes \<times> go_error option) \<times> world" where
  "sdk_GetObject key w =
     (case next_fault (log (EvGetObject key) w) of
        (Some (Fails e), w1) \<Rightarrow> (Inl e, w1)
      | (f, w1) \<Rightarrow>
          (case objects w1 key of
             None \<Rightarrow> (Inl (AwsError ''NoSuchKey''), w1)
           | Some (body, etag) \<Rightarrow>
               (case f of
                  Some (BodyBreaks n) \<Rightarrow>
                    (Inr (take n body, Some (Error ''unexpected EOF'')), w1)
                | _ \<Rightarrow> (Inr (body, None), w1))))"

definition denied :: "string \<Rightarrow> bool" where
  "denied code = (code = ''AccessDenied'' \<or> code = ''Forbidden'')"

subsection \<open>HeadObject\<close>

text \<open>
  One pass through the body of a \<open>for\<close> loop either leaves the function with a result
  or reaches the \<open>NextBackOff\<close> at the bottom with the loop's variables.
\<close>

datatype ('r, 'v) pass = Return 'r | Retry 'v

text \<open>The loop variables of \<open>HeadObject\<close> are \<open>once\<close> and \<open>err\<close>.\<close>

definition HeadObject_pass ::
  "bool \<Rightarrow> string \<Rightarrow> world \<Rightarrow> (bool \<times> string \<times> go_error option, bool \<times> go_error) pass \<times> world" where
  "HeadObject_pass once key w =
     (case sdk_HeadObject key w of
        (Inr etag, w1) \<Rightarrow> (Return (True, etag, None), w1)
      | (Inl err, w1) \<Rightarrow>
          (case err of
             AwsError code \<Rightarrow>
               if code = ''NotFound'' then (Return (False, [], Some err), w1)
               else if denied code then
                 (if once then (Return (False, [], Some err), w1)
                  else (Retry (True, err), sleep_rand w1))
               else (Retry (once, err), w1)
           | _ \<Rightarrow> (Retry (once, err), w1)))"

fun HeadObject_loop ::
  "nat \<Rightarrow> bool \<Rightarrow> string \<Rightarrow> world \<Rightarrow> (bool \<times> string \<times> go_error option) \<times> world" where
  "HeadObject_loop bo once key w =
     (case HeadObject_pass once key w of
        (Return r, w1) \<Rightarrow> (r, w1)
      | (Retry (once', err), w1) \<Rightarrow>
          (case bo of
             0 \<Rightarrow> ((False, [], Some err), w1)
           | Suc bo' \<Rightarrow> HeadObject_loop bo' once' key (log EvSleepBackOff w1)))"

declare HeadObject_loop.simps [simp del]

definition HeadObject :: "string \<Rightarrow> world \<Rightarrow> (bool \<times> string \<times> go_error option) \<times> world" where
  "HeadObject key w =
     (case NewExponentialBackOff w of (bo, w0) \<Rightarrow> HeadObject_loop bo False key w0)"

subsection \<open>RefreshCredential and the control plane\<close>

text \<open>
  \<open>s3.backupClient.GetCredentialStorageVault(storageVaultID, actID, nil)\<close>: a request
  to the control plane, answered from \<open>cp_script\<close>.
\<close>

definition GetCredentialStorageVault :: "world \<Rightarrow> (go_error + credential) \<times> world" where
  "GetCredentialStorageVault w =
     (case cp_script (log EvGetCredentialStorageVault w) of
        [] \<Rightarrow> (Inl (Error ''control plane''), log EvGetCredentialStorageVault w)
      | None # rs \<Rightarrow>
          (Inl (Error ''control plane''), (log EvGetCredentialStorageVault w)\<lparr>cp_script := rs\<rparr>)
      | Some cred # rs \<Rightarrow>
          (Inr cred, (log EvGetCredentialStorageVault w)\<lparr>cp_script := rs\<rparr>))"

text \<open>
  \<open>RefreshCredential\<close>: \<open>cred.Get()\<close> of static credentials fails when the access key
  or the secret key is empty; otherwise a new SDK session replaces \<open>S3Session\<close>. The
  transport and the bandwidth limiter rebuilt on the way hold nothing the functions
  below read.
\<close>

definition RefreshCredential :: "credential \<Rightarrow> world \<Rightarrow> go_error option \<times> world" where
  "RefreshCredential cred w =
     (if AwsAccessKeyId cred = [] \<or> AwsSecretAccessKey cred = []
      then (Some (Error ''static credentials are empty''), w)
      else (None, log (EvNewSession cred) (w\<lparr>S3Session := cred\<rparr>)))"

subsection \<open>VerifyObject\<close>

text \<open>
  The result is \<open>(isExist, integrity, etag, err)\<close>. \<open>integrity\<close> is assigned only on the
  \<open>err == nil\<close> branch; the \<open>err\<close> declared by \<open>vault, err :=\<close> inside the credential
  branch shadows the function's \<open>err\<close>, so each \<open>break\<close> of that branch returns the
  error of \<open>HeadObject\<close>. The loop calls \<open>NextBackOff\<close> and does not sleep.
\<close>

definition VerifyObject_pass ::
  "string \<Rightarrow> world \<Rightarrow>
     (bool \<times> bool \<times> string \<times> go_error option, bool \<times> string \<times> go_error) pass \<times> world" where
  "VerifyObject_pass key w =
     (case HeadObject key w of
        ((isExist, etag, None), w1) \<Rightarrow>
          (Return (isExist, isExist \<and> Contains etag key, etag, None), w1)
      | ((isExist, etag, Some err), w1) \<Rightarrow>
          (case err of
             AwsError code \<Rightarrow>
               if code = ''NotFound'' then (Return (isExist, False, etag, None), w1)
               else if denied code \<and> CredentialType w1 = ''DEFAULT'' then
                 (case GetCredentialStorageVault w1 of
                    (Inl e, w2) \<Rightarrow> (Return (isExist, False, etag, Some err), w2)
                  | (Inr cred, w2) \<Rightarrow>
                      (case RefreshCredential cred w2 of
                         (Some e, w3) \<Rightarrow> (Return (isExist, False, etag, Some err), w3)
                       | (None, w3) \<Rightarrow> (Retry (isExist, etag, err), w3)))
               else (Retry (isExist, etag, err), w1)
           | _ \<Rightarrow> (Retry (isExist, etag, err), w1)))"

fun VerifyObject_loop ::
  "nat \<Rightarrow> string \<Rightarrow> world \<Rightarrow> (bool \<times> bool \<times> string \<times> go_error option) \<times> world" where
  "VerifyObject_loop bo key w =
     (case VerifyObject_pass key w of
        (Return r, w1) \<Rightarrow> (r, w1)
      | (Retry (isExist, etag, err), w1) \<Rightarrow>
          (case bo of
             0 \<Rightarrow> ((isExist, False, etag, Some err), w1)
           | Suc bo' \<Rightarrow> VerifyObject_loop bo' key w1))"

declare VerifyObject_loop.simps [simp del]

definition VerifyObject ::
  "string \<Rightarrow> world \<Rightarrow> (bool \<times> bool \<times> string \<times> go_error option) \<times> world" where
  "VerifyObject key w =
     (case NewExponentialBackOff w of (bo, w0) \<Rightarrow> VerifyObject_loop bo key w0)"

subsection \<open>PutObject\<close>

definition manifest_key :: "string \<Rightarrow> bool" where
  "manifest_key key =
     (Contains key ''chunk.json'' \<or> Contains key ''index.json'' \<or> Contains key ''file.csv'')"

text \<open>
  The loop body down to the error handling. \<open>Return err\<close> is a \<open>break\<close> with the
  function's \<open>err\<close> as it then stands (it survives from one pass to the next);
  \<open>Retry e\<close> reaches the error handling with \<open>err = e\<close>.
\<close>

definition PutObject_body ::
  "go_error option \<Rightarrow> string \<Rightarrow> bytes \<Rightarrow> world \<Rightarrow> (go_error option, go_error) pass \<times> world" where
  "PutObject_body err key data w =
     (case VerifyObject key w of
        ((isExist, integrity, _, _), w1) \<Rightarrow>
          if isExist then
            (if \<not> integrity then
               (case sdk_PutObject key data w1 of
                  (None, w2) \<Rightarrow> (Return None, w2)
                | (Some e, w2) \<Rightarrow> (Retry e, w2))
             else (Return err, w1))
          else
            (case sdk_PutObject key data w1 of
               (err1, w2) \<Rightarrow>
                 if \<not> manifest_key key then
                   (case VerifyObject key w2 of
                      ((isExist2, integrity2, _, _), w3) \<Rightarrow>
                        if isExist2 then
                          (if \<not> integrity2 then
                             (case sdk_PutObject key data w3 of
                                (None, w4) \<Rightarrow> (Return None, w4)
                              | (Some e, w4) \<Rightarrow> (Retry e, w4))
                           else (Return err1, w3))
                        else
                          (case err1 of
                             None \<Rightarrow> (Return None, w3)
                           | Some e \<Rightarrow> (Retry e, w3)))
                 else
                   (case err1 of
                      None \<Rightarrow> (Return None, w2)
                    | Some e \<Rightarrow> (Retry e, w2))))"

definition PutObject_pass ::
  "bool \<Rightarrow> go_error option \<Rightarrow> string \<Rightarrow> bytes \<Rightarrow> world \<Rightarrow>
     (go_error option, bool \<times> go_error) pass \<times> world" where
  "PutObject_pass once err key data w =
     (case PutObject_body err key data w of
        (Return r, w1) \<Rightarrow> (Return r, w1)
      | (Retry e, w1) \<Rightarrow>
          (case e of
             AwsError code \<Rightarrow>
               if denied code then
                 (if once then (Return (Some e), w1)
                  else (Retry (True, e), sleep_rand w1))
               else (Retry (once, e), w1)
           | _ \<Rightarrow> (Retry (once, e), w1)))"

fun PutObject_loop ::
  "nat \<Rightarrow> bool \<Rightarrow> go_error option \<Rightarrow> string \<Rightarrow> bytes \<Rightarrow> world \<Rightarrow> go_error option \<times> world" where
  "PutObject_loop bo once err key data w =
     (case PutObject_pass once err key data w of
        (Return r, w1) \<Rightarrow> (r, w1)
      | (Retry (once', e), w1) \<Rightarrow>
          (case bo of
             0 \<Rightarrow> (Some e, w1)
           | Suc bo' \<Rightarrow> PutObject_loop bo' once' (Some e) key data (log EvSleepBackOff w1)))"

declare PutObject_loop.simps [simp del]

definition PutObject :: "string \<Rightarrow> bytes \<Rightarrow> world \<Rightarrow> go_error option \<times> world" where
  "PutObject key data w =
     (case NewExponentialBackOff w of (bo, w0) \<Rightarrow> PutObject_loop bo False None key data w0)"

subsection \<open>GetObject\<close>

text \<open>
  A Go call returns or panics. When the loop of \<open>GetObject\<close> is left because the backoff
  answered \<open>Stop\<close>, the last request failed and \<open>obj.Body\<close> is nil: \<open>ioutil.ReadAll\<close>
  then dereferences nil.
\<close>

datatype 'a go_result = Result 'a | Panic

definition GetObject_pass ::
  "bool \<Rightarrow> string \<Rightarrow> world \<Rightarrow> ((bytes \<times> go_error option) go_result, bool) pass \<times> world" where
  "GetObject_pass once key w =
     (case sdk_GetObject key w of
        (Inr (body, rerr), w1) \<Rightarrow> (Return (Result (body, rerr)), w1)
      | (Inl err, w1) \<Rightarrow>
          (case err of
             AwsError code \<Rightarrow>
               if code = ''NoSuchKey'' then (Return (Result ([], Some err)), w1)
               else if denied code then
                 (if once then (Return (Result ([], Some err)), w1)
                  else (Retry True, sleep_rand w1))
               else (Return (Result ([], Some err)), w1)
           | _ \<Rightarrow> (Retry once, w1)))"

fun GetObject_loop ::
  "nat \<Rightarrow> bool \<Rightarrow> string \<Rightarrow> world \<Rightarrow> (bytes \<times> go_error option) go_result \<times> world" where
  "GetObject_loop bo once key w =
     (case GetObject_pass once key w of
        (Return r, w1) \<Rightarrow> (r, w1)
      | (Retry once', w1) \<Rightarrow>
          (case bo of
             0 \<Rightarrow> (Panic, w1)
           | Suc bo' \<Rightarrow> GetObject_loop bo' once' key (log EvSleepBackOff w1)))"

declare GetObject_loop.simps [simp del]

definition GetObject :: "string \<Rightarrow> world \<Rightarrow> (bytes \<times> go_error option) go_result \<times> world" where
  "GetObject key w =
     (case NewExponentialBackOff w of (bo, w0) \<Rightarrow> GetObject_loop bo False key w0)"

section \<open>The chunk pipeline and the differ (package backupapi)\<close>

subsection \<open>What the pipeline calls\<close>

text \<open>\<open>hex.EncodeToString\<close>.\<close>

definition hex_digit :: "nat \<Rightarrow> char" where
  "hex_digit d = ''0123456789abcdef'' ! d"

definition EncodeToString :: "bytes \<Rightarrow> string" where
  "EncodeToString bs = concat (map (\<lambda>b. [hex_digit (unat b div 16), hex_digit (unat b mod 16)]) bs)"

text \<open>
  Modelled from the spec: \<open>Client.PutObject\<close> and \<open>Client.GetObject\<close> (the file of
  package backupapi that defines them is not among the sources) are the \<open>put(key, bytes)\<close>
  and \<open>get(key)\<close> of the object-store client, on the storage vault they are given.
\<close>

definition Client_PutObject :: "string \<Rightarrow> bytes \<Rightarrow> world \<Rightarrow> go_error option \<times> world" where
  "Client_PutObject key b w = PutObject key b w"

definition Client_GetObject :: "string \<Rightarrow> world \<Rightarrow> (bytes \<times> go_error option) go_result \<times> world" where
  "Client_GetObject key w = GetObject key w"

text \<open>
  Modelled from the spec: \<open>cache.NewChunk(bdID, rpID)\<close> (pkg/cache is not among the
  sources) makes a chunk manifest record of that backup directory and recovery point
  with no chunk in it.
\<close>

definition NewChunk :: "string \<Rightarrow> string \<Rightarrow> cache_Chunk" where
  "NewChunk bdID rpID = \<lparr>BackupDirectoryID = bdID, RecoveryPointID = rpID, Chunks = []\<rparr>"

text \<open>\<open>pipe <- chunks\<close>.\<close>

definition send :: "cache_Chunk \<Rightarrow> world \<Rightarrow> world" where
  "send c w = w\<lparr>pipe := pipe w @ [c]\<rparr>"

text \<open>
  \<open>OpenFile\<close>. The second try through a VSS snapshot needs \<open>force\<close> and the privileges
  for VSS; this is a host without VSS, where \<open>HasSufficientPrivilegesForVSS\<close> fails and
  the result of \<open>os.Open\<close> is returned.
\<close>

definition OpenFile :: "path \<Rightarrow> world \<Rightarrow> (go_error + inode) \<times> world" where
  "OpenFile p w = os_Open p w"

subsection \<open>The chunker (github.com/restic/chunker)\<close>

text \<open>
  The chunker cuts the stream where its rolling hash says, content only deciding; each
  chunk has at least one byte, and the chunks follow each other from offset 0.
\<close>

function split_chunks :: "(bytes \<Rightarrow> nat) \<Rightarrow> nat \<Rightarrow> bytes \<Rightarrow> chunker_Chunk list" where
  "split_chunks f pos bs =
     (if bs = [] then []
      else \<lparr>Start = pos, Length = max 1 (min (f bs) (length bs)),
             Data = take (max 1 (min (f bs) (length bs))) bs\<rparr>
           # split_chunks f (pos + max 1 (min (f bs) (length bs)))
               (drop (max 1 (min (f bs) (length bs))) bs))"
  by pat_completeness auto
termination
  by (relation "measure (\<lambda>(f, pos, bs). length bs)") auto

declare split_chunks.simps [simp del]

text \<open>
  All that \<open>Next\<close> returns for one opened file: the chunks, then \<open>io.EOF\<close> (\<open>None\<close>) or
  a read error. Reading anything but a regular file fails at once.
\<close>

definition chunk_stream ::
  "(bytes \<Rightarrow> nat) \<Rightarrow> nat option \<Rightarrow> inode \<Rightarrow> chunker_Chunk list \<times> go_error option" where
  "chunk_stream f fail file =
     (if i_kind file \<noteq> RegularFile then ([], Some (Error ''read error''))
      else
        (case fail of
           None \<Rightarrow> (split_chunks f 0 (i_data file), None)
         | Some n \<Rightarrow>
             if n \<le> length (split_chunks f 0 (i_data file))
             then (take n (split_chunks f 0 (i_data file)), Some (Error ''read error''))
             else (split_chunks f 0 (i_data file), None)))"

definition chunker_New :: "inode \<Rightarrow> world \<Rightarrow> (chunker_Chunk list \<times> go_error option) \<times> world" where
  "chunker_New file w =
     (case read_script w of
        [] \<Rightarrow> (chunk_stream (cut w) None file, w)
      | f # fs \<Rightarrow> (chunk_stream (cut w) f file, w\<lparr>read_script := fs\<rparr>))"

subsection \<open>backupChunk and backupChunkJob\<close>

text \<open>
  The variables of \<open>ChunkFileToBackup\<close> that the jobs write through pointers, and
  whether the \<open>cancel\<close> of its context has been called.
\<close>

record job_state =
  errBackupChunk :: "go_error option"
  stat :: nat
  cancelled :: bool

definition backupChunk ::
  "bool \<Rightarrow> bytes \<Rightarrow> ChunkInfo \<Rightarrow> string \<Rightarrow> string \<Rightarrow> world \<Rightarrow>
     ((nat \<times> go_error option) \<times> ChunkInfo) \<times> world" where
  "backupChunk c b chunk rpID bdID w =
     (case ctx_Done c w of
        (True, w1) \<Rightarrow> (((0, Some ErrorGotCancelRequest), chunk), w1)
      | (False, w1) \<Rightarrow>
          (case Client_PutObject (EncodeToString (md5_Sum w1 b)) b w1 of
             (Some err, w2) \<Rightarrow>
               (((0, Some err), chunk\<lparr>Etag := EncodeToString (md5_Sum w1 b)\<rparr>), w2)
           | (None, w2) \<Rightarrow>
               (((Length chunk, None), chunk\<lparr>Etag := EncodeToString (md5_Sum w1 b)\<rparr>),
                send ((NewChunk bdID rpID)
                       \<lparr>Chunks := [(EncodeToString (md5_Sum w1 b),
                                    [Itoa 1, Itoa (int (Length chunk))])]\<rparr>) w2)))"

text \<open>
  One job, run where it is submitted. The chunk it is given is the one whose address was
  appended to \<open>itemInfo.Content\<close>; the chunk it returns is what that entry then holds.
\<close>

definition backupChunkJob ::
  "job_state \<Rightarrow> bytes \<Rightarrow> ChunkInfo \<Rightarrow> string \<Rightarrow> string \<Rightarrow> world \<Rightarrow>
     (job_state \<times> ChunkInfo) \<times> world" where
  "backupChunkJob js b chunk rpID bdID w =
     (case ctx_Done (cancelled js) w of
        (True, w1) \<Rightarrow> ((js, chunk), w1)
      | (False, w1) \<Rightarrow>
          (case backupChunk (cancelled js) b chunk rpID bdID w1 of
             (((saveSize, Some err), chunk'), w2) \<Rightarrow>
               ((js\<lparr>errBackupChunk := Some err, cancelled := True\<rparr>, chunk'),
                Report (Stat0\<lparr>Errors := True\<rparr>) w2)
           | (((saveSize, None), chunk'), w2) \<Rightarrow>
               ((js\<lparr>stat := stat js + saveSize\<rparr>, chunk'),
                Report (Stat0\<lparr>Storage := saveSize, Bytes := Length chunk'\<rparr>) w2)))"

subsection \<open>ChunkFileToBackup\<close>

text \<open>
  The inner loop over \<open>chk.Next(buf)\<close>, on the chunks the stream still holds and the
  way it ends. Its state is the \<open>Content\<close> of the node, the bytes written to \<open>fileHash\<close>
  and the jobs' variables. \<open>copy(temp, chunk.Data)\<close> copies the shorter of the two
  lengths.
\<close>

fun chunk_loop ::
  "chunker_Chunk list \<Rightarrow> go_error option \<Rightarrow> string \<Rightarrow> string \<Rightarrow>
     ChunkInfo list \<times> bytes \<times> job_state \<Rightarrow> world \<Rightarrow>
     (go_error option \<times> ChunkInfo list \<times> bytes \<times> job_state) \<times> world" where
  "chunk_loop [] end_err rpID bdID st w = ((end_err, st), w)"
| "chunk_loop (c # cs) end_err rpID bdID (content, hashed, js) w =
     (if min (Length c) (length (Data c)) \<noteq> Length c
      then ((Some (Error ''copy chunk data error''), content, hashed, js), w)
      else
        (case backupChunkJob js (Data c) \<lparr>Start = Start c, Length = Length c, Etag = []\<rparr>
                rpID bdID w of
           ((js', chunk'), w1) \<Rightarrow>
             chunk_loop cs end_err rpID bdID (content @ [chunk'], hashed @ Data c, js') w1))"

definition MaxTimesRetryChunk :: nat where
  "MaxTimesRetryChunk = 3"

text \<open>
  The outer \<open>for\<close> loop. \<open>tries\<close> is how often the \<open>NextBackOff\<close> of
  \<open>backoff.WithMaxRetries(backoff.NewConstantBackOff(IntervalTimeRetryChunk),
  MaxTimesRetryChunk)\<close> will still answer with a delay; the loop does not sleep for it.
  \<open>fileHash\<close> starts anew in every pass, \<open>itemInfo.Content\<close> is the node's and is only
  appended to. \<open>Inl\<close> is a \<open>return\<close> from inside the loop, \<open>Inr\<close> its \<open>break\<close> with
  \<open>errChunk\<close> and the hashed bytes.
\<close>

fun ChunkFileToBackup_loop ::
  "nat \<Rightarrow> string \<Rightarrow> string \<Rightarrow> Node \<Rightarrow> job_state \<Rightarrow> world \<Rightarrow>
     (((nat \<times> go_error option) + (go_error option \<times> bytes)) \<times> Node \<times> job_state) \<times> world" where
  "ChunkFileToBackup_loop tries rpID bdID itemInfo js w =
     (case OpenFile (AbsolutePath itemInfo) w of
        (Inl err, w1) \<Rightarrow>
          if err = ErrNotExist
          then ((Inl (0, None), itemInfo, js),
                Report (Stat0\<lparr>ItemName := [AbsolutePath itemInfo], Errors := True\<rparr>) w1)
          else ((Inl (0, Some err), itemInfo, js), w1)
      | (Inr file, w1) \<Rightarrow>
          (case chunker_New file w1 of
             ((chunks, end_err), w2) \<Rightarrow>
               (case chunk_loop chunks end_err rpID bdID (Content itemInfo, [], js) w2 of
                  ((err, content, hashed, js'), w3) \<Rightarrow>
                    (case err of
                       Some e \<Rightarrow>
                         (case tries of
                            0 \<Rightarrow> ((Inr (Some e, hashed), itemInfo\<lparr>Content := content\<rparr>, js'), w3)
                          | Suc n \<Rightarrow>
                              ChunkFileToBackup_loop n rpID bdID
                                (itemInfo\<lparr>Content := content\<rparr>) js' w3)
                     | None \<Rightarrow> ((Inr (None, hashed), itemInfo\<lparr>Content := content\<rparr>, js'), w3)))))"

declare ChunkFileToBackup_loop.simps [simp del]

definition ChunkFileToBackup ::
  "Node \<Rightarrow> string \<Rightarrow> string \<Rightarrow> world \<Rightarrow> ((nat \<times> go_error option) \<times> Node) \<times> world" where
  "ChunkFileToBackup itemInfo rpID bdID w =
     (case ctx_Done False w of
        (True, w1) \<Rightarrow> (((0, Some ErrorGotCancelRequest), itemInfo), w1)
      | (False, w1) \<Rightarrow>
          (case ChunkFileToBackup_loop MaxTimesRetryChunk rpID bdID itemInfo
                  \<lparr>errBackupChunk = None, stat = 0, cancelled = False\<rparr> w1 of
             ((Inl r, itemInfo', js), w2) \<Rightarrow> ((r, itemInfo'), w2)
           | ((Inr (errChunk, hashed), itemInfo', js), w2) \<Rightarrow>
               (case errChunk of
                  Some e \<Rightarrow> (((0, Some e), itemInfo'), w2)
                | None \<Rightarrow>
                    (case errBackupChunk js of
                       Some e \<Rightarrow> (((0, Some e), itemInfo'), w2)
                     | None \<Rightarrow>
                         (((stat js, None),
                           itemInfo'\<lparr>Sha256Hash := sha256_Sum w2 hashed\<rparr>), w2)))))"

subsection \<open>UploadFile\<close>

text \<open>The \<open>for _, content := range lastInfo.Content\<close> of the reuse branch.\<close>

fun reemit :: "ChunkInfo list \<Rightarrow> string \<Rightarrow> string \<Rightarrow> world \<Rightarrow> world" where
  "reemit [] rpID bdID w = w"
| "reemit (content # rest) rpID bdID w =
     reemit rest rpID bdID
       (send ((NewChunk bdID rpID)
               \<lparr>Chunks := [(Etag content, [Itoa 1, Itoa (int (Length content))])]\<rparr>) w)"

definition UploadFile ::
  "Node option \<Rightarrow> Node \<Rightarrow> string \<Rightarrow> string \<Rightarrow> world \<Rightarrow> ((nat \<times> go_error option) \<times> Node) \<times> world" where
  "UploadFile lastInfo itemInfo rpID bdID w =
     (case ctx_Done False w of
        (True, w1) \<Rightarrow> (((0, Some ErrorGotCancelRequest), itemInfo), w1)
      | (False, w1) \<Rightarrow>
          (case (case lastInfo of
                   None \<Rightarrow> None
                 | Some li \<Rightarrow>
                     if \<not> EqualFold (timeToString (ModTime li)) (timeToString (ModTime itemInfo))
                     then None else Some li) of
             None \<Rightarrow>
               (case ChunkFileToBackup itemInfo rpID bdID w1 of
                  (((storageSize, Some err), itemInfo'), w2) \<Rightarrow>
                    (((0, Some err), itemInfo'), Report (Stat0\<lparr>Errors := True\<rparr>) w2)
                | (((storageSize, None), itemInfo'), w2) \<Rightarrow>
                    (((storageSize, None), itemInfo'), Report Stat0 w2))
           | Some li \<Rightarrow>
               (((0, None), itemInfo\<lparr>Content := Content li, Sha256Hash := Sha256Hash li\<rparr>),
                Report Stat0 (reemit (Content li) rpID bdID w1))))"

section \<open>The restore engine (package backupapi)\<close>

subsection \<open>createSymlink, createDir, createFile\<close>

text \<open>\<open>os.ModePerm\<close> is 0777 (511), and 0700 is 448.\<close>

definition createSymlink ::
  "link \<Rightarrow> path \<Rightarrow> 32 word \<Rightarrow> nat \<Rightarrow> nat \<Rightarrow> world \<Rightarrow> go_error option \<times> world" where
  "createSymlink symlinkPath p m uid gid w =
     (case os_Stat (Dir p) w of
        (st, w1) \<Rightarrow>
          (case (if st = Inl ErrNotExist then os_MkdirAll (Dir p) 511 w1 else (None, w1)) of
             (Some err, w2) \<Rightarrow> (Some err, w2)
           | (None, w2) \<Rightarrow>
               (case os_Symlink symlinkPath p w2 of
                  (_, w3) \<Rightarrow>
                    (case os_Chmod p m w3 of
                       (_, w4) \<Rightarrow>
                         (case SetChownItem p uid gid w4 of
                            (_, w5) \<Rightarrow> (None, w5))))))"

definition createDir ::
  "path \<Rightarrow> 32 word \<Rightarrow> nat \<Rightarrow> nat \<Rightarrow> Time \<Rightarrow> Time \<Rightarrow> world \<Rightarrow> go_error option \<times> world" where
  "createDir p m uid gid at mt w =
     (case os_MkdirAll p 511 w of
        (Some err, w1) \<Rightarrow> (Some err, w1)
      | (None, w1) \<Rightarrow>
          (case os_Chmod p m w1 of
             (Some err, w2) \<Rightarrow> (Some err, w2)
           | (None, w2) \<Rightarrow>
               (case SetChownItem p uid gid w2 of
                  (_, w3) \<Rightarrow> os_Chtimes p at mt w3)))"

definition createFile ::
  "path \<Rightarrow> 32 word \<Rightarrow> nat \<Rightarrow> nat \<Rightarrow> world \<Rightarrow> (go_error + os_File) \<times> world" where
  "createFile p m uid gid w =
     (case os_Stat (Dir p) w of
        (st, w1) \<Rightarrow>
          (case (if st = Inl ErrNotExist then os_MkdirAll (Dir p) 448 w1 else (None, w1)) of
             (Some err, w2) \<Rightarrow> (Inl err, w2)
           | (None, w2) \<Rightarrow>
               (case os_Create p w2 of
                  (Inl err, w3) \<Rightarrow> (Inl err, w3)
                | (Inr file, w3) \<Rightarrow>
                    (case os_Chmod p m w3 of
                       (Some err, w4) \<Rightarrow> (Inl err, w4)
                     | (None, w4) \<Rightarrow>
                         (case SetChownItem p uid gid w4 of
                            (_, w5) \<Rightarrow> (Inr file, w5))))))"

subsection \<open>downloadFile\<close>

text \<open>
  The loop over \<open>item.Content\<close>; \<open>s\<close> is the \<open>progress.Stat\<close> of the function, which
  keeps the sizes of the chunk before. A restore function returns its error, nil for
  none, or panics with \<open>GetObject\<close>.
\<close>

fun downloadFile_loop ::
  "ChunkInfo list \<Rightarrow> bool \<Rightarrow> os_File \<Rightarrow> Stat \<Rightarrow> world \<Rightarrow>
     (go_error option go_result \<times> Stat) \<times> world" where
  "downloadFile_loop [] c file s w = ((Result None, s), w)"
| "downloadFile_loop (info # infos) c file s w =
     (case ctx_Done c w of
        (True, w1) \<Rightarrow> ((Result (Some ErrorGotCancelRequest), s), w1)
      | (False, w1) \<Rightarrow>
          (case Client_GetObject (Etag info) w1 of
             (Panic, w2) \<Rightarrow> ((Panic, s), w2)
           | (Result (b, Some err), w2) \<Rightarrow>
               ((Result (Some err), s), Report (s\<lparr>Errors := True\<rparr>) w2)
           | (Result (b, None), w2) \<Rightarrow>
               (case os_WriteAt file (Start info) b
                       (Report (s\<lparr>Bytes := Length info, Storage := Length info\<rparr>) w2) of
                  (Some err, w3) \<Rightarrow>
                    ((Result (Some err), s),
                     Report (s\<lparr>Bytes := Length info, Storage := Length info, Errors := True\<rparr>) w3)
                | (None, w3) \<Rightarrow>
                    downloadFile_loop infos c file
                      (s\<lparr>Bytes := Length info, Storage := Length info\<rparr>) w3)))"

definition downloadFile ::
  "bool \<Rightarrow> os_File \<Rightarrow> Node \<Rightarrow> world \<Rightarrow> go_error option go_result \<times> world" where
  "downloadFile c file item w =
     (case downloadFile_loop (Content item) c file Stat0 w of
        ((Panic, s), w1) \<Rightarrow> (Panic, w1)
      | ((Result (Some err), s), w1) \<Rightarrow> (Result (Some err), w1)
      | ((Result None, s), w1) \<Rightarrow>
          (case os_Chmod (fst file) (Mode item) w1 of
             (Some err, w2) \<Rightarrow> (Result (Some err), Report (s\<lparr>Errors := True\<rparr>) w2)
           | (None, w2) \<Rightarrow>
               (case SetChownItem (fst file) (UID item) (GID item) w2 of
                  (_, w3) \<Rightarrow>
                    (case os_Chtimes (fst file) (AccessTime item) (ModTime item) w3 of
                       (Some err, w4) \<Rightarrow> (Result (Some err), Report (s\<lparr>Errors := True\<rparr>) w4)
                     | (None, w4) \<Rightarrow> (Result None, w4)))))"

subsection \<open>restoreSymlink, restoreDirectory, restoreFile\<close>

definition restoreSymlink :: "bool \<Rightarrow> path \<Rightarrow> Node \<Rightarrow> world \<Rightarrow> go_error option \<times> world" where
  "restoreSymlink c target item w =
     (case ctx_Done c w of
        (True, w1) \<Rightarrow> (Some (Error ''context restore item done''), w1)
      | (False, w1) \<Rightarrow>
          (case os_Stat target w1 of
             (Inl err, w2) \<Rightarrow>
               if err = ErrNotExist then
                 (case createSymlink (LinkTarget item) target (Mode item) (UID item) (GID item) w2 of
                    (Some e, w3) \<Rightarrow> (Some e, Report (Stat0\<lparr>Errors := True\<rparr>) w3)
                  | (None, w3) \<Rightarrow> (None, w3))
               else (Some err, Report (Stat0\<lparr>Errors := True\<rparr>) w2)
           | (Inr fi, w2) \<Rightarrow>
               if \<not> EqualFold (timeToString (fst (ItemLocal fi))) (timeToString (ChangeTime item))
               then
                 (case os_Chmod target (Mode item) w2 of
                    (Some err, w3) \<Rightarrow> (Some err, Report (Stat0\<lparr>Errors := True\<rparr>) w3)
                  | (None, w3) \<Rightarrow>
                      (case SetChownItem target (UID item) (GID item) w3 of
                         (_, w4) \<Rightarrow> (None, w4)))
               else (None, w2)))"

definition restoreDirectory :: "bool \<Rightarrow> path \<Rightarrow> Node \<Rightarrow> world \<Rightarrow> go_error option \<times> world" where
  "restoreDirectory c target item w =
     (case ctx_Done c w of
        (True, w1) \<Rightarrow> (None, w1)
      | (False, w1) \<Rightarrow>
          (case os_Stat target w1 of
             (Inl err, w2) \<Rightarrow>
               if err = ErrNotExist then
                 (case createDir target (ModeDir OR Mode item) (UID item) (GID item)
                         (AccessTime item) (ModTime item) w2 of
                    (Some e, w3) \<Rightarrow> (Some e, Report (Stat0\<lparr>Errors := True\<rparr>) w3)
                  | (None, w3) \<Rightarrow> (None, w3))
               else (Some err, Report (Stat0\<lparr>Errors := True\<rparr>) w2)
           | (Inr fi, w2) \<Rightarrow>
               if \<not> EqualFold (timeToString (fst (ItemLocal fi))) (timeToString (ChangeTime item))
               then
                 (case os_Chmod target (ModeDir OR Mode item) w2 of
                    (Some err, w3) \<Rightarrow> (Some err, Report (Stat0\<lparr>Errors := True\<rparr>) w3)
                  | (None, w3) \<Rightarrow>
                      (case SetChownItem target (UID item) (GID item) w3 of
                         (_, w4) \<Rightarrow> (None, w4)))
               else (None, w2)))"

text \<open>
  \<open>c.createFile\<close> followed by \<open>c.downloadFile\<close>, as both branches of \<open>restoreFile\<close> that
  fetch the chunks do it; \<open>final_report\<close> is the \<open>p.Report(s)\<close> that only the first of
  them ends with.
\<close>

definition create_and_download ::
  "bool \<Rightarrow> bool \<Rightarrow> path \<Rightarrow> Node \<Rightarrow> world \<Rightarrow> go_error option go_result \<times> world" where
  "create_and_download final_report c target item w =
     (case createFile target (Mode item) (UID item) (GID item) w of
        (Inl err, w1) \<Rightarrow> (Result (Some err), Report (Stat0\<lparr>Errors := True\<rparr>) w1)
      | (Inr file, w1) \<Rightarrow>
          (case downloadFile c file item w1 of
             (Panic, w2) \<Rightarrow> (Panic, w2)
           | (Result (Some err), w2) \<Rightarrow> (Result (Some err), Report (Stat0\<lparr>Errors := True\<rparr>) w2)
           | (Result None, w2) \<Rightarrow>
               (Result None, if final_report then Report Stat0 w2 else w2)))"

definition restoreFile :: "bool \<Rightarrow> path \<Rightarrow> Node \<Rightarrow> world \<Rightarrow> go_error option go_result \<times> world" where
  "restoreFile c target item w =
     (case ctx_Done c w of
        (True, w1) \<Rightarrow> (Result (Some ErrorGotCancelRequest), w1)
      | (False, w1) \<Rightarrow>
          (case os_Stat target w1 of
             (Inl err, w2) \<Rightarrow>
               if err = ErrNotExist then create_and_download True c target item w2
               else (Result (Some err), Report (Stat0\<lparr>Errors := True\<rparr>) w2)
           | (Inr fi, w2) \<Rightarrow>
               if \<not> EqualFold (timeToString (fst (ItemLocal fi))) (timeToString (ChangeTime item))
               then
                 (if \<not> EqualFold (timeToString (snd (ItemLocal fi))) (timeToString (ModTime item))
                  then
                    (case os_Remove target w2 of
                       (Some err, w3) \<Rightarrow> (Result (Some err), Report (Stat0\<lparr>Errors := True\<rparr>) w3)
                     | (None, w3) \<Rightarrow> create_and_download False c target item w3)
                  else
                    (case os_Chmod target (Mode item) w2 of
                       (Some err, w3) \<Rightarrow> (Result (Some err), Report (Stat0\<lparr>Errors := True\<rparr>) w3)
                     | (None, w3) \<Rightarrow>
                         (case SetChownItem target (UID item) (GID item) w3 of
                            (_, w4) \<Rightarrow>
                              (case os_Chtimes target (AccessTime item) (ModTime item) w4 of
                                 (Some err, w5) \<Rightarrow>
                                   (Result (Some err), Report (Stat0\<lparr>Errors := True\<rparr>) w5)
                               | (None, w5) \<Rightarrow> (Result None, w5)))))
               else (Result None, w2)))"

subsection \<open>RestoreItem and RestoreDirectory\<close>

definition pathItem :: "path \<Rightarrow> Node \<Rightarrow> path" where
  "pathItem destDir item =
     (if destDir = BasePath item then AbsolutePath item else destDir @ RelativePath item)"

text \<open>
  The three cases of the \<open>switch\<close> end alike: an error is reported with \<open>Errors\<close> set and
  returned, success is reported; then \<open>s.Items = 1\<close> is reported. Another \<open>Type\<close> only
  does the latter.
\<close>

definition RestoreItem :: "bool \<Rightarrow> path \<Rightarrow> Node \<Rightarrow> world \<Rightarrow> go_error option go_result \<times> world" where
  "RestoreItem c destDir item w =
     (case ctx_Done c w of
        (True, w1) \<Rightarrow> (Result (Some ErrorGotCancelRequest), w1)
      | (False, w1) \<Rightarrow>
          (case (if Type item = ''symlink'' then
                   (case restoreSymlink c (pathItem destDir item) item w1 of
                      (r, w2) \<Rightarrow> (Result r, True, w2))
                 else if Type item = ''dir'' then
                   (case restoreDirectory c (pathItem destDir item) item w1 of
                      (r, w2) \<Rightarrow> (Result r, True, w2))
                 else if Type item = ''file'' then
                   (case restoreFile c (pathItem destDir item) item w1 of
                      (r, w2) \<Rightarrow> (r, True, w2))
                 else (Result None, False, w1)) of
             (Panic, known, w2) \<Rightarrow> (Panic, w2)
           | (Result (Some err), known, w2) \<Rightarrow>
               (Result (Some err), Report (Stat0\<lparr>Errors := True\<rparr>) w2)
           | (Result None, known, w2) \<Rightarrow>
               (Result None,
                Report (Stat0\<lparr>Items := 1\<rparr>) (if known then Report Stat0 w2 else w2))))"

text \<open>
  \<open>RestoreDirectory\<close>, one item after the other. The context of the \<open>errgroup\<close> is done
  once a task has returned an error; \<open>first\<close> is the error \<open>group.Wait()\<close> will return.
  The \<open>break\<close> after \<open>p.Cancel()\<close> leaves the \<open>select\<close>, not the loop. The semaphore
  never makes a task wait here, so \<open>sem.Acquire\<close> succeeds.
\<close>

fun RestoreDirectory_loop ::
  "Node list \<Rightarrow> path \<Rightarrow> go_error option \<Rightarrow> world \<Rightarrow> go_error option go_result \<times> world" where
  "RestoreDirectory_loop [] destDir first w = (Result first, w)"
| "RestoreDirectory_loop (item # items) destDir first w =
     (case ctx_Done (first \<noteq> None) w of
        (True, w1) \<Rightarrow> RestoreDirectory_loop items destDir first (log EvProgressCancel w1)
      | (False, w1) \<Rightarrow>
          (case RestoreItem (first \<noteq> None) destDir item w1 of
             (Panic, w2) \<Rightarrow> (Panic, w2)
           | (Result (Some err), w2) \<Rightarrow>
               RestoreDirectory_loop items destDir
                 (case first of None \<Rightarrow> Some err | Some e \<Rightarrow> Some e)
                 (Report (Stat0\<lparr>Errors := True\<rparr>) w2)
           | (Result None, w2) \<Rightarrow> RestoreDirectory_loop items destDir first w2))"

text \<open>Of its \<open>cache.Index\<close> the function reads \<open>index.Items\<close> only; \<open>items\<close> is that list.\<close>

definition RestoreDirectory :: "Node list \<Rightarrow> path \<Rightarrow> world \<Rightarrow> go_error option go_result \<times> world" where
  "RestoreDirectory items destDir w = RestoreDirectory_loop items destDir None w"

section \<open>The server (pkg/server/server.go)\<close>

subsection \<open>The cron entries of the backup policies\<close>

text \<open>The fields of the two configuration records that the server reads.\<close>

record BackupDirectoryConfigPolicy =
  ID :: string
  SchedulePattern :: string
  Activated :: bool

record BackupDirectoryConfig =
  ID :: string
  Policies :: "BackupDirectoryConfigPolicy list"

text \<open>
  \<open>cron.Cron\<close> (github.com/robfig/cron/v3): its entries, each an \<open>EntryID\<close> with the
  schedule it was added under, the last id given out, and which schedule patterns its
  parser accepts.
\<close>

record Cron =
  entries :: "(nat \<times> string) list"
  next_id :: nat
  parses :: "string \<Rightarrow> bool"

definition AddFunc :: "string \<Rightarrow> Cron \<Rightarrow> (go_error + nat) \<times> Cron" where
  "AddFunc spec c =
     (if parses c spec
      then (Inr (next_id c + 1),
            c\<lparr>next_id := next_id c + 1, entries := entries c @ [(next_id c + 1, spec)]\<rparr>)
      else (Inl (Error ''cannot parse the schedule''), c))"

definition Remove :: "nat \<Rightarrow> Cron \<Rightarrow> Cron" where
  "Remove entryID c = c\<lparr>entries := filter (\<lambda>(i, spec). i \<noteq> entryID) (entries c)\<rparr>"

text \<open>The two fields of \<open>Server\<close> that \<open>mu\<close> guards.\<close>

record Server =
  cronManager :: Cron
  cronPolicyIDToCronID :: "(string \<times> nat) list"

fun remove_policies ::
  "string \<Rightarrow> BackupDirectoryConfigPolicy list \<Rightarrow> Server \<Rightarrow> Server" where
  "remove_policies bdID [] s = s"
| "remove_policies bdID (policy # policies) s =
     (case map_of (cronPolicyIDToCronID s) (BackupDirectoryConfigPolicy.ID policy @ bdID) of
        Some entryID \<Rightarrow>
          remove_policies bdID policies
            (s\<lparr>cronManager := Remove entryID (cronManager s),
               cronPolicyIDToCronID :=
                 AList.delete (BackupDirectoryConfigPolicy.ID policy @ bdID)
                   (cronPolicyIDToCronID s)\<rparr>)
      | None \<Rightarrow> remove_policies bdID policies s)"

fun removeFromCronManager :: "BackupDirectoryConfig list \<Rightarrow> Server \<Rightarrow> Server" where
  "removeFromCronManager [] s = s"
| "removeFromCronManager (bd # bdc) s =
     removeFromCronManager bdc (remove_policies (ID bd) (Policies bd) s)"

fun add_policies ::
  "string \<Rightarrow> BackupDirectoryConfigPolicy list \<Rightarrow> Server \<Rightarrow> Server" where
  "add_policies bdID [] s = s"
| "add_policies bdID (policy # policies) s =
     (if \<not> Activated policy then add_policies bdID policies s
      else
        (case AddFunc (SchedulePattern policy) (cronManager s) of
           (Inl err, c) \<Rightarrow> add_policies bdID policies (s\<lparr>cronManager := c\<rparr>)
         | (Inr entryID, c) \<Rightarrow>
             add_policies bdID policies
               (s\<lparr>cronManager := c,
                  cronPolicyIDToCronID :=
                    AList.update (BackupDirectoryConfigPolicy.ID policy) entryID
                      (cronPolicyIDToCronID s)\<rparr>)))"

fun addToCronManager :: "BackupDirectoryConfig list \<Rightarrow> Server \<Rightarrow> Server" where
  "addToCronManager [] s = s"
| "addToCronManager (bd # bdc) s =
     addToCronManager bdc (add_policies (ID bd) (Policies bd) s)"

text \<open>\<open>New()\<close>: a started cron with no entry and an empty map.\<close>

definition New :: "(string \<Rightarrow> bool) \<Rightarrow> Server" where
  "New accepts =
     \<lparr>cronManager = \<lparr>entries = [], next_id = 0, parses = accepts\<rparr>,
      cronPolicyIDToCronID = []\<rparr>"

subsection \<open>backup\<close>

text \<open>
  What the calls of \<open>backup\<close> come back with: the two requests to the control plane
  before the archive is made, the calls on the file system and \<open>compressDir\<close>, and the
  upload of the archive. \<open>Publish\<close> can fail too; \<open>backup\<close> only logs that.
\<close>

record backup_calls =
  CreateRecoveryPoint_err :: "go_error option"
  GetBackupDirectory_err :: "go_error option"
  Chdir_err :: "go_error option"
  TempFile_err :: "go_error option"
  compressDir_err :: "go_error option"
  Close_err :: "go_error option"
  Open_err :: "go_error option"
  UploadFile_err :: "go_error option"

definition statusZipFile :: string where
  "statusZipFile = ''ZIP_FILE''"

definition statusUploadFile :: string where
  "statusUploadFile = ''UPLOADING''"

definition statusComplete :: string where
  "statusComplete = ''COMPLETED''"

text \<open>The result is the error \<open>backup\<close> returns and the statuses it has published.\<close>

definition backup :: "backup_calls \<Rightarrow> go_error option \<times> string list" where
  "backup env =
     (case CreateRecoveryPoint_err env of
        Some err \<Rightarrow> (Some err, [])
      | None \<Rightarrow>
     (case GetBackupDirectory_err env of
        Some err \<Rightarrow> (Some err, [])
      | None \<Rightarrow>
     (case Chdir_err env of
        Some err \<Rightarrow> (Some err, [statusZipFile])
      | None \<Rightarrow>
     (case TempFile_err env of
        Some err \<Rightarrow> (Some err, [statusZipFile])
      | None \<Rightarrow>
     (case compressDir_err env of
        Some err \<Rightarrow> (Some err, [statusZipFile])
      | None \<Rightarrow>
     (case Close_err env of
        Some err \<Rightarrow> (Some err, [statusZipFile])
      | None \<Rightarrow>
     (case Open_err env of
        Some err \<Rightarrow> (Some err, [statusZipFile])
      | None \<Rightarrow>
     (case UploadFile_err env of
        Some err \<Rightarrow> (None, [statusZipFile, statusUploadFile])
      | None \<Rightarrow> (None, [statusZipFile, statusUploadFile, statusComplete])))))))))"

section \<open>Sample worlds\<close>

text \<open>
  A world with an empty bucket, \<open>DEFAULT\<close> credentials and no scripted fault. The two
  digests are stand-ins that return the bytes themselves, and the store's ETag is the
  hex string of the body's MD5 in double quotes; the chunker cuts after two bytes.
\<close>

definition Time0 :: Time where
  "Time0 = \<lparr>year = 2021, month = 3, day = 4, hour = 5, minute = 6, second = 7, nanosecond = 0\<rparr>"

definition world0 :: world where
  "world0 =
     \<lparr>objects = Map.empty,
      etag_of = (\<lambda>d. CHR 0x22 # EncodeToString d @ [CHR 0x22]),
      s3_script = [],
      CredentialType = ''DEFAULT'',
      S3Session = \<lparr>AwsAccessKeyId = ''AK0'', AwsSecretAccessKey = ''SK0'', Token = []\<rparr>,
      cp_script = [],
      bo_script = [],
      rand_script = [],
      trace = [],
      files = [],
      os_script = [],
      now = Time0,
      euid = 0,
      egid = 0,
      umask = 18,
      read_script = [],
      cut = (\<lambda>bs. 2),
      md5_Sum = (\<lambda>bs. bs),
      sha256_Sum = (\<lambda>bs. bs),
      progress = [],
      pipe = [],
      cancel_in = None\<rparr>"

text \<open>A file node as the walk makes it, and the node of the same file in the prior RP.\<close>

definition file0 :: Node where
  "file0 =
     \<lparr>Name = ''a'', Type = ''file'', AbsolutePath = [''src'', ''a''], RelativePath = [''a''],
      BasePath = [''src''], Mode = 420, UID = 0, GID = 0,
      AccessTime = Time0, ModTime = Time0, ChangeTime = Time0,
      LinkTarget = Relative [], Sha256Hash = [], Content = []\<rparr>"

definition prior0 :: Node where
  "prior0 =
     file0\<lparr>ModTime := Time0\<lparr>nanosecond := 999\<rparr>, Sha256Hash := [7, 7],
            Content := [\<lparr>Start = 0, Length = 2, Etag = ''0102''\<rparr>,
                        \<lparr>Start = 2, Length = 1, Etag = ''03''\<rparr>]\<rparr>"

text \<open>A run of \<open>backup\<close> in which only the upload of the archive fails.\<close>

definition upload_fails :: backup_calls where
  "upload_fails =
     \<lparr>CreateRecoveryPoint_err = None, GetBackupDirectory_err = None, Chdir_err = None,
      TempFile_err = None, compressDir_err = None, Close_err = None, Open_err = None,
      UploadFile_err = Some (Error ''upload failed'')\<rparr>"

text \<open>One backup directory with one activated policy.\<close>

definition one_policy :: "BackupDirectoryConfig list" where
  "one_policy =
     [\<lparr>ID = ''dir1'',
       Policies = [\<lparr>BackupDirectoryConfigPolicy.ID = ''policy_1'',
                    SchedulePattern = ''* * * * *'', Activated = True\<rparr>]\<rparr>]"

text \<open>A bucket that holds other bytes under a chunk's key, with an ETag that is not its MD5.\<close>

definition corrupt :: world where
  "corrupt = world0\<lparr>objects := [''0102'' \<mapsto> ([9], ''zz'')]\<rparr>"

text \<open>
  A store that answers the first two requests with \<open>Forbidden\<close>, a control plane with
  one set of fresh credentials, and backoffs that allow five more passes each.
\<close>

definition fresh_cred :: credential where
  "fresh_cred = \<lparr>AwsAccessKeyId = ''AK1'', AwsSecretAccessKey = ''SK1'', Token = ''T1''\<rparr>"

definition denying :: world where
  "denying =
     world0\<lparr>s3_script := [Some (Fails (AwsError ''Forbidden'')), Some (Fails (AwsError ''Forbidden''))],
            cp_script := [Some fresh_cred], bo_script := [5, 5, 5], rand_script := [4]\<rparr>"

text \<open>
  A file system with the source directory \<open>src\<close>, the three-byte file \<open>src/a\<close> and the
  empty directory \<open>dst\<close>, a year after the times of \<open>file0\<close>; and the same world with a
  chunker whose first reading of a file fails after one chunk.
\<close>

definition dir0 :: inode where
  "dir0 =
     \<lparr>i_kind = Directory, i_data = [], i_mode = 493, i_uid = 0, i_gid = 0,
      i_atime = Time0, i_mtime = Time0, i_ctime = Time0, i_target = Relative []\<rparr>"

definition src_world :: world where
  "src_world =
     world0\<lparr>files := [([''src''], dir0),
                       ([''src'', ''a''], dir0\<lparr>i_kind := RegularFile, i_data := [1, 2, 3], i_mode := 420\<rparr>),
                       ([''dst''], dir0)],
            now := Time0\<lparr>year := 2022\<rparr>\<rparr>"

definition flaky_read :: world where
  "flaky_read = src_world\<lparr>read_script := [Some 1]\<rparr>"


text \<open>
  The world of \<open>src_world\<close> with the two chunks of \<open>src/a\<close> in the bucket and an older file
  of one byte at \<open>dst/a\<close>.
\<close>

definition stale_world :: world where
  "stale_world =
     src_world
       \<lparr>objects := [''0102'' \<mapsto> ([1, 2], etag_of world0 [1, 2]),
                    ''03'' \<mapsto> ([3], etag_of world0 [3])],
        files := files src_world
          @ [([''dst'', ''a''],
              dir0\<lparr>i_kind := RegularFile, i_data := [9], i_mode := 384,
                   i_mtime := Time0\<lparr>year := 2020\<rparr>, i_ctime := Time0\<lparr>year := 2020\<rparr>\<rparr>)]\<rparr>"

text \<open>
  A store that denies the first and the second put of a key it does not hold; and a
  store that holds the chunk \<open>0102\<close>, answers the first head request with \<open>NotFound\<close>
  all the same (another writer stores the object right after it) and denies the put.
\<close>

definition put_denying :: world where
  "put_denying =
     world0\<lparr>s3_script := [None, Some (Fails (AwsError ''Forbidden'')), None,
                            None, Some (Fails (AwsError ''AccessDenied'')), None],
            bo_script := [5], rand_script := [4]\<rparr>"

definition racing :: world where
  "racing =
     world0\<lparr>objects := [''0102'' \<mapsto> ([1, 2], etag_of world0 [1, 2])],
            s3_script := [Some (Fails (AwsError ''NotFound'')),
                          Some (Fails (AwsError ''Forbidden''))]\<rparr>"

section \<open>What the claims are stated with\<close>

text \<open>
  A world in which nothing goes wrong: no scripted fault of the store, of the file
  system or of the reads, and a session that is never cancelled.
\<close>

definition quiet :: "world \<Rightarrow> bool" where
  "quiet w = (s3_script w = [] \<and> os_script w = [] \<and> read_script w = [] \<and> cancel_in w = None)"

text \<open>
  The world without what a backup or a restore changes on its way: the bucket, the file
  system, the backoffs already used, the trace, the pipe and the progress reports.
\<close>

definition rest :: "world \<Rightarrow> world" where
  "rest w = w\<lparr>objects := Map.empty, files := [], bo_script := [], trace := [], pipe := [],
              progress := []\<rparr>"

text \<open>The key a chunk is stored under, and the ChunkRef of a chunk of the chunker.\<close>

definition chunk_key :: "world \<Rightarrow> bytes \<Rightarrow> string" where
  "chunk_key w b = EncodeToString (md5_Sum w b)"

definition ref_of :: "world \<Rightarrow> chunker_Chunk \<Rightarrow> ChunkInfo" where
  "ref_of w c = \<lparr>Start = Start c, Length = Length c, Etag = chunk_key w (Data c)\<rparr>"

text \<open>
  The ChunkRefs follow each other from an offset without gap or overlap, and reach a
  given end.
\<close>

fun contiguous :: "nat \<Rightarrow> ChunkInfo list \<Rightarrow> nat \<Rightarrow> bool" where
  "contiguous pos [] end_pos = (pos = end_pos)"
| "contiguous pos (c # cs) end_pos = (Start c = pos \<and> contiguous (pos + Length c) cs end_pos)"

text \<open>What a \<open>PutObject\<close> leaves in the bucket when no request fails.\<close>

definition put_objects ::
  "(bytes \<Rightarrow> string) \<Rightarrow> (string \<rightharpoonup> (bytes \<times> string)) \<Rightarrow> string \<Rightarrow> bytes \<Rightarrow>
     (string \<rightharpoonup> (bytes \<times> string))" where
  "put_objects et ob key b =
     (case ob key of
        Some (body, e) \<Rightarrow> if Contains e key then ob else ob(key \<mapsto> (b, et b))
      | None \<Rightarrow> ob(key \<mapsto> (b, et b)))"

text \<open>
  The mode of a regular file after \<open>os.Chmod\<close> with a mode and a \<open>chown\<close>.
\<close>

definition restored_mode :: "32 word \<Rightarrow> 32 word" where
  "restored_mode m =
     (if chmod_bits m AND 8 = 0 then chmod_bits m AND NOT ModeSetuid
      else chmod_bits m AND NOT ModeSetuid AND NOT ModeSetgid)"

text \<open>The bytes of a file after the chunks of a list were written at their offsets.\<close>

fun written :: "(string \<rightharpoonup> (bytes \<times> string)) \<Rightarrow> ChunkInfo list \<Rightarrow> bytes \<Rightarrow> bytes" where
  "written ob [] old = old"
| "written ob (info # infos) old =
     written ob infos (write_at old (Start info) (fst (the (ob (Etag info)))))"

text \<open>The two calls \<open>downloadFile\<close> makes for one ChunkRef.\<close>

definition fetch_events :: "(string \<rightharpoonup> (bytes \<times> string)) \<Rightarrow> path \<Rightarrow> ChunkInfo \<Rightarrow> event list" where
  "fetch_events ob q info =
     [EvGetObject (Etag info), EvWriteAt q (Start info) (fst (the (ob (Etag info))))]"

text \<open>
  The chunk manifest record with multiplicity 1 and the recorded length of one ChunkRef.
\<close>

definition manifest_record :: "string \<Rightarrow> string \<Rightarrow> ChunkInfo \<Rightarrow> cache_Chunk" where
  "manifest_record rpID bdID c =
     \<lparr>BackupDirectoryID = bdID, RecoveryPointID = rpID,
      Chunks = [(Etag c, [''1'', Itoa (int (Length c))])]\<rparr>"

text \<open>What the uploads of a list of chunks leave in the bucket when no request fails.\<close>

definition put_chunks ::
  "world \<Rightarrow> chunker_Chunk list \<Rightarrow> (string \<rightharpoonup> (bytes \<times> string)) \<Rightarrow> (string \<rightharpoonup> (bytes \<times> string))" where
  "put_chunks w cs ob =
     fold (\<lambda>c ob. put_objects (etag_of w) ob (chunk_key w (Data c)) (Data c)) cs ob"

text \<open>
  The calls of \<open>createFile\<close> on a path whose directory is there, the calls that give a
  file the recorded mode, owner and times, the calls of \<open>downloadFile\<close>'s loop over the
  content list, and the inode of a newly created file after all of them.
\<close>

definition create_calls :: "path \<Rightarrow> Node \<Rightarrow> event list" where
  "create_calls target item =
     [EvStat (Dir target), EvCreate target, EvChmod target (Mode item),
      EvChown target (UID item) (GID item)]"

definition attribute_calls :: "path \<Rightarrow> Node \<Rightarrow> event list" where
  "attribute_calls target item =
     [EvChmod target (Mode item), EvChown target (UID item) (GID item),
      EvChtimes target (AccessTime item) (ModTime item)]"

definition download_calls :: "(string \<rightharpoonup> (bytes \<times> string)) \<Rightarrow> path \<Rightarrow> Node \<Rightarrow> event list" where
  "download_calls ob target item = concat (map (fetch_events ob target) (Content item))"

definition restored_file :: "(string \<rightharpoonup> (bytes \<times> string)) \<Rightarrow> Node \<Rightarrow> world \<Rightarrow> inode" where
  "restored_file ob item w =
     \<lparr>i_kind = RegularFile, i_data = written ob (Content item) [],
      i_mode = restored_mode (Mode item), i_uid = UID item, i_gid = GID item,
      i_atime = AccessTime item, i_mtime = ModTime item, i_ctime = now w,
      i_target = Relative []\<rparr>"

text \<open>
  A call has made only requests and sleeps of a given kind: the trace has grown by
  events of the set.
\<close>

definition only_events :: "event set \<Rightarrow> world \<Rightarrow> world \<Rightarrow> bool" where
  "only_events A w w' = (\<exists>tr. trace w' = trace w @ tr \<and> set tr \<subseteq> A)"

text \<open>The requests to the store for a key, and the two sleeps.\<close>

definition head_events :: "string \<Rightarrow> event set" where
  "head_events key = {EvHeadObject key, EvSleepBackOff} \<union> range EvSleepSeconds"

definition get_events :: "string \<Rightarrow> event set" where
  "get_events key = {EvGetObject key, EvSleepBackOff} \<union> range EvSleepSeconds"

text \<open>
  The world after a request was answered with a denial, the sleep of 0 to 2 seconds, the
  sleep of the backoff, and the same request again; and the world after the control
  plane was asked for credentials and a new session was made of them.
\<close>

definition denied_twice :: "event \<Rightarrow> world \<Rightarrow> world" where
  "denied_twice e w = log e (log EvSleepBackOff (sleep_rand (log e w)))"

definition refreshed :: "credential \<Rightarrow> world \<Rightarrow> world" where
  "refreshed cred w =
     (log (EvNewSession cred) (log EvGetCredentialStorageVault w))\<lparr>S3Session := cred\<rparr>"

text \<open>The seconds the next \<open>rand.Intn(3)\<close> makes the caller sleep.\<close>

definition seconds :: "world \<Rightarrow> nat" where
  "seconds w = (case rand_script w of [] \<Rightarrow> 0 | r # rs \<Rightarrow> r mod 3)"

section \<open>Facts about the scripts and the trace\<close>

lemma trace_log [simp]: "trace (log e w) = trace w @ [e]"
  by (simp add: log_def)

lemma fst_sdk_HeadObject_bo_script [simp]:
  "fst (sdk_HeadObject key (w\<lparr>bo_script := b\<rparr>)) = fst (sdk_HeadObject key w)"
  by (auto simp: sdk_HeadObject_def next_fault_def log_def
      split: list.splits option.splits fault.splits prod.splits)

lemma trace_sdk_HeadObject [simp]:
  "trace (snd (sdk_HeadObject key w)) = trace w @ [EvHeadObject key]"
  by (auto simp: sdk_HeadObject_def next_fault_def log_def
      split: list.splits option.splits fault.splits prod.splits)

lemma trace_NewExponentialBackOff [simp]:
  "trace (snd (NewExponentialBackOff w)) = trace w"
  by (simp add: NewExponentialBackOff_def split: list.splits)

lemma fst_sdk_HeadObject_NewExponentialBackOff [simp]:
  "fst (sdk_HeadObject key (snd (NewExponentialBackOff w))) = fst (sdk_HeadObject key w)"
  by (simp add: NewExponentialBackOff_def split: list.splits)

section \<open>NotFound on head and verify\<close>

lemma HeadObject_loop_NotFound:
  assumes "fst (sdk_HeadObject key w) = Inl (AwsError ''NotFound'')"
  shows "HeadObject_loop bo once key w =
           ((False, [], Some (AwsError ''NotFound'')), snd (sdk_HeadObject key w))"
  using assms
  by (cases "sdk_HeadObject key w") (simp add: HeadObject_loop.simps HeadObject_pass_def)

lemma HeadObject_NotFound:
  assumes "fst (sdk_HeadObject key w) = Inl (AwsError ''NotFound'')"
  shows "HeadObject key w =
           ((False, [], Some (AwsError ''NotFound'')),
            snd (sdk_HeadObject key (snd (NewExponentialBackOff w))))"
proof -
  obtain bo w0 where n: "NewExponentialBackOff w = (bo, w0)"
    by force
  have "fst (sdk_HeadObject key w0) = Inl (AwsError ''NotFound'')"
    using assms fst_sdk_HeadObject_NewExponentialBackOff [of key w] n by simp
  then show ?thesis
    using n by (simp add: HeadObject_def HeadObject_loop_NotFound)
qed

lemma VerifyObject_NotFound:
  assumes "fst (sdk_HeadObject key w) = Inl (AwsError ''NotFound'')"
  shows "fst (VerifyObject key w) = (False, False, [], None)"
    and "trace (snd (VerifyObject key w)) = trace w @ [EvHeadObject key]"
proof -
  obtain bo w0 where n: "NewExponentialBackOff w = (bo, w0)"
    by force
  have t: "trace w0 = trace w"
    using trace_NewExponentialBackOff [of w] n by simp
  have "fst (sdk_HeadObject key w0) = Inl (AwsError ''NotFound'')"
    using assms fst_sdk_HeadObject_NewExponentialBackOff [of key w] n by simp
  then have h: "HeadObject key w0 =
      ((False, [], Some (AwsError ''NotFound'')),
       snd (sdk_HeadObject key (snd (NewExponentialBackOff w0))))"
    by (rule HeadObject_NotFound)
  show "fst (VerifyObject key w) = (False, False, [], None)"
    using n h by (simp add: VerifyObject_def VerifyObject_loop.simps VerifyObject_pass_def)
  show "trace (snd (VerifyObject key w)) = trace w @ [EvHeadObject key]"
    using n h t by (simp add: VerifyObject_def VerifyObject_loop.simps VerifyObject_pass_def)
qed

text \<open>
  C7 (as amended). When the store answers \<open>NotFound\<close> to the head request, both functions
  stop after that one request and report \<open>exists = false\<close>: \<open>HeadObject\<close> hands the
  \<open>NotFound\<close> error itself back to its caller, and \<open>VerifyObject\<close> replaces it by a nil
  error.
\<close>

theorem NotFound_head_verify:
  assumes "fst (sdk_HeadObject key w) = Inl (AwsError ''NotFound'')"
  shows "fst (HeadObject key w) = (False, [], Some (AwsError ''NotFound''))
       \<and> trace (snd (HeadObject key w)) = trace w @ [EvHeadObject key]
       \<and> fst (VerifyObject key w) = (False, False, [], None)
       \<and> trace (snd (VerifyObject key w)) = trace w @ [EvHeadObject key]"
  using assms by (simp add: HeadObject_NotFound VerifyObject_NotFound)

theorem NotFound_head_verify_witness:
  "fst (sdk_HeadObject ''abc'' world0) = Inl (AwsError ''NotFound'')
   \<and> fst (HeadObject ''abc'' world0) = (False, [], Some (AwsError ''NotFound''))
   \<and> fst (VerifyObject ''abc'' world0) = (False, False, [], None)"
proof -
  have h: "fst (sdk_HeadObject ''abc'' world0) = Inl (AwsError ''NotFound'')"
    by (simp add: sdk_HeadObject_def next_fault_def log_def world0_def)
  show ?thesis
    using h NotFound_head_verify [OF h] by simp
qed

text \<open>
  C7 as stated fails for \<open>HeadObject\<close>: on an empty bucket the store answers \<open>NotFound\<close>
  and the error \<open>HeadObject\<close> returns is that error, not nil.
\<close>

theorem HeadObject_NotFound_counterexample:
  "fst (sdk_HeadObject ''abc'' world0) = Inl (AwsError ''NotFound'')
   \<and> snd (snd (fst (HeadObject ''abc'' world0))) = Some (AwsError ''NotFound'')"
  by (simp add: HeadObject_def HeadObject_loop.simps HeadObject_pass_def
      NewExponentialBackOff_def sdk_HeadObject_def next_fault_def log_def world0_def)

section \<open>Formatted times and the two branches of the differ\<close>

lemma Itoa_1: "Itoa 1 = ''1''"
  by (simp add: Itoa_def digits.simps digit_char_def)

lemma to_lower_digit_char: "d < 10 \<Longrightarrow> to_lower (digit_char d) = digit_char d"
proof -
  assume "d < 10"
  then have "digit_char d \<in> set ''0123456789''"
    unfolding digit_char_def by (intro nth_mem) simp
  moreover have "\<forall>c \<in> set ''0123456789''. to_lower c = c"
    by (simp add: to_lower_def)
  ultimately show ?thesis by blast
qed

lemma to_lower_digits: "map to_lower (digits n) = digits n"
proof (induction n rule: digits.induct)
  case (1 n)
  show ?case
  proof (cases "n < 10")
    case True
    then show ?thesis
      by (subst (1 2) digits.simps) (simp add: to_lower_digit_char)
  next
    case False
    then show ?thesis
      using 1 by (subst (1 2) digits.simps) (simp add: to_lower_digit_char)
  qed
qed

lemma to_lower_zero_pad: "map to_lower (zero_pad k n) = zero_pad k n"
  by (simp add: zero_pad_def to_lower_digits to_lower_def)

lemma to_lower_timeToString: "map to_lower (timeToString t) = timeToString t"
  by (simp add: timeToString_def to_lower_zero_pad to_lower_def)

text \<open>On two formatted times \<open>strings.EqualFold\<close> is equality.\<close>

lemma EqualFold_timeToString:
  "EqualFold (timeToString a) (timeToString b) \<longleftrightarrow> timeToString a = timeToString b"
  by (simp add: EqualFold_def to_lower_timeToString)

lemma reemit_eq:
  "reemit cs rpID bdID w = w\<lparr>pipe := pipe w @ map (manifest_record rpID bdID) cs\<rparr>"
  by (induction cs arbitrary: w) (simp_all add: send_def NewChunk_def manifest_record_def Itoa_1)

lemma ctx_Done_not_yet: "cancel_in w \<noteq> Some 0 \<Longrightarrow> fst (ctx_Done c w) = c"
  by (auto simp: ctx_Done_def split: option.splits nat.splits)

lemma ChunkFileToBackup_loop_return:
  "ChunkFileToBackup_loop t rpID bdID itemInfo js w = ((Inl (n, e), item', js'), w') \<Longrightarrow> n = 0"
proof (induction t arbitrary: itemInfo js w)
  case 0
  then show ?case
    by (subst (asm) ChunkFileToBackup_loop.simps)
       (auto split: prod.splits sum.splits option.splits if_splits)
next
  case (Suc t)
  from Suc.prems show ?case
    by (subst (asm) ChunkFileToBackup_loop.simps)
       (auto split: prod.splits sum.splits option.splits if_splits dest: Suc.IH)
qed

lemma ChunkFileToBackup_error_size:
  "ChunkFileToBackup itemInfo rpID bdID w = (((n, Some e), item'), w') \<Longrightarrow> n = 0"
  by (auto simp: ChunkFileToBackup_def split: prod.splits bool.splits sum.splits option.splits
      dest: ChunkFileToBackup_loop_return)

lemma UploadFile_reuse:
  assumes "cancel_in w \<noteq> Some 0"
    and "timeToString (ModTime li) = timeToString (ModTime itemInfo)"
  shows "UploadFile (Some li) itemInfo rpID bdID w =
     (((0, None), itemInfo\<lparr>Content := Content li, Sha256Hash := Sha256Hash li\<rparr>),
      Report Stat0
        ((snd (ctx_Done False w))\<lparr>pipe := pipe w @ map (manifest_record rpID bdID) (Content li)\<rparr>))"
  using assms
  by (auto simp: UploadFile_def EqualFold_timeToString reemit_eq ctx_Done_def
      split: option.splits nat.splits)

lemma UploadFile_full:
  assumes "cancel_in w \<noteq> Some 0"
    and "lastInfo = None \<or> timeToString (ModTime (the lastInfo)) \<noteq> timeToString (ModTime itemInfo)"
  shows "UploadFile lastInfo itemInfo rpID bdID w =
     (fst (ChunkFileToBackup itemInfo rpID bdID (snd (ctx_Done False w))),
      Report
        (Stat0\<lparr>Errors :=
           snd (fst (fst (ChunkFileToBackup itemInfo rpID bdID (snd (ctx_Done False w))))) \<noteq> None\<rparr>)
        (snd (ChunkFileToBackup itemInfo rpID bdID (snd (ctx_Done False w)))))"
proof -
  obtain n e item' w' where
    c: "ChunkFileToBackup itemInfo rpID bdID (snd (ctx_Done False w)) = (((n, e), item'), w')"
    by (metis prod.exhaust)
  have d: "fst (ctx_Done False w) = False"
    using assms(1) by (simp add: ctx_Done_not_yet)
  have z: "e \<noteq> None \<Longrightarrow> n = 0"
    using c ChunkFileToBackup_error_size by (cases e) auto
  have s0: "Stat0\<lparr>Errors := False\<rparr> = Stat0"
    by (simp add: Stat0_def)
  show ?thesis
    using assms(2) c d z
    by (cases "ctx_Done False w"; cases e)
       (auto simp: UploadFile_def EqualFold_timeToString s0 split: option.splits)
qed

section \<open>The cancelled restore\<close>

text \<open>
  C10. On a context that is already done \<open>restoreDirectory\<close> returns nil and leaves the
  world as it is, while \<open>restoreFile\<close> and \<open>RestoreItem\<close> return
  \<open>ErrorGotCancelRequest\<close>. So when the cancellation arrives after \<open>RestoreItem\<close> has
  looked at its context and before \<open>restoreDirectory\<close> looks at it, the directory item
  is reported as restored (\<open>Items = 1\<close>, no error, nothing done on the file system), and a
  \<open>RestoreDirectory\<close> of that one item returns nil.
\<close>

theorem cancelled_directory_reports_success:
  "restoreDirectory c target item (w\<lparr>cancel_in := Some 0\<rparr>) = (None, w\<lparr>cancel_in := Some 0\<rparr>)
   \<and> restoreFile c target item (w\<lparr>cancel_in := Some 0\<rparr>) =
       (Result (Some ErrorGotCancelRequest), w\<lparr>cancel_in := Some 0\<rparr>)
   \<and> RestoreItem c destDir item (w\<lparr>cancel_in := Some 0\<rparr>) =
       (Result (Some ErrorGotCancelRequest), w\<lparr>cancel_in := Some 0\<rparr>)
   \<and> RestoreItem False destDir (item\<lparr>Type := ''dir''\<rparr>) (w\<lparr>cancel_in := Some 1\<rparr>) =
       (Result None, Report (Stat0\<lparr>Items := 1\<rparr>) (Report Stat0 (w\<lparr>cancel_in := Some 0\<rparr>)))
   \<and> RestoreDirectory [item\<lparr>Type := ''dir''\<rparr>] destDir (w\<lparr>cancel_in := Some 2\<rparr>) =
       (Result None, Report (Stat0\<lparr>Items := 1\<rparr>) (Report Stat0 (w\<lparr>cancel_in := Some 0\<rparr>)))"
  by (simp add: RestoreDirectory_def RestoreItem_def restoreDirectory_def restoreFile_def
      ctx_Done_def numeral_2_eq_2)

theorem cancelled_directory_reports_success_witness:
  "fst (RestoreDirectory [file0\<lparr>Type := ''dir''\<rparr>] [''dst''] (world0\<lparr>cancel_in := Some 2\<rparr>)) =
     Result None
   \<and> files (snd (RestoreDirectory [file0\<lparr>Type := ''dir''\<rparr>] [''dst'']
       (world0\<lparr>cancel_in := Some 2\<rparr>))) = []
   \<and> map Errors (progress (snd (RestoreDirectory [file0\<lparr>Type := ''dir''\<rparr>] [''dst'']
       (world0\<lparr>cancel_in := Some 2\<rparr>)))) = [False, False]"
  using cancelled_directory_reports_success [of False "[''dst'']" file0 world0 "[''dst'']"]
  by (simp add: Report_def Stat0_def world0_def)

section \<open>The archive upload of \<open>backup\<close>\<close>

text \<open>
  C8 is what the code should do and does not. When every call before the upload
  succeeds and \<open>UploadFile\<close> fails, \<open>backup\<close> returns nil, having published
  \<open>ZIP_FILE\<close> and \<open>UPLOADING\<close>: the upload error is lost.
\<close>

theorem backup_loses_upload_error:
  assumes "CreateRecoveryPoint_err env = None" and "GetBackupDirectory_err env = None"
    and "Chdir_err env = None" and "TempFile_err env = None" and "compressDir_err env = None"
    and "Close_err env = None" and "Open_err env = None"
    and "UploadFile_err env = Some err"
  shows "backup env = (None, [statusZipFile, statusUploadFile])"
  using assms by (simp add: backup_def)

theorem backup_loses_upload_error_witness:
  "UploadFile_err upload_fails = Some (Error ''upload failed'')
   \<and> backup upload_fails = (None, [''ZIP_FILE'', ''UPLOADING''])"
  using backup_loses_upload_error [of upload_fails "Error ''upload failed''"]
  by (simp add: upload_fails_def statusZipFile_def statusUploadFile_def)

section \<open>The keys of the cron entry map\<close>

text \<open>
  C9 is what the code should do and does not. \<open>addToCronManager\<close> stores the entry under
  \<open>policy.ID\<close>, \<open>removeFromCronManager\<close> looks for \<open>policy.ID + bd.ID\<close>: after both, on
  one directory with one activated policy, the map still holds the entry and the cron
  still runs it.
\<close>

theorem remove_after_add_leaves_entry:
  "cronPolicyIDToCronID (addToCronManager one_policy (New (\<lambda>spec. True))) = [(''policy_1'', 1)]
   \<and> cronPolicyIDToCronID
       (removeFromCronManager one_policy (addToCronManager one_policy (New (\<lambda>spec. True)))) =
       [(''policy_1'', 1)]
   \<and> entries (cronManager
       (removeFromCronManager one_policy (addToCronManager one_policy (New (\<lambda>spec. True))))) =
       [(1, ''* * * * *'')]"
  by (simp add: one_policy_def New_def AddFunc_def)

section \<open>The object store client: the trace only grows\<close>

lemma trace_next_fault [simp]: "trace (snd (next_fault w)) = trace w"
  by (simp add: next_fault_def split: list.splits)

lemma trace_sdk_PutObject [simp]:
  "trace (snd (sdk_PutObject key b w)) = trace w @ [EvPutObject key b]"
  by (auto simp: sdk_PutObject_def next_fault_def log_def
      split: list.splits option.splits fault.splits prod.splits)

lemma trace_sdk_GetObject [simp]:
  "trace (snd (sdk_GetObject key w)) = trace w @ [EvGetObject key]"
  by (auto simp: sdk_GetObject_def next_fault_def log_def
      split: list.splits option.splits fault.splits prod.splits)

lemma grows_sleep_rand: "prefix (trace w) (trace (sleep_rand w))"
  by (simp add: sleep_rand_def split: list.splits)

lemma grows_HeadObject_pass: "prefix (trace w) (trace (snd (HeadObject_pass once key w)))"
proof -
  have "prefix (trace w) (trace (snd (sdk_HeadObject key w)))" by simp
  moreover have "prefix (trace (snd (sdk_HeadObject key w))) (trace (snd (HeadObject_pass once key w)))"
    using grows_sleep_rand [of "snd (sdk_HeadObject key w)"]
    by (cases "sdk_HeadObject key w")
       (auto simp: HeadObject_pass_def split: sum.splits go_error.splits)
  ultimately show ?thesis by (rule prefix_order.trans)
qed

lemma grows_HeadObject_loop: "prefix (trace w) (trace (snd (HeadObject_loop bo once key w)))"
proof (induction bo arbitrary: once w)
  case 0
  show ?case
    using grows_HeadObject_pass [of w once key]
    by (subst HeadObject_loop.simps) (auto split: prod.splits pass.splits)
next
  case (Suc bo)
  show ?case
  proof (cases "HeadObject_pass once key w")
    case (Pair r w1)
    then have g: "prefix (trace w) (trace w1)"
      using grows_HeadObject_pass [of w once key] by simp
    show ?thesis
    proof (cases r)
      case (Return x)
      then show ?thesis using Pair g by (subst HeadObject_loop.simps) simp
    next
      case (Retry v)
      obtain once' err where v: "v = (once', err)" by force
      have "prefix (trace w1) (trace (log EvSleepBackOff w1))" by simp
      then have "prefix (trace w1) (trace (snd (HeadObject_loop bo once' key (log EvSleepBackOff w1))))"
        using Suc.IH [where once = once' and w = "log EvSleepBackOff w1"]
        by (rule prefix_order.trans)
      then show ?thesis
        using Pair Retry v g by (subst HeadObject_loop.simps) (auto intro: prefix_order.trans)
    qed
  qed
qed

lemma grows_HeadObject: "prefix (trace w) (trace (snd (HeadObject key w)))"
  using grows_HeadObject_loop [of "snd (NewExponentialBackOff w)"]
  by (simp add: HeadObject_def split: prod.splits) (metis snd_conv trace_NewExponentialBackOff)

lemma HeadObject_pass_shape:
  "HeadObject_pass once key w = (Return (ex, etag, err), w') \<Longrightarrow>
     (err = None \<longrightarrow> ex) \<and> (err \<noteq> None \<longrightarrow> \<not> ex \<and> etag = [])"
  by (auto simp: HeadObject_pass_def split: prod.splits sum.splits go_error.splits if_splits)

lemma HeadObject_loop_shape:
  "HeadObject_loop bo once key w = ((ex, etag, err), w') \<Longrightarrow>
     (err = None \<longrightarrow> ex) \<and> (err \<noteq> None \<longrightarrow> \<not> ex \<and> etag = [])"
proof (induction bo arbitrary: once w)
  case 0
  then show ?case
    by (subst (asm) HeadObject_loop.simps)
       (auto split: prod.splits pass.splits dest: HeadObject_pass_shape)
next
  case (Suc bo)
  show ?case
  proof (cases "HeadObject_pass once key w")
    case (Pair r w1)
    show ?thesis
    proof (cases r)
      case (Return x)
      then show ?thesis
        using Suc.prems Pair HeadObject_pass_shape [of once key w ex etag err w']
        by (simp add: HeadObject_loop.simps [of "Suc bo"])
    next
      case (Retry v)
      obtain once' e where v: "v = (once', e)" by force
      have "HeadObject_loop bo once' key (log EvSleepBackOff w1) = ((ex, etag, err), w')"
        using Suc.prems Pair Retry v by (simp add: HeadObject_loop.simps [of "Suc bo"])
      then show ?thesis by (rule Suc.IH)
    qed
  qed
qed

lemma HeadObject_shape:
  "HeadObject key w = ((ex, etag, err), w') \<Longrightarrow>
     (err = None \<longrightarrow> ex) \<and> (err \<noteq> None \<longrightarrow> \<not> ex \<and> etag = [])"
  by (auto simp: HeadObject_def split: prod.splits dest: HeadObject_loop_shape)

lemma VerifyObject_pass_integrity:
  "VerifyObject_pass key w = (Return (ex, integ, etag, err), w') \<Longrightarrow> integ = (ex \<and> Contains etag key)"
  by (auto simp: VerifyObject_pass_def
      split: prod.splits sum.splits option.splits go_error.splits if_splits
      dest: HeadObject_shape)

lemma VerifyObject_pass_retry:
  "VerifyObject_pass key w = (Retry (ex, etag, e), w') \<Longrightarrow> \<not> ex"
  by (auto simp: VerifyObject_pass_def
      split: prod.splits sum.splits option.splits go_error.splits if_splits
      dest: HeadObject_shape)

lemma VerifyObject_loop_integrity:
  "VerifyObject_loop bo key w = ((ex, integ, etag, err), w') \<Longrightarrow> integ = (ex \<and> Contains etag key)"
proof (induction bo arbitrary: w)
  case 0
  then show ?case
    by (subst (asm) VerifyObject_loop.simps)
       (auto split: prod.splits pass.splits dest: VerifyObject_pass_integrity VerifyObject_pass_retry)
next
  case (Suc bo)
  show ?case
  proof (cases "VerifyObject_pass key w")
    case (Pair r w1)
    show ?thesis
    proof (cases r)
      case (Return x)
      then show ?thesis
        using Suc.prems Pair VerifyObject_pass_integrity [of key w ex integ etag err w']
        by (simp add: VerifyObject_loop.simps [of "Suc bo"])
    next
      case (Retry v)
      obtain ex' etag' e where v: "v = (ex', etag', e)" by (cases v) auto
      have "VerifyObject_loop bo key w1 = ((ex, integ, etag, err), w')"
        using Suc.prems Pair Retry v by (simp add: VerifyObject_loop.simps [of "Suc bo"])
      then show ?thesis by (rule Suc.IH)
    qed
  qed
qed

lemma VerifyObject_integrity:
  "VerifyObject key w = ((ex, integ, etag, err), w') \<Longrightarrow> integ = (ex \<and> Contains etag key)"
  by (auto simp: VerifyObject_def split: prod.splits dest: VerifyObject_loop_integrity)


lemma grows_GetCredentialStorageVault:
  "prefix (trace w) (trace (snd (GetCredentialStorageVault w)))"
  by (simp add: GetCredentialStorageVault_def split: list.splits option.splits)

lemma grows_RefreshCredential: "prefix (trace w) (trace (snd (RefreshCredential cred w)))"
  by (simp add: RefreshCredential_def)

lemma grows_VerifyObject_pass: "prefix (trace w) (trace (snd (VerifyObject_pass key w)))"
proof -
  obtain r w1 where h: "HeadObject key w = (r, w1)" by (meson surj_pair)
  then have g1: "prefix (trace w) (trace w1)"
    using grows_HeadObject [of w key] by simp
  have g2: "prefix (trace w1) (trace (snd (GetCredentialStorageVault w1)))"
    by (rule grows_GetCredentialStorageVault)
  have g3: "\<And>cred. prefix (trace w1)
      (trace (snd (RefreshCredential cred (snd (GetCredentialStorageVault w1)))))"
    using g2 grows_RefreshCredential prefix_order.trans by blast
  have "prefix (trace w1) (trace (snd (VerifyObject_pass key w)))"
    using h g2 g3
    by (auto simp: VerifyObject_pass_def
        split: prod.splits option.splits go_error.splits sum.splits)
       (metis snd_conv)+
  then show ?thesis using g1 prefix_order.trans by blast
qed

lemma grows_VerifyObject_loop: "prefix (trace w) (trace (snd (VerifyObject_loop bo key w)))"
proof (induction bo arbitrary: w)
  case 0
  show ?case
    using grows_VerifyObject_pass [of w key]
    by (subst VerifyObject_loop.simps) (auto split: prod.splits pass.splits)
next
  case (Suc bo)
  show ?case
  proof (cases "VerifyObject_pass key w")
    case (Pair r w1)
    then have g: "prefix (trace w) (trace w1)"
      using grows_VerifyObject_pass [of w key] by simp
    show ?thesis
    proof (cases r)
      case (Return x)
      then show ?thesis using Pair g by (subst VerifyObject_loop.simps) simp
    next
      case (Retry v)
      obtain ex etag e where v: "v = (ex, etag, e)" by (cases v) auto
      have "prefix (trace w) (trace (snd (VerifyObject_loop bo key w1)))"
        using g Suc.IH [of w1] by (rule prefix_order.trans)
      then show ?thesis
        using Pair Retry v by (subst VerifyObject_loop.simps) simp
    qed
  qed
qed

lemma grows_VerifyObject: "prefix (trace w) (trace (snd (VerifyObject key w)))"
  using grows_VerifyObject_loop [of "snd (NewExponentialBackOff w)"]
  by (simp add: VerifyObject_def split: prod.splits) (metis snd_conv trace_NewExponentialBackOff)

lemma grows_sdk_PutObject: "prefix (trace w) (trace (snd (sdk_PutObject key b w)))"
  by simp

lemma grows_PutObject_body: "prefix (trace w) (trace (snd (PutObject_body err key b w)))"
proof -
  obtain r1 w1 where v1: "VerifyObject key w = (r1, w1)" by (meson surj_pair)
  then have g1: "prefix (trace w) (trace w1)"
    using grows_VerifyObject [of w key] by simp
  obtain p1 w2 where p1: "sdk_PutObject key b w1 = (p1, w2)" by force
  then have g2: "prefix (trace w1) (trace w2)"
    using grows_sdk_PutObject [of w1 key b] by simp
  obtain r2 w3 where v2: "VerifyObject key w2 = (r2, w3)" by (meson surj_pair)
  then have g3: "prefix (trace w2) (trace w3)"
    using grows_VerifyObject [of w2 key] by simp
  obtain p2 w4 where p2: "sdk_PutObject key b w3 = (p2, w4)" by force
  then have g4: "prefix (trace w3) (trace w4)"
    using grows_sdk_PutObject [of w3 key b] by simp
  have a2: "prefix (trace w) (trace w2)" using g1 g2 by (rule prefix_order.trans)
  have a3: "prefix (trace w) (trace w3)" using a2 g3 by (rule prefix_order.trans)
  have a4: "prefix (trace w) (trace w4)" using a3 g4 by (rule prefix_order.trans)
  show ?thesis
    using v1 p1 v2 p2 g1 a2 a3 a4
    by (auto simp: PutObject_body_def split: prod.splits option.splits)
qed

lemma grows_PutObject_pass: "prefix (trace w) (trace (snd (PutObject_pass once err key b w)))"
proof -
  obtain r w1 where h: "PutObject_body err key b w = (r, w1)" by force
  then have g1: "prefix (trace w) (trace w1)"
    using grows_PutObject_body [of w err key b] by simp
  have "prefix (trace w1) (trace (snd (PutObject_pass once err key b w)))"
    using h grows_sleep_rand [of w1]
    by (auto simp: PutObject_pass_def split: pass.splits go_error.splits)
  then show ?thesis using g1 prefix_order.trans by blast
qed

lemma grows_PutObject_loop:
  "prefix (trace w) (trace (snd (PutObject_loop bo once err key b w)))"
proof (induction bo arbitrary: once err w)
  case 0
  show ?case
    using grows_PutObject_pass [of w once err key b]
    by (subst PutObject_loop.simps) (auto split: prod.splits pass.splits)
next
  case (Suc bo)
  show ?case
  proof (cases "PutObject_pass once err key b w")
    case (Pair r w1)
    then have g: "prefix (trace w) (trace w1)"
      using grows_PutObject_pass [of w once err key b] by simp
    show ?thesis
    proof (cases r)
      case (Return x)
      then show ?thesis using Pair g by (subst PutObject_loop.simps) simp
    next
      case (Retry v)
      obtain once' e where v: "v = (once', e)" by force
      have "prefix (trace w1) (trace (log EvSleepBackOff w1))" by simp
      then have "prefix (trace w1)
          (trace (snd (PutObject_loop bo once' (Some e) key b (log EvSleepBackOff w1))))"
        using Suc.IH [where once = once' and err = "Some e" and w = "log EvSleepBackOff w1"]
        by (rule prefix_order.trans)
      then show ?thesis
        using Pair Retry v g by (subst PutObject_loop.simps) (auto intro: prefix_order.trans)
    qed
  qed
qed

lemma PutObject_overwrites:
  assumes v: "VerifyObject key (snd (NewExponentialBackOff w)) = ((True, False, etag, err), w1)"
  shows "prefix (trace w1 @ [EvPutObject key b]) (trace (snd (PutObject key b w)))"
    and "fst (sdk_PutObject key b w1) = None \<Longrightarrow>
           PutObject key b w = (None, snd (sdk_PutObject key b w1))"
proof -
  obtain bo w0 where n: "NewExponentialBackOff w = (bo, w0)" by force
  obtain p w2 where p: "sdk_PutObject key b w1 = (p, w2)" by force
  have t2: "trace w2 = trace w1 @ [EvPutObject key b]"
    using trace_sdk_PutObject [of key b w1] p by simp
  have body: "PutObject_body None key b w0 =
      (case p of None \<Rightarrow> (Return None, w2) | Some e \<Rightarrow> (Retry e, w2))"
    using v n p by (simp add: PutObject_body_def)
  show "fst (sdk_PutObject key b w1) = None \<Longrightarrow>
           PutObject key b w = (None, snd (sdk_PutObject key b w1))"
    using n p body by (simp add: PutObject_def PutObject_loop.simps PutObject_pass_def)
  show "prefix (trace w1 @ [EvPutObject key b]) (trace (snd (PutObject key b w)))"
  proof (cases p)
    case None
    then show ?thesis
      using n p body t2 by (simp add: PutObject_def PutObject_loop.simps PutObject_pass_def)
  next
    case (Some e)
    obtain r w3 where ps: "PutObject_pass False None key b w0 = (r, w3)" by force
    have g3: "prefix (trace w2) (trace w3)"
      using ps body Some grows_sleep_rand [of w2]
      by (auto simp: PutObject_pass_def split: go_error.splits if_splits)
    have "prefix (trace w3) (trace (snd (PutObject_loop bo False None key b w0)))"
    proof (cases r)
      case (Return x)
      then show ?thesis using ps by (subst PutObject_loop.simps) simp
    next
      case (Retry x)
      obtain once' e' where x: "x = (once', e')" by force
      show ?thesis
      proof (cases bo)
        case 0
        then show ?thesis using ps Retry x by (subst PutObject_loop.simps) simp
      next
        case (Suc bo')
        have "prefix (trace w3) (trace (log EvSleepBackOff w3))" by simp
        then have "prefix (trace w3)
            (trace (snd (PutObject_loop bo' once' (Some e') key b (log EvSleepBackOff w3))))"
          using grows_PutObject_loop prefix_order.trans by blast
        then show ?thesis using ps Retry x Suc by (subst PutObject_loop.simps) simp
      qed
    qed
    then have "prefix (trace w2) (trace (snd (PutObject_loop bo False None key b w0)))"
      using g3 prefix_order.trans by blast
    then show ?thesis using n t2 by (simp add: PutObject_def)
  qed
qed

lemma HasPrefix_prefix: "HasPrefix s p = prefix p s"
  by (induction s p rule: HasPrefix.induct) auto

text \<open>\<open>Contains\<close> is the substring test.\<close>

lemma Contains_sublist: "Contains s t = sublist t s"
  by (induction s) (simp_all add: HasPrefix_prefix sublist_Cons_right)

section \<open>Integrity and overwriting\<close>



section \<open>AccessDenied and Forbidden\<close>

lemma sleep_rand_seconds: "\<exists>n<3. trace (sleep_rand w) = trace w @ [EvSleepSeconds n]"
  by (auto simp: sleep_rand_def split: list.splits)

lemma HeadObject_loop_denied:
  assumes "denied code" "fst (sdk_HeadObject key w) = Inl (AwsError code)"
  shows "HeadObject_loop (Suc bo) False key w =
           HeadObject_loop bo True key (log EvSleepBackOff (sleep_rand (snd (sdk_HeadObject key w))))"
    and "HeadObject_loop bo True key w =
           ((False, [], Some (AwsError code)), snd (sdk_HeadObject key w))"
  using assms
  by (cases "sdk_HeadObject key w";
      auto simp: HeadObject_loop.simps [of _ _ key w] HeadObject_pass_def denied_def)+

lemma GetObject_loop_denied:
  assumes "denied code" "fst (sdk_GetObject key w) = Inl (AwsError code)"
  shows "GetObject_loop (Suc bo) False key w =
           GetObject_loop bo True key (log EvSleepBackOff (sleep_rand (snd (sdk_GetObject key w))))"
    and "GetObject_loop bo True key w =
           (Result ([], Some (AwsError code)), snd (sdk_GetObject key w))"
  using assms
  by (cases "sdk_GetObject key w";
      auto simp: GetObject_loop.simps [of _ _ key w] GetObject_pass_def denied_def)+

lemma PutObject_loop_denied:
  assumes "denied code" "PutObject_body err key b w = (Retry (AwsError code), wp)"
  shows "PutObject_loop (Suc bo) False err key b w =
           PutObject_loop bo True (Some (AwsError code)) key b (log EvSleepBackOff (sleep_rand wp))"
    and "PutObject_loop bo True err key b w = (Some (AwsError code), wp)"
  using assms
  by (auto simp: PutObject_loop.simps [of _ _ err key b w] PutObject_pass_def)

lemma VerifyObject_loop_denied:
  assumes "denied code" "HeadObject key w = ((ex, etag, Some (AwsError code)), wh)"
  shows "CredentialType wh = ''DEFAULT'' \<Longrightarrow> GetCredentialStorageVault wh = (Inr cred, wc) \<Longrightarrow>
           RefreshCredential cred wc = (None, wr) \<Longrightarrow>
           VerifyObject_loop (Suc bo) key w = VerifyObject_loop bo key wr
           \<and> trace wr = trace wh @ [EvGetCredentialStorageVault, EvNewSession cred]
           \<and> S3Session wr = cred"
    and "CredentialType wh \<noteq> ''DEFAULT'' \<Longrightarrow>
           VerifyObject_loop (Suc bo) key w = VerifyObject_loop bo key wh"
  using assms
  by (auto simp: VerifyObject_loop.simps [of _ key w] VerifyObject_pass_def denied_def
        GetCredentialStorageVault_def RefreshCredential_def log_def
      split: list.splits option.splits if_splits)

text \<open>
  C5 as stated fails: with \<open>DEFAULT\<close> credentials and a store that answers \<open>Forbidden\<close>
  twice, \<open>GetObject\<close> sleeps and asks the store a second time, never asks the control
  plane and never makes a new session, and returns the error.
\<close>

theorem GetObject_DEFAULT_counterexample:
  "CredentialType denying = ''DEFAULT''
   \<and> fst (GetObject ''k'' denying) = Result ([], Some (AwsError ''Forbidden''))
   \<and> trace (snd (GetObject ''k'' denying)) =
       [EvGetObject ''k'', EvSleepSeconds 1, EvSleepBackOff, EvGetObject ''k'']
   \<and> S3Session (snd (GetObject ''k'' denying)) = S3Session denying
   \<and> cp_script (snd (GetObject ''k'' denying)) = [Some fresh_cred]"
  by (simp add: denying_def world0_def GetObject_def GetObject_loop.simps GetObject_pass_def
      sdk_GetObject_def next_fault_def log_def NewExponentialBackOff_def denied_def
      sleep_rand_def)

section \<open>Runs in which nothing fails\<close>

subsection \<open>What stays as it is\<close>

lemma rest_fields:
  assumes "rest w' = rest w"
  shows "etag_of w' = etag_of w" "s3_script w' = s3_script w" "CredentialType w' = CredentialType w"
    "S3Session w' = S3Session w" "cp_script w' = cp_script w" "rand_script w' = rand_script w"
    "os_script w' = os_script w" "now w' = now w" "euid w' = euid w" "egid w' = egid w"
    "umask w' = umask w" "read_script w' = read_script w" "cut w' = cut w"
    "md5_Sum w' = md5_Sum w" "sha256_Sum w' = sha256_Sum w" "cancel_in w' = cancel_in w"
proof -
  have "etag_of (rest w') = etag_of (rest w)" "s3_script (rest w') = s3_script (rest w)"
    "CredentialType (rest w') = CredentialType (rest w)"
    "S3Session (rest w') = S3Session (rest w)" "cp_script (rest w') = cp_script (rest w)"
    "rand_script (rest w') = rand_script (rest w)"
    "os_script (rest w') = os_script (rest w)" "now (rest w') = now (rest w)"
    "euid (rest w') = euid (rest w)" "egid (rest w') = egid (rest w)"
    "umask (rest w') = umask (rest w)" "read_script (rest w') = read_script (rest w)"
    "cut (rest w') = cut (rest w)"
    "md5_Sum (rest w') = md5_Sum (rest w)" "sha256_Sum (rest w') = sha256_Sum (rest w)"
    "cancel_in (rest w') = cancel_in (rest w)"
    using assms by simp_all
  then show "etag_of w' = etag_of w" "s3_script w' = s3_script w"
    "CredentialType w' = CredentialType w"
    "S3Session w' = S3Session w" "cp_script w' = cp_script w" "rand_script w' = rand_script w"
    "os_script w' = os_script w" "now w' = now w" "euid w' = euid w" "egid w' = egid w"
    "umask w' = umask w" "read_script w' = read_script w" "cut w' = cut w"
    "md5_Sum w' = md5_Sum w" "sha256_Sum w' = sha256_Sum w" "cancel_in w' = cancel_in w"
    by (simp_all add: rest_def)
qed

lemma rest_quiet: "rest w' = rest w \<Longrightarrow> quiet w' = quiet w"
  using rest_fields [of w' w] by (simp add: quiet_def)

lemma rest_chunk_key: "rest w' = rest w \<Longrightarrow> chunk_key w' = chunk_key w"
  using rest_fields [of w' w] by (simp add: chunk_key_def fun_eq_iff)

lemma rest_ref_of: "rest w' = rest w \<Longrightarrow> ref_of w' = ref_of w"
  using rest_chunk_key [of w' w] by (simp add: ref_of_def fun_eq_iff)

lemma rest_updates [simp]:
  "rest (w\<lparr>objects := ob\<rparr>) = rest w" "rest (w\<lparr>files := fs\<rparr>) = rest w"
  "rest (w\<lparr>bo_script := bo\<rparr>) = rest w" "rest (w\<lparr>trace := tr\<rparr>) = rest w"
  "rest (w\<lparr>pipe := pp\<rparr>) = rest w" "rest (w\<lparr>progress := pg\<rparr>) = rest w"
  by (simp_all add: rest_def)

lemma rest_log [simp]: "rest (log e w) = rest w"
  by (simp add: log_def)

lemma rest_Report [simp]: "rest (Report s w) = rest w"
  by (simp add: Report_def)

lemma rest_send [simp]: "rest (send c w) = rest w"
  by (simp add: send_def)

subsection \<open>The object store client\<close>

lemma NewExponentialBackOff_snd:
  "snd (NewExponentialBackOff w) = w\<lparr>bo_script := tl (bo_script w)\<rparr>"
  by (cases w) (simp add: NewExponentialBackOff_def split: list.splits)

lemma NewExponentialBackOff_pair:
  "NewExponentialBackOff w = (fst (NewExponentialBackOff w), w\<lparr>bo_script := tl (bo_script w)\<rparr>)"
  using NewExponentialBackOff_snd [of w] by (metis prod.collapse)

lemma HeadObject_quiet:
  assumes "s3_script w = []"
  shows "HeadObject key w =
     ((case objects w key of
         None \<Rightarrow> (False, [], Some (AwsError ''NotFound''))
       | Some (body, e) \<Rightarrow> (True, e, None)),
      w\<lparr>bo_script := tl (bo_script w), trace := trace w @ [EvHeadObject key]\<rparr>)"
  using assms
  by (subst HeadObject_def, subst NewExponentialBackOff_pair)
     (simp add: HeadObject_loop.simps HeadObject_pass_def sdk_HeadObject_def next_fault_def
        log_def split: option.splits)

lemma VerifyObject_quiet:
  assumes "s3_script w = []"
  shows "VerifyObject key w =
     ((case objects w key of
         None \<Rightarrow> (False, False, [], None)
       | Some (body, e) \<Rightarrow> (True, Contains e key, e, None)),
      w\<lparr>bo_script := tl (tl (bo_script w)), trace := trace w @ [EvHeadObject key]\<rparr>)"
  using assms
  by (subst VerifyObject_def, subst NewExponentialBackOff_pair)
     (simp add: VerifyObject_loop.simps VerifyObject_pass_def HeadObject_quiet
        split: option.splits)

lemma GetObject_quiet:
  assumes "s3_script w = []" "objects w key = Some (body, e)"
  shows "GetObject key w =
     (Result (body, None),
      w\<lparr>bo_script := tl (bo_script w), trace := trace w @ [EvGetObject key]\<rparr>)"
  using assms
  by (subst GetObject_def, subst NewExponentialBackOff_pair)
     (simp add: GetObject_loop.simps GetObject_pass_def sdk_GetObject_def next_fault_def log_def)

lemma PutObject_quiet:
  assumes "s3_script w = []"
  shows "\<exists>bo tr. PutObject key b w =
     (None, w\<lparr>objects := put_objects (etag_of w) (objects w) key b, bo_script := bo,
              trace := trace w @ tr\<rparr>)"
proof -
  have u: "\<And>x y. w\<lparr>objects := objects w, bo_script := x, trace := y\<rparr> = w\<lparr>bo_script := x, trace := y\<rparr>"
    by (cases w) simp
  note defs = PutObject_loop.simps PutObject_pass_def PutObject_body_def
    VerifyObject_quiet sdk_PutObject_def next_fault_def log_def put_objects_def
  show ?thesis
  proof (cases "objects w key")
    case None
    show ?thesis
    proof (cases "manifest_key key")
      case True
      have "PutObject key b w =
          (None, w\<lparr>objects := put_objects (etag_of w) (objects w) key b,
                   bo_script := tl (tl (tl (bo_script w))),
                   trace := trace w @ [EvHeadObject key, EvPutObject key b]\<rparr>)"
        using assms None True
        by (subst PutObject_def, subst NewExponentialBackOff_pair) (simp add: defs)
      then show ?thesis by blast
    next
      case False
      show ?thesis
      proof (cases "Contains (etag_of w b) key")
        case True
        have "PutObject key b w =
            (None, w\<lparr>objects := put_objects (etag_of w) (objects w) key b,
                     bo_script := tl (tl (tl (tl (tl (bo_script w))))),
                     trace := trace w @ [EvHeadObject key, EvPutObject key b, EvHeadObject key]\<rparr>)"
          using assms None False True
          by (subst PutObject_def, subst NewExponentialBackOff_pair) (simp add: defs)
        then show ?thesis by blast
      next
        case nc: False
        have "PutObject key b w =
            (None, w\<lparr>objects := put_objects (etag_of w) (objects w) key b,
                     bo_script := tl (tl (tl (tl (tl (bo_script w))))),
                     trace := trace w @ [EvHeadObject key, EvPutObject key b, EvHeadObject key,
                                        EvPutObject key b]\<rparr>)"
          using assms None False nc
          by (subst PutObject_def, subst NewExponentialBackOff_pair) (simp add: defs)
        then show ?thesis by blast
      qed
    qed
  next
    case (Some a)
    obtain body e where a: "a = (body, e)" by force
    show ?thesis
    proof (cases "Contains e key")
      case True
      have "PutObject key b w =
          (None, w\<lparr>objects := put_objects (etag_of w) (objects w) key b,
                   bo_script := tl (tl (tl (bo_script w))),
                   trace := trace w @ [EvHeadObject key]\<rparr>)"
        using assms Some a True
        by (subst PutObject_def, subst NewExponentialBackOff_pair) (simp add: defs u)
      then show ?thesis by blast
    next
      case False
      have "PutObject key b w =
          (None, w\<lparr>objects := put_objects (etag_of w) (objects w) key b,
                   bo_script := tl (tl (tl (bo_script w))),
                   trace := trace w @ [EvHeadObject key, EvPutObject key b]\<rparr>)"
        using assms Some a False
        by (subst PutObject_def, subst NewExponentialBackOff_pair) (simp add: defs)
      then show ?thesis by blast
    qed
  qed
qed

subsection \<open>The chunk pipeline\<close>

lemma backupChunkJob_quiet:
  assumes "s3_script w = []" "cancel_in w = None" "\<not> cancelled js"
  shows "\<exists>w'. backupChunkJob js b chunk rpID bdID w =
           ((js\<lparr>stat := stat js + Length chunk\<rparr>, chunk\<lparr>Etag := chunk_key w b\<rparr>), w')
         \<and> rest w' = rest w \<and> files w' = files w
         \<and> objects w' = put_objects (etag_of w) (objects w) (chunk_key w b) b
         \<and> pipe w' = pipe w @ [manifest_record rpID bdID (chunk\<lparr>Etag := chunk_key w b\<rparr>)]"
proof -
  obtain bo tr where p: "PutObject (chunk_key w b) b w =
      (None, w\<lparr>objects := put_objects (etag_of w) (objects w) (chunk_key w b) b, bo_script := bo,
               trace := trace w @ tr\<rparr>)"
    using PutObject_quiet [OF assms(1)] by blast
  show ?thesis
    using assms p
    by (simp add: backupChunkJob_def backupChunk_def ctx_Done_def Client_PutObject_def
        chunk_key_def [symmetric] send_def Report_def NewChunk_def manifest_record_def Itoa_1)
qed

lemma chunk_loop_quiet:
  assumes "s3_script w = []" "cancel_in w = None" "\<not> cancelled js"
    and "\<forall>c \<in> set cs. Length c = length (Data c)"
  shows "\<exists>w'. chunk_loop cs end_err rpID bdID (content, hashed, js) w =
           ((end_err, content @ map (ref_of w) cs, hashed @ concat (map Data cs),
             js\<lparr>stat := stat js + sum_list (map Length cs)\<rparr>), w')
         \<and> rest w' = rest w \<and> files w' = files w
         \<and> objects w' = put_chunks w cs (objects w)
         \<and> pipe w' = pipe w @ map (manifest_record rpID bdID \<circ> ref_of w) cs"
  using assms
proof (induction cs arbitrary: content hashed js w)
  case Nil
  then show ?case by (simp add: put_chunks_def)
next
  case (Cons c cs)
  obtain w1 where j: "backupChunkJob js (Data c) \<lparr>Start = Start c, Length = Length c, Etag = []\<rparr>
        rpID bdID w = ((js\<lparr>stat := stat js + Length c\<rparr>, ref_of w c), w1)"
    and r1: "rest w1 = rest w" and f1: "files w1 = files w"
    and o1: "objects w1 = put_objects (etag_of w) (objects w) (chunk_key w (Data c)) (Data c)"
    and p1: "pipe w1 = pipe w @ [manifest_record rpID bdID (ref_of w c)]"
    using backupChunkJob_quiet [OF Cons.prems(1-3),
        of "Data c" "\<lparr>Start = Start c, Length = Length c, Etag = []\<rparr>" rpID bdID]
    by (auto simp: ref_of_def)
  have q1: "s3_script w1 = []" "cancel_in w1 = None"
    using rest_fields [OF r1] Cons.prems(1,2) by simp_all
  have c1: "\<not> cancelled (js\<lparr>stat := stat js + Length c\<rparr>)"
    using Cons.prems(3) by simp
  have l1: "\<forall>c \<in> set cs. Length c = length (Data c)"
    using Cons.prems(4) by simp
  obtain w' where
    l: "chunk_loop cs end_err rpID bdID
          (content @ [ref_of w c], hashed @ Data c, js\<lparr>stat := stat js + Length c\<rparr>) w1 =
        ((end_err, (content @ [ref_of w c]) @ map (ref_of w1) cs,
          (hashed @ Data c) @ concat (map Data cs),
          js\<lparr>stat := stat js + Length c, stat := stat (js\<lparr>stat := stat js + Length c\<rparr>)
               + sum_list (map Length cs)\<rparr>), w')"
    and r: "rest w' = rest w1" and f: "files w' = files w1"
    and ob: "objects w' = put_chunks w1 cs (objects w1)"
    and pp: "pipe w' = pipe w1 @ map (manifest_record rpID bdID \<circ> ref_of w1) cs"
    using Cons.IH [OF q1 c1 l1, of "content @ [ref_of w c]" "hashed @ Data c"] by blast
  have e: "ref_of w1 = ref_of w" "chunk_key w1 = chunk_key w" "etag_of w1 = etag_of w"
    using rest_ref_of [OF r1] rest_chunk_key [OF r1] rest_fields [OF r1] by simp_all
  have pc: "put_chunks w1 cs = put_chunks w cs"
    by (simp add: put_chunks_def e fun_eq_iff)
  have len: "min (Length c) (length (Data c)) = Length c"
    using Cons.prems(4) by simp
  show ?case
    using j l r f ob pp r1 f1 o1 p1 e pc len
    by (simp add: put_chunks_def add.assoc)
qed

subsection \<open>The chunker's chunks\<close>

lemma split_chunks_Nil [simp]: "split_chunks f pos [] = []"
  by (simp add: split_chunks.simps)

lemma split_chunks_step:
  assumes "bs \<noteq> []"
  shows "\<exists>k. 0 < k \<and> k \<le> length bs
           \<and> split_chunks f pos bs
               = \<lparr>Start = pos, Length = k, Data = take k bs\<rparr>
                 # split_chunks f (pos + k) (drop k bs)"
proof -
  have "0 < max 1 (min (f bs) (length bs))" "max 1 (min (f bs) (length bs)) \<le> length bs"
    using assms by (cases bs; simp add: min_def max_def)+
  moreover have "split_chunks f pos bs
      = \<lparr>Start = pos, Length = max 1 (min (f bs) (length bs)),
          Data = take (max 1 (min (f bs) (length bs))) bs\<rparr>
        # split_chunks f (pos + max 1 (min (f bs) (length bs)))
            (drop (max 1 (min (f bs) (length bs))) bs)"
    using assms by (subst split_chunks.simps) simp
  ultimately show ?thesis
    by blast
qed

lemma split_chunks_lengths: "\<forall>c \<in> set (split_chunks f pos bs). Length c = length (Data c)"
proof (induction "length bs" arbitrary: pos bs rule: less_induct)
  case less
  show ?case
  proof (cases "bs = []")
    case True
    then show ?thesis by simp
  next
    case False
    then obtain k where k: "0 < k" "k \<le> length bs"
      and s: "split_chunks f pos bs
        = \<lparr>Start = pos, Length = k, Data = take k bs\<rparr> # split_chunks f (pos + k) (drop k bs)"
      using split_chunks_step by blast
    have "\<forall>c \<in> set (split_chunks f (pos + k) (drop k bs)). Length c = length (Data c)"
      using k False by (intro less) simp
    then show ?thesis
      using k by (simp add: s)
  qed
qed

lemma split_chunks_positive: "\<forall>c \<in> set (split_chunks f pos bs). 0 < Length c"
proof (induction "length bs" arbitrary: pos bs rule: less_induct)
  case less
  show ?case
  proof (cases "bs = []")
    case True
    then show ?thesis by simp
  next
    case False
    then obtain k where k: "0 < k" "k \<le> length bs"
      and s: "split_chunks f pos bs
        = \<lparr>Start = pos, Length = k, Data = take k bs\<rparr> # split_chunks f (pos + k) (drop k bs)"
      using split_chunks_step by blast
    have "\<forall>c \<in> set (split_chunks f (pos + k) (drop k bs)). 0 < Length c"
      using k False by (intro less) simp
    then show ?thesis
      using k by (simp add: s)
  qed
qed

lemma split_chunks_concat: "concat (map Data (split_chunks f pos bs)) = bs"
proof (induction "length bs" arbitrary: pos bs rule: less_induct)
  case less
  show ?case
  proof (cases "bs = []")
    case True
    then show ?thesis by simp
  next
    case False
    then obtain k where k: "0 < k" "k \<le> length bs"
      and s: "split_chunks f pos bs
        = \<lparr>Start = pos, Length = k, Data = take k bs\<rparr> # split_chunks f (pos + k) (drop k bs)"
      using split_chunks_step by blast
    have "concat (map Data (split_chunks f (pos + k) (drop k bs))) = drop k bs"
      using k False by (intro less) simp
    then show ?thesis
      by (simp add: s)
  qed
qed

lemma split_chunks_sum: "sum_list (map Length (split_chunks f pos bs)) = length bs"
proof (induction "length bs" arbitrary: pos bs rule: less_induct)
  case less
  show ?case
  proof (cases "bs = []")
    case True
    then show ?thesis by simp
  next
    case False
    then obtain k where k: "0 < k" "k \<le> length bs"
      and s: "split_chunks f pos bs
        = \<lparr>Start = pos, Length = k, Data = take k bs\<rparr> # split_chunks f (pos + k) (drop k bs)"
      using split_chunks_step by blast
    have "sum_list (map Length (split_chunks f (pos + k) (drop k bs))) = length (drop k bs)"
      using k False by (intro less) simp
    then show ?thesis
      using k by (simp add: s)
  qed
qed

lemma split_chunks_contiguous:
  "contiguous pos (map (ref_of w) (split_chunks f pos bs)) (pos + length bs)"
proof (induction "length bs" arbitrary: pos bs rule: less_induct)
  case less
  show ?case
  proof (cases "bs = []")
    case True
    then show ?thesis by simp
  next
    case False
    then obtain k where k: "0 < k" "k \<le> length bs"
      and s: "split_chunks f pos bs
        = \<lparr>Start = pos, Length = k, Data = take k bs\<rparr> # split_chunks f (pos + k) (drop k bs)"
      using split_chunks_step by blast
    have "contiguous (pos + k) (map (ref_of w) (split_chunks f (pos + k) (drop k bs)))
        (pos + k + length (drop k bs))"
      using k False by (intro less) simp
    moreover have "pos + k + length (drop k bs) = pos + length bs"
      using k by simp
    ultimately show ?thesis
      by (simp add: s ref_of_def)
  qed
qed

lemma split_chunks_first:
  "bs \<noteq> [] \<Longrightarrow> \<exists>c cs. split_chunks f pos bs = c # cs \<and> Start c = pos"
  by (subst split_chunks.simps) simp

lemma contiguous_append:
  "contiguous pos (xs @ ys) e \<Longrightarrow> contiguous (pos + sum_list (map Length xs)) ys e"
proof (induction xs arbitrary: pos)
  case Nil
  then show ?case by simp
next
  case (Cons x xs)
  then have "contiguous (pos + Length x + sum_list (map Length xs)) ys e"
    by simp
  then show ?case
    by (simp add: add.assoc)
qed

subsection \<open>One reading of the file\<close>

lemma os_fault_quiet: "os_script w = [] \<Longrightarrow> os_fault e w = (None, log e w)"
  by (simp add: os_fault_def)

lemma ChunkFileToBackup_loop_reads:
  assumes "s3_script w = []" "os_script w = []" "cancel_in w = None" "\<not> cancelled js"
    and "resolve (files w) (AbsolutePath itemInfo) = Inr (q, fi)" "i_kind fi = RegularFile"
    and "read_script w = []"
  shows "\<exists>w'. ChunkFileToBackup_loop tries rpID bdID itemInfo js w =
           ((Inr (None, i_data fi),
             itemInfo\<lparr>Content := Content itemInfo
                          @ map (ref_of w) (split_chunks (cut w) 0 (i_data fi))\<rparr>,
             js\<lparr>stat := stat js + length (i_data fi)\<rparr>), w')
         \<and> rest w' = rest w \<and> files w' = files w
         \<and> objects w' = put_chunks w (split_chunks (cut w) 0 (i_data fi)) (objects w)
         \<and> pipe w' = pipe w
             @ map (manifest_record rpID bdID \<circ> ref_of w) (split_chunks (cut w) 0 (i_data fi))"
proof -
  let ?w1 = "log (EvOpen (AbsolutePath itemInfo)) w"
  let ?cs = "split_chunks (cut w) 0 (i_data fi)"
  have q1: "s3_script ?w1 = []" "cancel_in ?w1 = None"
    using assms by (simp_all add: log_def)
  have len: "\<forall>c \<in> set ?cs. Length c = length (Data c)"
    by (rule split_chunks_lengths)
  obtain w' where
    l: "chunk_loop ?cs None rpID bdID (Content itemInfo, [], js) ?w1 =
          ((None, Content itemInfo @ map (ref_of ?w1) ?cs, [] @ concat (map Data ?cs),
            js\<lparr>stat := stat js + sum_list (map Length ?cs)\<rparr>), w')"
    and r: "rest w' = rest ?w1" and f: "files w' = files ?w1"
    and ob: "objects w' = put_chunks ?w1 ?cs (objects ?w1)"
    and pp: "pipe w' = pipe ?w1 @ map (manifest_record rpID bdID \<circ> ref_of ?w1) ?cs"
    using chunk_loop_quiet [OF q1 assms(4) len, where end_err = None and rpID = rpID
        and bdID = bdID and content = "Content itemInfo" and hashed = "[]"]
    by blast
  have e: "ref_of ?w1 = ref_of w" "put_chunks ?w1 = put_chunks w"
    by (simp_all add: ref_of_def chunk_key_def put_chunks_def log_def fun_eq_iff)
  have "ChunkFileToBackup_loop tries rpID bdID itemInfo js w =
      ((Inr (None, i_data fi), itemInfo\<lparr>Content := Content itemInfo @ map (ref_of w) ?cs\<rparr>,
        js\<lparr>stat := stat js + length (i_data fi)\<rparr>), w')"
    using assms l e
    by (subst ChunkFileToBackup_loop.simps)
       (simp add: OpenFile_def os_Open_def os_fault_quiet chunker_New_def chunk_stream_def
          log_def split_chunks_concat split_chunks_sum)
  then show ?thesis
    using r f ob pp e by (simp add: log_def)
qed

lemma ChunkFileToBackup_loop_read_fails:
  assumes "s3_script w = []" "os_script w = []" "cancel_in w = None" "\<not> cancelled js"
    and "resolve (files w) (AbsolutePath itemInfo) = Inr (q, fi)" "i_kind fi = RegularFile"
    and "read_script w = Some n # later" "n \<le> length (split_chunks (cut w) 0 (i_data fi))"
  shows "\<exists>w'. ChunkFileToBackup_loop (Suc tries) rpID bdID itemInfo js w =
           ChunkFileToBackup_loop tries rpID bdID
             (itemInfo\<lparr>Content := Content itemInfo
                           @ map (ref_of w) (take n (split_chunks (cut w) 0 (i_data fi)))\<rparr>)
             (js\<lparr>stat := stat js
                   + sum_list (map Length (take n (split_chunks (cut w) 0 (i_data fi))))\<rparr>) w'
         \<and> rest w' = rest (w\<lparr>read_script := later\<rparr>) \<and> files w' = files w"
proof -
  let ?w1 = "(log (EvOpen (AbsolutePath itemInfo)) w)\<lparr>read_script := later\<rparr>"
  let ?cs = "take n (split_chunks (cut w) 0 (i_data fi))"
  have q1: "s3_script ?w1 = []" "cancel_in ?w1 = None"
    using assms by (simp_all add: log_def)
  have len: "\<forall>c \<in> set ?cs. Length c = length (Data c)"
    using split_chunks_lengths [of "cut w" 0 "i_data fi"] by (auto dest: in_set_takeD)
  obtain w' where
    l: "chunk_loop ?cs (Some (Error ''read error'')) rpID bdID (Content itemInfo, [], js) ?w1 =
          ((Some (Error ''read error''), Content itemInfo @ map (ref_of ?w1) ?cs,
            [] @ concat (map Data ?cs),
            js\<lparr>stat := stat js + sum_list (map Length ?cs)\<rparr>), w')"
    and r: "rest w' = rest ?w1" and f: "files w' = files ?w1"
    using chunk_loop_quiet [OF q1 assms(4) len, where end_err = "Some (Error ''read error'')"
        and rpID = rpID and bdID = bdID and content = "Content itemInfo" and hashed = "[]"]
    by blast
  have e: "ref_of ?w1 = ref_of w"
    by (simp add: ref_of_def chunk_key_def log_def fun_eq_iff)
  have "ChunkFileToBackup_loop (Suc tries) rpID bdID itemInfo js w =
      ChunkFileToBackup_loop tries rpID bdID
        (itemInfo\<lparr>Content := Content itemInfo @ map (ref_of w) ?cs\<rparr>)
        (js\<lparr>stat := stat js + sum_list (map Length ?cs)\<rparr>) w'"
    using assms l e
    by (subst ChunkFileToBackup_loop.simps)
       (simp add: OpenFile_def os_Open_def os_fault_quiet chunker_New_def chunk_stream_def
          log_def)
  moreover have "rest ?w1 = rest (w\<lparr>read_script := later\<rparr>)"
    by (simp add: rest_def log_def)
  ultimately show ?thesis
    using r f by (intro exI [of _ w']) (simp add: log_def)
qed

lemma ChunkFileToBackup_quiet:
  assumes "s3_script w = []" "os_script w = []" "cancel_in w = None" "read_script w = []"
    and "resolve (files w) (AbsolutePath itemInfo) = Inr (q, fi)" "i_kind fi = RegularFile"
  shows "\<exists>w'. ChunkFileToBackup itemInfo rpID bdID w =
           (((length (i_data fi), None),
             itemInfo\<lparr>Content := Content itemInfo
                          @ map (ref_of w) (split_chunks (cut w) 0 (i_data fi)),
                       Sha256Hash := sha256_Sum w (i_data fi)\<rparr>), w')
         \<and> rest w' = rest w \<and> files w' = files w
         \<and> objects w' = put_chunks w (split_chunks (cut w) 0 (i_data fi)) (objects w)
         \<and> pipe w' = pipe w
             @ map (manifest_record rpID bdID \<circ> ref_of w) (split_chunks (cut w) 0 (i_data fi))"
proof -
  let ?js = "\<lparr>errBackupChunk = None, stat = 0, cancelled = False\<rparr>"
  have c: "\<not> cancelled ?js"
    by simp
  obtain w' where
    l: "ChunkFileToBackup_loop MaxTimesRetryChunk rpID bdID itemInfo ?js w =
          ((Inr (None, i_data fi),
            itemInfo\<lparr>Content := Content itemInfo
                         @ map (ref_of w) (split_chunks (cut w) 0 (i_data fi))\<rparr>,
            ?js\<lparr>stat := stat ?js + length (i_data fi)\<rparr>), w')"
    and r: "rest w' = rest w" and f: "files w' = files w"
    and ob: "objects w' = put_chunks w (split_chunks (cut w) 0 (i_data fi)) (objects w)"
    and pp: "pipe w' = pipe w
        @ map (manifest_record rpID bdID \<circ> ref_of w) (split_chunks (cut w) 0 (i_data fi))"
    using ChunkFileToBackup_loop_reads [OF assms(1-3) c assms(5,6,4)] by blast
  have "ChunkFileToBackup itemInfo rpID bdID w =
      (((length (i_data fi), None),
        itemInfo\<lparr>Content := Content itemInfo
                     @ map (ref_of w) (split_chunks (cut w) 0 (i_data fi)),
                  Sha256Hash := sha256_Sum w (i_data fi)\<rparr>), w')"
    using assms(3) l rest_fields(15) [OF r]
    by (simp add: ChunkFileToBackup_def ctx_Done_def)
  then show ?thesis
    using r f ob pp by blast
qed

section \<open>Chunking a file again after a failed reading\<close>

lemma repeated_refs_not_contiguous:
  assumes "0 < n" "n \<le> length (split_chunks f 0 bs)"
  shows "\<not> contiguous 0 (map (ref_of w) (take n (split_chunks f 0 bs))
                          @ map (ref_of w) (split_chunks f 0 bs)) end_pos"
proof
  assume a: "contiguous 0 (map (ref_of w) (take n (split_chunks f 0 bs))
      @ map (ref_of w) (split_chunks f 0 bs)) end_pos"
  define k where "k = sum_list (map Length (map (ref_of w) (take n (split_chunks f 0 bs))))"
  have ne: "bs \<noteq> []"
    using assms by auto
  then obtain c cs where s: "split_chunks f 0 bs = c # cs" and st: "Start c = 0"
    using split_chunks_first by blast
  have "0 < Length c"
    using split_chunks_positive [of f 0 bs] s by simp
  moreover obtain m where "n = Suc m"
    using assms(1) by (cases n) auto
  ultimately have "0 < k"
    by (simp add: k_def s ref_of_def)
  moreover have "contiguous (0 + k) (map (ref_of w) (split_chunks f 0 bs)) end_pos"
    unfolding k_def using a by (rule contiguous_append)
  then have "Start c = k"
    unfolding s by (simp add: ref_of_def)
  ultimately show False
    using st by simp
qed

text \<open>
  C6. The chunker fails once, after \<open>n\<close> chunks of the file, and the next reading of
  the file goes through; nothing else fails. The backup of the file completes without
  error, and the node's content list is the \<open>n\<close> ChunkRefs of the broken reading
  followed by the ChunkRefs of the whole file: it is not contiguous from offset 0 to any
  end, the first \<open>n\<close> chunks of the file are covered twice, and the returned size counts
  them twice.
\<close>

theorem retry_keeps_chunks_of_failed_reading:
  assumes "s3_script w = []" "os_script w = []" "cancel_in w = None"
    and "read_script w = [Some n]" "0 < n" "n \<le> length (split_chunks (cut w) 0 (i_data fi))"
    and "resolve (files w) (AbsolutePath itemInfo) = Inr (q, fi)" "i_kind fi = RegularFile"
    and "Content itemInfo = []"
  shows "fst (ChunkFileToBackup itemInfo rpID bdID w) =
           ((sum_list (map Length (take n (split_chunks (cut w) 0 (i_data fi))))
               + length (i_data fi), None),
            itemInfo\<lparr>Content := map (ref_of w) (take n (split_chunks (cut w) 0 (i_data fi)))
                          @ map (ref_of w) (split_chunks (cut w) 0 (i_data fi)),
                      Sha256Hash := sha256_Sum w (i_data fi)\<rparr>)
         \<and> \<not> contiguous 0 (Content (snd (fst (ChunkFileToBackup itemInfo rpID bdID w)))) end_pos"
proof -
  let ?js = "\<lparr>errBackupChunk = None, stat = 0, cancelled = False\<rparr>"
  let ?cs = "split_chunks (cut w) 0 (i_data fi)"
  let ?item = "itemInfo\<lparr>Content := Content itemInfo @ map (ref_of w) (take n ?cs)\<rparr>"
  let ?js' = "?js\<lparr>stat := stat ?js + sum_list (map Length (take n ?cs))\<rparr>"
  have c: "\<not> cancelled ?js"
    by simp
  obtain wa where
    l: "ChunkFileToBackup_loop (Suc 2) rpID bdID itemInfo ?js w =
          ChunkFileToBackup_loop 2 rpID bdID ?item ?js' wa"
    and r: "rest wa = rest (w\<lparr>read_script := []\<rparr>)" and f: "files wa = files w"
    using ChunkFileToBackup_loop_read_fails [OF assms(1-3) c assms(7,8,4,6)] by blast
  have qa: "s3_script wa = []" "os_script wa = []" "cancel_in wa = None" "read_script wa = []"
    "cut wa = cut w" "sha256_Sum wa = sha256_Sum w"
    using rest_fields [OF r] assms(1-3) by simp_all
  have ra: "ref_of wa = ref_of w"
    using rest_ref_of [OF r] by (simp add: ref_of_def chunk_key_def fun_eq_iff)
  have ca: "\<not> cancelled ?js'"
    by simp
  have fa: "resolve (files wa) (AbsolutePath ?item) = Inr (q, fi)"
    using assms(7) f by simp
  obtain wb where
    m: "ChunkFileToBackup_loop 2 rpID bdID ?item ?js' wa =
          ((Inr (None, i_data fi),
            ?item\<lparr>Content := Content ?item @ map (ref_of wa) (split_chunks (cut wa) 0 (i_data fi))\<rparr>,
            ?js'\<lparr>stat := stat ?js' + length (i_data fi)\<rparr>), wb)"
    and rb: "rest wb = rest wa"
    using ChunkFileToBackup_loop_reads [OF qa(1-3) ca fa assms(8) qa(4)] by blast
  have sb: "sha256_Sum wb = sha256_Sum w"
    using rest_fields(15) [OF rb] qa(6) by simp
  have three: "MaxTimesRetryChunk = Suc 2"
    by (simp add: MaxTimesRetryChunk_def)
  have e: "fst (ChunkFileToBackup itemInfo rpID bdID w) =
      ((sum_list (map Length (take n ?cs)) + length (i_data fi), None),
       itemInfo\<lparr>Content := map (ref_of w) (take n ?cs) @ map (ref_of w) ?cs,
                 Sha256Hash := sha256_Sum w (i_data fi)\<rparr>)"
    using assms(3,9) l m sb qa(5) ra
    by (simp add: ChunkFileToBackup_def ctx_Done_def three)
  show ?thesis
    using repeated_refs_not_contiguous [OF assms(5,6)] by (simp add: e)
qed

theorem retry_keeps_chunks_of_failed_reading_witness:
  "fst (ChunkFileToBackup file0 ''rp'' ''bd'' flaky_read) =
     ((5, None),
      file0\<lparr>Content := [\<lparr>Start = 0, Length = 2, Etag = ''0102''\<rparr>,
                          \<lparr>Start = 0, Length = 2, Etag = ''0102''\<rparr>,
                          \<lparr>Start = 2, Length = 1, Etag = ''03''\<rparr>],
             Sha256Hash := [1, 2, 3]\<rparr>)
   \<and> \<not> contiguous 0 (Content (snd (fst (ChunkFileToBackup file0 ''rp'' ''bd'' flaky_read)))) 3"
proof -
  let ?fi = "dir0\<lparr>i_kind := RegularFile, i_data := [1, 2, 3], i_mode := 420\<rparr>"
  have q: "s3_script flaky_read = []" "os_script flaky_read = []" "cancel_in flaky_read = None"
    "read_script flaky_read = [Some 1]" "sha256_Sum flaky_read = (\<lambda>b. b)"
    by (simp_all add: flaky_read_def src_world_def world0_def)
  have cs: "split_chunks (cut flaky_read) 0 [1, 2, 3]
      = [\<lparr>Start = 0, Length = 2, Data = [1, 2]\<rparr>, \<lparr>Start = 2, Length = 1, Data = [3]\<rparr>]"
    by (simp add: split_chunks.simps flaky_read_def src_world_def world0_def)
  have n: "0 < (1 :: nat)" "1 \<le> length (split_chunks (cut flaky_read) 0 (i_data ?fi))"
    by (simp_all add: cs)
  have res: "resolve (files flaky_read) (AbsolutePath file0) = Inr ([''src'', ''a''], ?fi)"
    by (simp add: resolve_def follow.simps inode_at_def flaky_read_def src_world_def file0_def
        dir0_def)
  have k: "i_kind ?fi = RegularFile" "Content file0 = []"
    by (simp_all add: file0_def)
  have refs: "ref_of flaky_read
      = (\<lambda>c. \<lparr>Start = Start c, Length = Length c, Etag = EncodeToString (Data c)\<rparr>)"
    by (simp add: fun_eq_iff ref_of_def chunk_key_def flaky_read_def src_world_def world0_def)
  have hex: "EncodeToString [1, 2] = ''0102''" "EncodeToString [3] = ''03''"
    by (simp_all add: EncodeToString_def hex_digit_def)
  show ?thesis
    using retry_keeps_chunks_of_failed_reading [OF q(1-4) n res k, of "''rp''" "''bd''" 3]
    by (simp add: cs refs hex q(5))
qed

section \<open>The file system when no call fails\<close>

lemma inode_at_update:
  "inode_at (AList.update p i fs) q = (if q = p then Some i else inode_at fs q)"
  by (simp add: inode_at_def update_conv')

lemma inode_at_delete:
  "p \<noteq> [] \<Longrightarrow> inode_at (AList.delete p fs) q = (if q = p then None else inode_at fs q)"
  by (simp add: inode_at_def delete_conv')

lemma follow_plain:
  "(case inode_at fs p of Some i \<Rightarrow> i_kind i \<noteq> SymbolicLink | None \<Rightarrow> True) \<Longrightarrow>
     follow n fs p = Inr p"
  by (subst follow.simps) (auto split: option.splits)

lemma resolve_plain:
  "inode_at fs p = Some i \<Longrightarrow> i_kind i \<noteq> SymbolicLink \<Longrightarrow> resolve fs p = Inr (p, i)"
  by (simp add: resolve_def follow_plain)

lemma resolve_absent: "inode_at fs p = None \<Longrightarrow> resolve fs p = Inl ErrNotExist"
  by (simp add: resolve_def follow_plain)

lemma resolve_update:
  "i_kind i \<noteq> SymbolicLink \<Longrightarrow> resolve (AList.update p i fs) p = Inr (p, i)"
  by (simp add: resolve_plain inode_at_update)

lemma os_Stat_plain:
  assumes "os_script w = []" "inode_at (files w) p = Some i" "i_kind i \<noteq> SymbolicLink"
  shows "os_Stat p w = (Inr i, log (EvStat p) w)"
  using assms by (simp add: os_Stat_def os_fault_quiet log_def resolve_plain)

lemma os_Stat_absent:
  assumes "os_script w = []" "inode_at (files w) p = None"
  shows "os_Stat p w = (Inl ErrNotExist, log (EvStat p) w)"
  using assms by (simp add: os_Stat_def os_fault_quiet log_def resolve_absent)

lemma os_Chmod_plain:
  assumes "os_script w = []" "euid w = 0" "inode_at (files w) p = Some i"
    "i_kind i \<noteq> SymbolicLink"
  shows "os_Chmod p m w =
     (None, w\<lparr>trace := trace w @ [EvChmod p m],
              files := AList.update p (i\<lparr>i_mode := chmod_bits m, i_ctime := now w\<rparr>) (files w)\<rparr>)"
  using assms by (simp add: os_Chmod_def os_fault_quiet log_def resolve_plain may_change_def)

lemma os_Chown_plain:
  assumes "os_script w = []" "euid w = 0" "inode_at (files w) p = Some i"
    "i_kind i \<noteq> SymbolicLink"
  shows "SetChownItem p uid gid w =
     (None, w\<lparr>trace := trace w @ [EvChown p uid gid],
              files := AList.update p
                (i\<lparr>i_uid := uid, i_gid := gid, i_mode := chown_mode i, i_ctime := now w\<rparr>)
                (files w)\<rparr>)"
  using assms
  by (simp add: SetChownItem_def os_Chown_def os_fault_quiet log_def resolve_plain
      chown_allowed_def)

lemma os_Chtimes_plain:
  assumes "os_script w = []" "euid w = 0" "inode_at (files w) p = Some i"
    "i_kind i \<noteq> SymbolicLink"
  shows "os_Chtimes p at mt w =
     (None, w\<lparr>trace := trace w @ [EvChtimes p at mt],
              files := AList.update p (i\<lparr>i_atime := at, i_mtime := mt, i_ctime := now w\<rparr>)
                (files w)\<rparr>)"
  using assms by (simp add: os_Chtimes_def os_fault_quiet log_def resolve_plain may_change_def)

text \<open>Mode, owner and times of a regular file, as \<open>downloadFile\<close> and \<open>restoreFile\<close> set them.\<close>

lemma attributes_plain:
  assumes "os_script w = []" "euid w = 0" "inode_at (files w) p = Some i"
    "i_kind i = RegularFile"
  shows "os_Chmod p m w =
           (None, w\<lparr>trace := trace w @ [EvChmod p m],
              files := AList.update p (i\<lparr>i_mode := chmod_bits m, i_ctime := now w\<rparr>) (files w)\<rparr>)"
    and "SetChownItem p uid gid
           (w\<lparr>trace := trace w @ [EvChmod p m],
              files := AList.update p (i\<lparr>i_mode := chmod_bits m, i_ctime := now w\<rparr>) (files w)\<rparr>) =
           (None, w\<lparr>trace := trace w @ [EvChmod p m, EvChown p uid gid],
              files := AList.update p
                (i\<lparr>i_mode := restored_mode m, i_uid := uid, i_gid := gid, i_ctime := now w\<rparr>)
                (files w)\<rparr>)"
    and "os_Chtimes p at mt
           (w\<lparr>trace := trace w @ [EvChmod p m, EvChown p uid gid],
              files := AList.update p
                (i\<lparr>i_mode := restored_mode m, i_uid := uid, i_gid := gid, i_ctime := now w\<rparr>)
                (files w)\<rparr>) =
           (None, w\<lparr>trace := trace w @ [EvChmod p m, EvChown p uid gid, EvChtimes p at mt],
              files := AList.update p
                (i\<lparr>i_mode := restored_mode m, i_uid := uid, i_gid := gid, i_atime := at,
                   i_mtime := mt, i_ctime := now w\<rparr>)
                (files w)\<rparr>)"
proof -
  show "os_Chmod p m w =
      (None, w\<lparr>trace := trace w @ [EvChmod p m],
         files := AList.update p (i\<lparr>i_mode := chmod_bits m, i_ctime := now w\<rparr>) (files w)\<rparr>)"
    using assms by (simp add: os_Chmod_plain)
  show "SetChownItem p uid gid
      (w\<lparr>trace := trace w @ [EvChmod p m],
         files := AList.update p (i\<lparr>i_mode := chmod_bits m, i_ctime := now w\<rparr>) (files w)\<rparr>) =
      (None, w\<lparr>trace := trace w @ [EvChmod p m, EvChown p uid gid],
         files := AList.update p
           (i\<lparr>i_mode := restored_mode m, i_uid := uid, i_gid := gid, i_ctime := now w\<rparr>)
           (files w)\<rparr>)"
    using assms
    by (cases i)
       (simp add: SetChownItem_def os_Chown_def os_fault_quiet log_def resolve_update
          chown_allowed_def chown_mode_def restored_mode_def)
  show "os_Chtimes p at mt
      (w\<lparr>trace := trace w @ [EvChmod p m, EvChown p uid gid],
         files := AList.update p
           (i\<lparr>i_mode := restored_mode m, i_uid := uid, i_gid := gid, i_ctime := now w\<rparr>)
           (files w)\<rparr>) =
      (None, w\<lparr>trace := trace w @ [EvChmod p m, EvChown p uid gid, EvChtimes p at mt],
         files := AList.update p
           (i\<lparr>i_mode := restored_mode m, i_uid := uid, i_gid := gid, i_atime := at,
              i_mtime := mt, i_ctime := now w\<rparr>)
           (files w)\<rparr>)"
    using assms
    by (cases i)
       (simp add: os_Chtimes_def os_fault_quiet log_def resolve_update may_change_def)
qed

section \<open>Creating and downloading a file when no call fails\<close>

lemma written_append:
  "written ob (infos @ [info]) old
     = write_at (written ob infos old) (Start info) (fst (the (ob (Etag info))))"
  by (induction infos arbitrary: old) simp_all

lemma downloadFile_loop_quiet:
  assumes "s3_script w = []" "os_script w = []" "cancel_in w = None"
    and "map_of (files w) q = Some i"
    and "\<forall>info \<in> set infos. Etag info \<in> dom (objects w)"
  shows "\<exists>w' s' j. downloadFile_loop infos False (p, q) s w = ((Result None, s'), w')
           \<and> rest w' = rest w \<and> objects w' = objects w
           \<and> trace w' = trace w @ concat (map (fetch_events (objects w) q) infos)
           \<and> files w' = AList.update q j (files w)
           \<and> i_kind j = i_kind i \<and> i_target j = i_target i
           \<and> i_data j = written (objects w) infos (i_data i)"
  using assms
proof (induction infos arbitrary: w s i)
  case Nil
  have "files w = AList.update q i (files w)"
    using Nil.prems(4) by (simp add: update_triv)
  then show ?case
    by auto
next
  case (Cons info infos)
  obtain body e where ob: "objects w (Etag info) = Some (body, e)"
    using Cons.prems(5) by auto
  let ?s = "s\<lparr>Bytes := Length info, Storage := Length info\<rparr>"
  let ?j = "i\<lparr>i_data := write_at (i_data i) (Start info) body, i_mtime := now w,
               i_ctime := now w\<rparr>"
  let ?w = "w\<lparr>bo_script := tl (bo_script w),
              trace := trace w @ [EvGetObject (Etag info), EvWriteAt q (Start info) body],
              progress := progress w @ [?s],
              files := AList.update q ?j (files w)\<rparr>"
  have i: "inode_at (files w) q = Some i"
    using Cons.prems(4) by (simp add: inode_at_def)
  have step: "downloadFile_loop (info # infos) False (p, q) s w
      = downloadFile_loop infos False (p, q) ?s ?w"
    using Cons.prems(1-3) ob i
    by (cases w)
       (simp add: ctx_Done_def Client_GetObject_def GetObject_quiet Report_def os_WriteAt_def
          os_fault_quiet log_def)
  have q: "s3_script ?w = []" "os_script ?w = []" "cancel_in ?w = None"
    "map_of (files ?w) q = Some ?j"
    "\<forall>info \<in> set infos. Etag info \<in> dom (objects ?w)"
    using Cons.prems by (simp_all add: update_conv')
  obtain w' s' j where
    l: "downloadFile_loop infos False (p, q) ?s ?w = ((Result None, s'), w')"
    and r: "rest w' = rest ?w" and o: "objects w' = objects ?w"
    and t: "trace w' = trace ?w @ concat (map (fetch_events (objects ?w) q) infos)"
    and f: "files w' = AList.update q j (files ?w)"
    and k: "i_kind j = i_kind ?j" "i_target j = i_target ?j"
    and d: "i_data j = written (objects ?w) infos (i_data ?j)"
    using Cons.IH [OF q, of ?s] by blast
  have rw: "rest ?w = rest w"
    by (simp add: rest_def)
  have fe: "fetch_events (objects w) q info
      = [EvGetObject (Etag info), EvWriteAt q (Start info) body]"
    using ob by (simp add: fetch_events_def)
  show ?case
    unfolding step using l r o t f k d fe rw ob
    by (intro exI [of _ w'] exI [of _ s'] exI [of _ j]) simp
qed

lemma createFile_quiet:
  assumes "os_script w = []" "euid w = 0" "inode_at (files w) target = None"
    and "inode_at (files w) (Dir target) = Some d" "i_kind d = Directory"
  shows "createFile target m uid gid w =
     (Inr (target, target),
      w\<lparr>trace := trace w @ [EvStat (Dir target), EvCreate target, EvChmod target m,
                              EvChown target uid gid],
        files := AList.update target
          \<lparr>i_kind = RegularFile, i_data = [], i_mode = restored_mode m, i_uid = uid,
            i_gid = gid, i_atime = now w, i_mtime = now w, i_ctime = now w,
            i_target = Relative []\<rparr> (files w)\<rparr>)"
  using assms
  by (simp add: createFile_def os_Stat_plain os_Create_def os_fault_quiet log_def follow_plain
      parent_error_def new_inode_def os_Chmod_def resolve_update may_change_def
      SetChownItem_def os_Chown_def chown_allowed_def chown_mode_def restored_mode_def)

lemma downloadFile_quiet:
  assumes "s3_script w = []" "os_script w = []" "cancel_in w = None" "euid w = 0"
    and "map_of (files w) q = Some i" "i_kind i = RegularFile"
    and "\<forall>info \<in> set (Content item). Etag info \<in> dom (objects w)"
  shows "\<exists>w'. downloadFile False (q, q) item w = (Result None, w')
           \<and> rest w' = rest w \<and> objects w' = objects w
           \<and> trace w' = trace w @ download_calls (objects w) q item @ attribute_calls q item
           \<and> files w' = AList.update q
                 \<lparr>i_kind = RegularFile, i_data = written (objects w) (Content item) (i_data i),
                   i_mode = restored_mode (Mode item), i_uid = UID item, i_gid = GID item,
                   i_atime = AccessTime item, i_mtime = ModTime item, i_ctime = now w,
                   i_target = i_target i\<rparr> (files w)"
proof -
  obtain wa s' j where
    l: "downloadFile_loop (Content item) False (q, q) Stat0 w = ((Result None, s'), wa)"
    and r: "rest wa = rest w" and o: "objects wa = objects w"
    and t: "trace wa = trace w @ concat (map (fetch_events (objects w) q) (Content item))"
    and f: "files wa = AList.update q j (files w)"
    and k: "i_kind j = i_kind i" "i_target j = i_target i"
    and d: "i_data j = written (objects w) (Content item) (i_data i)"
    using downloadFile_loop_quiet [OF assms(1-3,5,7), of q Stat0] by blast
  have qa: "os_script wa = []" "euid wa = 0" "now wa = now w"
    using rest_fields [OF r] assms by simp_all
  have ia: "inode_at (files wa) q = Some j" "i_kind j = RegularFile"
    using f k assms(6) by (simp_all add: inode_at_update)
  let ?j = "j\<lparr>i_mode := restored_mode (Mode item), i_uid := UID item, i_gid := GID item,
              i_atime := AccessTime item, i_mtime := ModTime item, i_ctime := now wa\<rparr>"
  let ?w = "wa\<lparr>trace := trace wa @ [EvChmod q (Mode item), EvChown q (UID item) (GID item),
                                  EvChtimes q (AccessTime item) (ModTime item)],
               files := AList.update q ?j (files wa)\<rparr>"
  have e: "downloadFile False (q, q) item w = (Result None, ?w)"
    using l attributes_plain(1) [OF qa(1,2) ia, where m = "Mode item"]
      attributes_plain(2) [OF qa(1,2) ia, where m = "Mode item" and uid = "UID item"
        and gid = "GID item"]
      attributes_plain(3) [OF qa(1,2) ia, where m = "Mode item" and uid = "UID item"
        and gid = "GID item" and at = "AccessTime item" and mt = "ModTime item"]
    by (simp add: downloadFile_def)
  have j: "?j = \<lparr>i_kind = RegularFile, i_data = written (objects w) (Content item) (i_data i),
      i_mode = restored_mode (Mode item), i_uid = UID item, i_gid = GID item,
      i_atime = AccessTime item, i_mtime = ModTime item, i_ctime = now w,
      i_target = i_target i\<rparr>"
    using k d ia(2) qa(3) by (cases j) simp
  have "rest ?w = rest w" "objects ?w = objects w"
    "trace ?w = trace w @ download_calls (objects w) q item @ attribute_calls q item"
    "files ?w = AList.update q ?j (files w)"
    using r o t f by (simp_all add: download_calls_def attribute_calls_def)
  then show ?thesis
    using e j by (intro exI [of _ ?w]) simp
qed

lemma create_and_download_quiet:
  assumes "s3_script w = []" "os_script w = []" "cancel_in w = None" "euid w = 0"
    and "inode_at (files w) target = None"
    and "inode_at (files w) (Dir target) = Some d" "i_kind d = Directory"
    and "\<forall>info \<in> set (Content item). Etag info \<in> dom (objects w)"
  shows "\<exists>w'. create_and_download final_report False target item w = (Result None, w')
           \<and> rest w' = rest w \<and> objects w' = objects w
           \<and> trace w' = trace w @ create_calls target item
                 @ download_calls (objects w) target item @ attribute_calls target item
           \<and> files w' = AList.update target (restored_file (objects w) item w) (files w)"
proof -
  let ?i = "\<lparr>i_kind = RegularFile, i_data = [], i_mode = restored_mode (Mode item),
      i_uid = UID item, i_gid = GID item, i_atime = now w, i_mtime = now w, i_ctime = now w,
      i_target = Relative []\<rparr>"
  let ?w = "w\<lparr>trace := trace w @ create_calls target item,
              files := AList.update target ?i (files w)\<rparr>"
  have c: "createFile target (Mode item) (UID item) (GID item) w = (Inr (target, target), ?w)"
    using createFile_quiet [OF assms(2,4,5,6,7)] by (simp add: create_calls_def)
  have q: "s3_script ?w = []" "os_script ?w = []" "cancel_in ?w = None" "euid ?w = 0"
    "map_of (files ?w) target = Some ?i" "i_kind ?i = RegularFile"
    "\<forall>info \<in> set (Content item). Etag info \<in> dom (objects ?w)"
    using assms by (simp_all add: update_conv')
  obtain w' where
    l: "downloadFile False (target, target) item ?w = (Result None, w')"
    and r: "rest w' = rest ?w" and o: "objects w' = objects ?w"
    and t: "trace w' = trace ?w @ download_calls (objects ?w) target item
        @ attribute_calls target item"
    and f: "files w' = AList.update target
        \<lparr>i_kind = RegularFile, i_data = written (objects ?w) (Content item) (i_data ?i),
          i_mode = restored_mode (Mode item), i_uid = UID item, i_gid = GID item,
          i_atime = AccessTime item, i_mtime = ModTime item, i_ctime = now ?w,
          i_target = i_target ?i\<rparr> (files ?w)"
    using downloadFile_quiet [OF q] by blast
  let ?w' = "if final_report then Report Stat0 w' else w'"
  have e: "create_and_download final_report False target item w = (Result None, ?w')"
    using c l by (simp add: create_and_download_def)
  have "rest ?w' = rest w" "objects ?w' = objects w"
    "trace ?w' = trace w @ create_calls target item
       @ download_calls (objects w) target item @ attribute_calls target item"
    "files ?w' = AList.update target (restored_file (objects w) item w) (files w)"
    using r o t f by (simp_all add: Report_def restored_file_def)
  then show ?thesis
    using e by (intro exI [of _ ?w']) simp
qed

lemma Dir_differs:
  assumes "p \<noteq> []"
  shows "Dir p \<noteq> p"
proof
  assume a: "Dir p = p"
  have "length (Dir p) = length p - 1"
    by (simp add: Dir_def)
  then have "length p = length p - 1"
    by (simp only: a)
  then have "length p = 0"
    by arith
  then show False
    using assms by simp
qed

section \<open>The file restore decision\<close>

text \<open>
  C3. A file node is restored to a target path whose directory is there, by root, in a
  run in which no call fails and the context is not cancelled, and every chunk of the
  node's content list is in the bucket. What \<open>restoreFile\<close> does is decided by the entry on
  disk. No entry: \<open>os.Stat\<close>, then the file is created, every chunk is fetched and written
  at its offset, and mode, owner and times are set. An entry whose formatted change time
  is the node's: \<open>os.Stat\<close> and nothing else, the file system stays as it is. Change time
  differs and formatted modification time is the node's: \<open>os.Stat\<close>, then only
  \<open>Chmod\<close>, \<open>Chown\<close> and \<open>Chtimes\<close>; the bytes of the file stay. Both times differ: \<open>os.Stat\<close>,
  \<open>os.Remove\<close>, then as for no entry.
\<close>

theorem restoreFile_decision:
  assumes "s3_script w = []" "os_script w = []" "cancel_in w = None" "euid w = 0"
    and "target \<noteq> []"
    and "inode_at (files w) (Dir target) = Some d" "i_kind d = Directory"
    and "\<forall>info \<in> set (Content item). Etag info \<in> dom (objects w)"
    and "inode_at (files w) target = on_disk"
    and "case on_disk of None \<Rightarrow> True | Some fi \<Rightarrow> i_kind fi = RegularFile"
  shows "\<exists>w'. restoreFile False target item w = (Result None, w') \<and> objects w' = objects w \<and>
     (case on_disk of
        None \<Rightarrow>
          trace w' = trace w @ [EvStat target] @ create_calls target item
            @ download_calls (objects w) target item @ attribute_calls target item
          \<and> files w' = AList.update target (restored_file (objects w) item w) (files w)
      | Some fi \<Rightarrow>
          if EqualFold (timeToString (i_ctime fi)) (timeToString (ChangeTime item))
          then trace w' = trace w @ [EvStat target] \<and> files w' = files w
          else if EqualFold (timeToString (i_mtime fi)) (timeToString (ModTime item))
          then trace w' = trace w @ [EvStat target] @ attribute_calls target item
            \<and> files w' = AList.update target
                  (fi\<lparr>i_mode := restored_mode (Mode item), i_uid := UID item,
                      i_gid := GID item, i_atime := AccessTime item, i_mtime := ModTime item,
                      i_ctime := now w\<rparr>) (files w)
          else trace w' = trace w @ [EvStat target, EvRemove target] @ create_calls target item
            @ download_calls (objects w) target item @ attribute_calls target item
          \<and> files w' = AList.update target (restored_file (objects w) item w)
                (AList.delete target (files w)))"
proof (cases on_disk)
  case None
  let ?w = "log (EvStat target) w"
  have q: "s3_script ?w = []" "os_script ?w = []" "cancel_in ?w = None" "euid ?w = 0"
    "inode_at (files ?w) target = None" "inode_at (files ?w) (Dir target) = Some d"
    "\<forall>info \<in> set (Content item). Etag info \<in> dom (objects ?w)"
    using assms None by (simp_all add: log_def)
  obtain w' where
    l: "create_and_download True False target item ?w = (Result None, w')"
    and o: "objects w' = objects ?w"
    and t: "trace w' = trace ?w @ create_calls target item
        @ download_calls (objects ?w) target item @ attribute_calls target item"
    and f: "files w' = AList.update target (restored_file (objects ?w) item ?w) (files ?w)"
    using create_and_download_quiet [OF q(1-6) assms(7) q(7)] by blast
  have "restoreFile False target item w = (Result None, w')"
    using assms(2,3,9) None l by (simp add: restoreFile_def ctx_Done_def os_Stat_absent)
  then show ?thesis
    using None o t f by (simp add: log_def restored_file_def)
next
  case (Some fi)
  let ?w = "log (EvStat target) w"
  have k: "i_kind fi = RegularFile" and i: "inode_at (files w) target = Some fi"
    using assms(9,10) Some by simp_all
  have st: "os_Stat target w = (Inr fi, ?w)"
    using assms(2) i k by (simp add: os_Stat_plain)
  show ?thesis
  proof (cases "EqualFold (timeToString (i_ctime fi)) (timeToString (ChangeTime item))")
    case True
    then have "restoreFile False target item w = (Result None, ?w)"
      using assms(3) st by (simp add: restoreFile_def ctx_Done_def ItemLocal_def)
    then show ?thesis
      using Some True by (simp add: log_def)
  next
    case ctime: False
    show ?thesis
    proof (cases "EqualFold (timeToString (i_mtime fi)) (timeToString (ModTime item))")
      case True
      have q: "os_script ?w = []" "euid ?w = 0" "inode_at (files ?w) target = Some fi"
        using assms(2,4) i by (simp_all add: log_def)
      let ?w' = "?w\<lparr>trace := trace ?w @ [EvChmod target (Mode item),
                     EvChown target (UID item) (GID item),
                     EvChtimes target (AccessTime item) (ModTime item)],
                   files := AList.update target
                     (fi\<lparr>i_mode := restored_mode (Mode item), i_uid := UID item,
                         i_gid := GID item, i_atime := AccessTime item,
                         i_mtime := ModTime item, i_ctime := now ?w\<rparr>) (files ?w)\<rparr>"
      have "restoreFile False target item w = (Result None, ?w')"
        using assms(3) st ctime True
          attributes_plain(1) [OF q k, where m = "Mode item"]
          attributes_plain(2) [OF q k, where m = "Mode item" and uid = "UID item"
            and gid = "GID item"]
          attributes_plain(3) [OF q k, where m = "Mode item" and uid = "UID item"
            and gid = "GID item" and at = "AccessTime item" and mt = "ModTime item"]
        by (simp add: restoreFile_def ctx_Done_def ItemLocal_def)
      then show ?thesis
        using Some ctime True by (simp add: log_def attribute_calls_def)
    next
      case mtime: False
      let ?wr = "?w\<lparr>trace := trace ?w @ [EvRemove target],
                   files := AList.delete target (files ?w)\<rparr>"
      have rm: "os_Remove target ?w = (None, ?wr)"
        using assms(2,5) i k by (simp add: os_Remove_def os_fault_quiet log_def)
      have q: "s3_script ?wr = []" "os_script ?wr = []" "cancel_in ?wr = None" "euid ?wr = 0"
        "inode_at (files ?wr) target = None" "inode_at (files ?wr) (Dir target) = Some d"
        "\<forall>info \<in> set (Content item). Etag info \<in> dom (objects ?wr)"
        using assms Dir_differs [OF assms(5)] by (simp_all add: log_def inode_at_delete)
      obtain w' where
        l: "create_and_download False False target item ?wr = (Result None, w')"
        and o: "objects w' = objects ?wr"
        and t: "trace w' = trace ?wr @ create_calls target item
            @ download_calls (objects ?wr) target item @ attribute_calls target item"
        and f: "files w' = AList.update target (restored_file (objects ?wr) item ?wr) (files ?wr)"
        using create_and_download_quiet [OF q(1-6) assms(7) q(7)] by blast
      have "restoreFile False target item w = (Result None, w')"
        using assms(3) st ctime mtime rm l
        by (simp add: restoreFile_def ctx_Done_def ItemLocal_def)
      then show ?thesis
        using Some ctime mtime o t f by (simp add: log_def restored_file_def)
    qed
  qed
qed

text \<open>
  In \<open>stale_world\<close> the file \<open>dst/a\<close> has another change time and another modification
  time than the node \<open>prior0\<close>: it is removed, created again, and its two chunks are
  fetched and written.
\<close>

theorem restoreFile_decision_witness:
  "\<exists>w'. restoreFile False [''dst'', ''a''] prior0 stale_world = (Result None, w')
     \<and> trace w' =
         [EvStat [''dst'', ''a''], EvRemove [''dst'', ''a''], EvStat [''dst''],
          EvCreate [''dst'', ''a''], EvChmod [''dst'', ''a''] 420, EvChown [''dst'', ''a''] 0 0,
          EvGetObject ''0102'', EvWriteAt [''dst'', ''a''] 0 [1, 2],
          EvGetObject ''03'', EvWriteAt [''dst'', ''a''] 2 [3],
          EvChmod [''dst'', ''a''] 420, EvChown [''dst'', ''a''] 0 0,
          EvChtimes [''dst'', ''a''] Time0 (Time0\<lparr>nanosecond := 999\<rparr>)]
     \<and> inode_at (files w') [''dst'', ''a''] =
         Some \<lparr>i_kind = RegularFile, i_data = [1, 2, 3], i_mode = 420, i_uid = 0, i_gid = 0,
                i_atime = Time0, i_mtime = Time0\<lparr>nanosecond := 999\<rparr>,
                i_ctime = Time0\<lparr>year := 2022\<rparr>, i_target = Relative []\<rparr>"
proof -
  let ?fi = "dir0\<lparr>i_kind := RegularFile, i_data := [9], i_mode := 384,
      i_mtime := Time0\<lparr>year := 2020\<rparr>, i_ctime := Time0\<lparr>year := 2020\<rparr>\<rparr>"
  have q: "s3_script stale_world = []" "os_script stale_world = []"
    "cancel_in stale_world = None" "euid stale_world = 0" "[''dst'', ''a''] \<noteq> []"
    "now stale_world = Time0\<lparr>year := 2022\<rparr>" "trace stale_world = []"
    by (simp_all add: stale_world_def src_world_def world0_def)
  have d: "inode_at (files stale_world) (Dir [''dst'', ''a'']) = Some dir0" "i_kind dir0 = Directory"
    by (simp_all add: inode_at_def Dir_def stale_world_def src_world_def dir0_def)
  have c: "\<forall>info \<in> set (Content prior0). Etag info \<in> dom (objects stale_world)"
    by (simp add: prior0_def stale_world_def)
  have i: "inode_at (files stale_world) [''dst'', ''a''] = Some ?fi"
    by (simp add: inode_at_def stale_world_def src_world_def)
  have k: "case Some ?fi of None \<Rightarrow> True | Some fi \<Rightarrow> i_kind fi = RegularFile"
    by simp
  have ne: "timeToString (Time0\<lparr>year := 2020\<rparr>) \<noteq> timeToString Time0"
    "timeToString (Time0\<lparr>year := 2020\<rparr>) \<noteq> timeToString (Time0\<lparr>nanosecond := 999\<rparr>)"
    by (simp_all add: timeToString_def zero_pad_def digits.simps digit_char_def Time0_def)
  have t: "\<not> EqualFold (timeToString (i_ctime ?fi)) (timeToString (ChangeTime prior0))"
    "\<not> EqualFold (timeToString (i_mtime ?fi)) (timeToString (ModTime prior0))"
    using ne by (simp_all add: EqualFold_timeToString prior0_def file0_def)
  have m: "restored_mode 420 = 420"
    by (simp add: restored_mode_def chmod_bits_def ModeSetuid_def ModeSetgid_def ModeSticky_def)
  have ob: "objects stale_world ''0102'' = Some ([1, 2], etag_of world0 [1, 2])"
    "objects stale_world ''03'' = Some ([3], etag_of world0 [3])"
    by (simp_all add: stale_world_def)
  have a: "Content prior0 = [\<lparr>Start = 0, Length = 2, Etag = ''0102''\<rparr>,
      \<lparr>Start = 2, Length = 1, Etag = ''03''\<rparr>]"
    "Mode prior0 = 420" "UID prior0 = 0" "GID prior0 = 0" "AccessTime prior0 = Time0"
    "ModTime prior0 = Time0\<lparr>nanosecond := 999\<rparr>"
    by (simp_all add: prior0_def file0_def)
  show ?thesis
    using restoreFile_decision [OF q(1-5) d c i k] t
    by (auto simp add: create_calls_def download_calls_def attribute_calls_def fetch_events_def
        restored_file_def inode_at_update Dir_def write_at_def q(6,7) m ob a)
qed

section \<open>The differ: reuse or full chunking\<close>

lemma put_objects_dom: "dom (put_objects et ob key b) = insert key (dom ob)"
  by (auto simp: put_objects_def split: option.splits if_splits)

lemma put_chunks_dom:
  "dom (put_chunks w cs ob) = dom ob \<union> (\<lambda>c. chunk_key w (Data c)) ` set cs"
proof (induction cs arbitrary: ob)
  case Nil
  show ?case by (simp add: put_chunks_def)
next
  case (Cons c cs)
  have "put_chunks w (c # cs) ob
      = put_chunks w cs (put_objects (etag_of w) ob (chunk_key w (Data c)) (Data c))"
    by (simp add: put_chunks_def)
  then show ?case
    using Cons.IH [of "put_objects (etag_of w) ob (chunk_key w (Data c)) (Data c)"]
    by (auto simp: put_objects_dom)
qed

lemma UploadFile_chunks:
  assumes "s3_script w = []" "os_script w = []" "read_script w = []" "cancel_in w = None"
    and "resolve (files w) (AbsolutePath itemInfo) = Inr (q, fi)" "i_kind fi = RegularFile"
    and "lastInfo = None
      \<or> timeToString (ModTime (the lastInfo)) \<noteq> timeToString (ModTime itemInfo)"
  shows "\<exists>w'. UploadFile lastInfo itemInfo rpID bdID w =
           (((length (i_data fi), None),
             itemInfo\<lparr>Content := Content itemInfo
                          @ map (ref_of w) (split_chunks (cut w) 0 (i_data fi)),
                       Sha256Hash := sha256_Sum w (i_data fi)\<rparr>), w')
         \<and> rest w' = rest w \<and> files w' = files w
         \<and> objects w' = put_chunks w (split_chunks (cut w) 0 (i_data fi)) (objects w)
         \<and> pipe w' = pipe w
             @ map (manifest_record rpID bdID \<circ> ref_of w) (split_chunks (cut w) 0 (i_data fi))"
proof -
  obtain w' where
    c: "ChunkFileToBackup itemInfo rpID bdID w =
          (((length (i_data fi), None),
            itemInfo\<lparr>Content := Content itemInfo
                         @ map (ref_of w) (split_chunks (cut w) 0 (i_data fi)),
                      Sha256Hash := sha256_Sum w (i_data fi)\<rparr>), w')"
    and r: "rest w' = rest w" and f: "files w' = files w"
    and ob: "objects w' = put_chunks w (split_chunks (cut w) 0 (i_data fi)) (objects w)"
    and pp: "pipe w' = pipe w
        @ map (manifest_record rpID bdID \<circ> ref_of w) (split_chunks (cut w) 0 (i_data fi))"
    using ChunkFileToBackup_quiet [OF assms(1,2,4,3,5,6)] by blast
  have d: "ctx_Done False w = (False, w)"
    using assms(4) by (simp add: ctx_Done_def)
  have n: "cancel_in w \<noteq> Some 0"
    using assms(4) by simp
  have s0: "Stat0\<lparr>Errors := False\<rparr> = Stat0"
    by (simp add: Stat0_def)
  have "UploadFile lastInfo itemInfo rpID bdID w =
      (((length (i_data fi), None),
        itemInfo\<lparr>Content := Content itemInfo
                     @ map (ref_of w) (split_chunks (cut w) 0 (i_data fi)),
                  Sha256Hash := sha256_Sum w (i_data fi)\<rparr>), Report Stat0 w')"
    using UploadFile_full [OF n assms(7), of rpID bdID] c d by (simp add: s0)
  then show ?thesis
    using r f ob pp by (intro exI [of _ "Report Stat0 w'"]) (simp add: Report_def)
qed

text \<open>
  C2. On a context that is not yet done. When a prior node is there and the two
  \<open>mod_time\<close>s agree as formatted to the microsecond, the new node takes the prior node's
  \<open>Content\<close> and \<open>Sha256Hash\<close> unchanged, one manifest record with multiplicity 1 and the
  recorded length goes to the pipe for each ChunkRef of the prior content, in order, and
  nothing else happens but the progress report: no file is opened and no object stored.
  When the prior node is missing or the formatted times differ, the result, the node and
  the world are those of \<open>ChunkFileToBackup\<close>, followed by the progress report; and in a
  run in which no call fails, on a regular file, this is the chunking of the whole file:
  the size returned is the length of the file, the node's content list gets one ChunkRef
  for each chunk the chunker cuts, with the chunk's offset and length and the hex MD5 of
  its bytes as etag, the chunks are the bytes of the file from offset 0 to its end
  without gap or overlap, the hash is the SHA-256 of the file, every chunk is put
  to the bucket under its etag, and one manifest record goes to the pipe for each chunk.
\<close>

theorem UploadFile_reuse_or_chunk:
  assumes "cancel_in w \<noteq> Some 0"
  shows "(timeToString (ModTime li) = timeToString (ModTime itemInfo) \<longrightarrow>
            UploadFile (Some li) itemInfo rpID bdID w =
              (((0, None), itemInfo\<lparr>Content := Content li, Sha256Hash := Sha256Hash li\<rparr>),
               Report Stat0
                 ((snd (ctx_Done False w))
                    \<lparr>pipe := pipe w @ map (manifest_record rpID bdID) (Content li)\<rparr>)))
       \<and> (lastInfo = None
            \<or> timeToString (ModTime (the lastInfo)) \<noteq> timeToString (ModTime itemInfo) \<longrightarrow>
            UploadFile lastInfo itemInfo rpID bdID w =
              (fst (ChunkFileToBackup itemInfo rpID bdID (snd (ctx_Done False w))),
               Report
                 (Stat0\<lparr>Errors :=
                    snd (fst (fst (ChunkFileToBackup itemInfo rpID bdID (snd (ctx_Done False w)))))
                      \<noteq> None\<rparr>)
                 (snd (ChunkFileToBackup itemInfo rpID bdID (snd (ctx_Done False w)))))
            \<and> (s3_script w = [] \<and> os_script w = [] \<and> read_script w = [] \<and> cancel_in w = None
                \<and> resolve (files w) (AbsolutePath itemInfo) = Inr (q, fi)
                \<and> i_kind fi = RegularFile \<longrightarrow>
                fst (UploadFile lastInfo itemInfo rpID bdID w) =
                  ((length (i_data fi), None),
                   itemInfo\<lparr>Content := Content itemInfo
                                @ map (ref_of w) (split_chunks (cut w) 0 (i_data fi)),
                             Sha256Hash := sha256_Sum w (i_data fi)\<rparr>)
                \<and> concat (map Data (split_chunks (cut w) 0 (i_data fi))) = i_data fi
                \<and> contiguous 0 (map (ref_of w) (split_chunks (cut w) 0 (i_data fi)))
                     (length (i_data fi))
                \<and> objects (snd (UploadFile lastInfo itemInfo rpID bdID w)) =
                     put_chunks w (split_chunks (cut w) 0 (i_data fi)) (objects w)
                \<and> (\<forall>c \<in> set (split_chunks (cut w) 0 (i_data fi)).
                     chunk_key w (Data c) \<in> dom (objects (snd (UploadFile lastInfo itemInfo rpID bdID w))))
                \<and> pipe (snd (UploadFile lastInfo itemInfo rpID bdID w)) =
                     pipe w @ map (manifest_record rpID bdID \<circ> ref_of w)
                                (split_chunks (cut w) 0 (i_data fi))))"
proof (intro conjI impI)
  assume "timeToString (ModTime li) = timeToString (ModTime itemInfo)"
  then show "UploadFile (Some li) itemInfo rpID bdID w =
      (((0, None), itemInfo\<lparr>Content := Content li, Sha256Hash := Sha256Hash li\<rparr>),
       Report Stat0
         ((snd (ctx_Done False w))
            \<lparr>pipe := pipe w @ map (manifest_record rpID bdID) (Content li)\<rparr>))"
    using assms UploadFile_reuse [of w li itemInfo rpID bdID] by blast
next
  assume "lastInfo = None
      \<or> timeToString (ModTime (the lastInfo)) \<noteq> timeToString (ModTime itemInfo)"
  then show "UploadFile lastInfo itemInfo rpID bdID w =
      (fst (ChunkFileToBackup itemInfo rpID bdID (snd (ctx_Done False w))),
       Report
         (Stat0\<lparr>Errors :=
            snd (fst (fst (ChunkFileToBackup itemInfo rpID bdID (snd (ctx_Done False w)))))
              \<noteq> None\<rparr>)
         (snd (ChunkFileToBackup itemInfo rpID bdID (snd (ctx_Done False w)))))"
    using assms UploadFile_full [of w lastInfo itemInfo rpID bdID] by blast
next
  assume l: "lastInfo = None
      \<or> timeToString (ModTime (the lastInfo)) \<noteq> timeToString (ModTime itemInfo)"
    and h: "s3_script w = [] \<and> os_script w = [] \<and> read_script w = [] \<and> cancel_in w = None
      \<and> resolve (files w) (AbsolutePath itemInfo) = Inr (q, fi) \<and> i_kind fi = RegularFile"
  have h1: "s3_script w = []" "os_script w = []" "read_script w = []" "cancel_in w = None"
    "resolve (files w) (AbsolutePath itemInfo) = Inr (q, fi)" "i_kind fi = RegularFile"
    using h by simp_all
  obtain w' where
    u: "UploadFile lastInfo itemInfo rpID bdID w =
          (((length (i_data fi), None),
            itemInfo\<lparr>Content := Content itemInfo
                         @ map (ref_of w) (split_chunks (cut w) 0 (i_data fi)),
                      Sha256Hash := sha256_Sum w (i_data fi)\<rparr>), w')"
    and ob: "objects w' = put_chunks w (split_chunks (cut w) 0 (i_data fi)) (objects w)"
    and pp: "pipe w' = pipe w
        @ map (manifest_record rpID bdID \<circ> ref_of w) (split_chunks (cut w) 0 (i_data fi))"
    using UploadFile_chunks [OF h1 l, of rpID bdID] by blast
  show "fst (UploadFile lastInfo itemInfo rpID bdID w) =
      ((length (i_data fi), None),
       itemInfo\<lparr>Content := Content itemInfo
                    @ map (ref_of w) (split_chunks (cut w) 0 (i_data fi)),
                 Sha256Hash := sha256_Sum w (i_data fi)\<rparr>)"
    by (simp add: u)
  show "concat (map Data (split_chunks (cut w) 0 (i_data fi))) = i_data fi"
    by (rule split_chunks_concat)
  show "contiguous 0 (map (ref_of w) (split_chunks (cut w) 0 (i_data fi))) (length (i_data fi))"
    using split_chunks_contiguous [of 0 w "cut w" "i_data fi"] by simp
  show "objects (snd (UploadFile lastInfo itemInfo rpID bdID w)) =
      put_chunks w (split_chunks (cut w) 0 (i_data fi)) (objects w)"
    by (simp add: u ob)
  show "\<forall>c \<in> set (split_chunks (cut w) 0 (i_data fi)).
      chunk_key w (Data c) \<in> dom (objects (snd (UploadFile lastInfo itemInfo rpID bdID w)))"
    by (simp add: u ob put_chunks_dom)
  show "pipe (snd (UploadFile lastInfo itemInfo rpID bdID w)) =
      pipe w @ map (manifest_record rpID bdID \<circ> ref_of w) (split_chunks (cut w) 0 (i_data fi))"
    by (simp add: u pp)
qed

text \<open>
  The witness, on the file \<open>src/a\<close> of three bytes. A prior node whose time differs from
  the item's by 999 nanoseconds, which the format drops: the item gets the two ChunkRefs
  and the hash of the prior node, no request is made and the bucket stays empty. No
  prior node, or one of a year before: the file is cut into its two chunks, both are
  stored, and the node gets their ChunkRefs and the hash of the three bytes.
\<close>

theorem UploadFile_reuse_or_chunk_witness:
  "cancel_in src_world \<noteq> Some 0
   \<and> ModTime prior0 \<noteq> ModTime file0
   \<and> timeToString (ModTime prior0) = timeToString (ModTime file0)
   \<and> fst (UploadFile (Some prior0) file0 ''rp2'' ''bd1'' src_world) =
       ((0, None), file0\<lparr>Content := Content prior0, Sha256Hash := [7, 7]\<rparr>)
   \<and> pipe (snd (UploadFile (Some prior0) file0 ''rp2'' ''bd1'' src_world)) =
       [\<lparr>BackupDirectoryID = ''bd1'', RecoveryPointID = ''rp2'',
         Chunks = [(''0102'', [''1'', ''2''])]\<rparr>,
        \<lparr>BackupDirectoryID = ''bd1'', RecoveryPointID = ''rp2'',
         Chunks = [(''03'', [''1'', ''1''])]\<rparr>]
   \<and> trace (snd (UploadFile (Some prior0) file0 ''rp2'' ''bd1'' src_world)) = []
   \<and> objects (snd (UploadFile (Some prior0) file0 ''rp2'' ''bd1'' src_world)) = Map.empty
   \<and> fst (UploadFile None file0 ''rp2'' ''bd1'' src_world) =
       ((3, None),
        file0\<lparr>Content := [\<lparr>Start = 0, Length = 2, Etag = ''0102''\<rparr>,
                            \<lparr>Start = 2, Length = 1, Etag = ''03''\<rparr>],
               Sha256Hash := [1, 2, 3]\<rparr>)
   \<and> objects (snd (UploadFile None file0 ''rp2'' ''bd1'' src_world)) ''0102'' =
       Some ([1, 2], etag_of world0 [1, 2])
   \<and> objects (snd (UploadFile None file0 ''rp2'' ''bd1'' src_world)) ''03'' =
       Some ([3], etag_of world0 [3])
   \<and> pipe (snd (UploadFile None file0 ''rp2'' ''bd1'' src_world)) =
       [\<lparr>BackupDirectoryID = ''bd1'', RecoveryPointID = ''rp2'',
         Chunks = [(''0102'', [''1'', ''2''])]\<rparr>,
        \<lparr>BackupDirectoryID = ''bd1'', RecoveryPointID = ''rp2'',
         Chunks = [(''03'', [''1'', ''1''])]\<rparr>]
   \<and> timeToString (Time0\<lparr>year := 2020\<rparr>) \<noteq> timeToString (ModTime file0)
   \<and> fst (UploadFile (Some (prior0\<lparr>ModTime := Time0\<lparr>year := 2020\<rparr>\<rparr>)) file0 ''rp2'' ''bd1''
          src_world) =
       ((3, None),
        file0\<lparr>Content := [\<lparr>Start = 0, Length = 2, Etag = ''0102''\<rparr>,
                            \<lparr>Start = 2, Length = 1, Etag = ''03''\<rparr>],
               Sha256Hash := [1, 2, 3]\<rparr>)"
proof -
  let ?fi = "dir0\<lparr>i_kind := RegularFile, i_data := [1, 2, 3], i_mode := 420\<rparr>"
  let ?older = "prior0\<lparr>ModTime := Time0\<lparr>year := 2020\<rparr>\<rparr>"
  have c: "cancel_in src_world \<noteq> Some 0"
    by (simp add: src_world_def world0_def)
  have t: "timeToString (ModTime prior0) = timeToString (ModTime file0)"
    by (simp add: prior0_def file0_def Time0_def timeToString_def)
  have n: "ModTime prior0 \<noteq> ModTime file0"
    by (simp add: prior0_def file0_def Time0_def)
  have o: "timeToString (Time0\<lparr>year := 2020\<rparr>) \<noteq> timeToString (ModTime file0)"
    by (simp add: file0_def timeToString_def zero_pad_def digits.simps digit_char_def Time0_def)
  have i: "Itoa 2 = ''2''"
    by (simp add: Itoa_def digits.simps digit_char_def)
  have q: "s3_script src_world = []" "os_script src_world = []" "read_script src_world = []"
    "cancel_in src_world = None" "sha256_Sum src_world = (\<lambda>b. b)" "pipe src_world = []"
    "objects src_world = Map.empty" "trace src_world = []" "etag_of src_world = etag_of world0"
    by (simp_all add: src_world_def world0_def)
  have cs: "split_chunks (cut src_world) 0 [1, 2, 3]
      = [\<lparr>Start = 0, Length = 2, Data = [1, 2]\<rparr>, \<lparr>Start = 2, Length = 1, Data = [3]\<rparr>]"
    by (simp add: split_chunks.simps src_world_def world0_def)
  have res: "resolve (files src_world) (AbsolutePath file0) = Inr ([''src'', ''a''], ?fi)"
    by (simp add: resolve_def follow.simps inode_at_def src_world_def file0_def dir0_def)
  have k: "i_kind ?fi = RegularFile" "Content file0 = []" "i_data ?fi = [1, 2, 3]"
    by (simp_all add: file0_def)
  have key: "chunk_key src_world = EncodeToString"
    by (simp add: fun_eq_iff chunk_key_def src_world_def world0_def)
  have hex: "EncodeToString [1, 2] = ''0102''" "EncodeToString [3] = ''03''"
    by (simp_all add: EncodeToString_def hex_digit_def)
  have d: "ctx_Done False src_world = (False, src_world)"
    by (simp add: ctx_Done_def q)
  note t1 = UploadFile_reuse_or_chunk [OF c, where li = prior0 and itemInfo = file0
      and rpID = "''rp2''" and bdID = "''bd1''" and lastInfo = None
      and q = "[''src'', ''a'']" and fi = ?fi]
  note t2 = UploadFile_reuse_or_chunk [OF c, where li = prior0 and itemInfo = file0
      and rpID = "''rp2''" and bdID = "''bd1''" and lastInfo = "Some ?older"
      and q = "[''src'', ''a'']" and fi = ?fi]
  have hq: "s3_script src_world = [] \<and> os_script src_world = [] \<and> read_script src_world = []
      \<and> cancel_in src_world = None
      \<and> resolve (files src_world) (AbsolutePath file0) = Inr ([''src'', ''a''], ?fi)
      \<and> i_kind ?fi = RegularFile"
    using res by (simp add: q)
  have l1: "(None :: Node option) = None
      \<or> timeToString (ModTime (the None)) \<noteq> timeToString (ModTime file0)"
    by simp
  have l2: "Some ?older = None
      \<or> timeToString (ModTime (the (Some ?older))) \<noteq> timeToString (ModTime file0)"
    using o by simp
  have reuse: "UploadFile (Some prior0) file0 ''rp2'' ''bd1'' src_world =
      (((0, None), file0\<lparr>Content := Content prior0, Sha256Hash := Sha256Hash prior0\<rparr>),
       Report Stat0
         (src_world\<lparr>pipe := map (manifest_record ''rp2'' ''bd1'') (Content prior0)\<rparr>))"
    using t1 [THEN conjunct1, THEN mp, OF t] by (simp add: d q)
  have fresh: "fst (UploadFile None file0 ''rp2'' ''bd1'' src_world) =
        ((3, None),
         file0\<lparr>Content := [\<lparr>Start = 0, Length = 2, Etag = ''0102''\<rparr>,
                             \<lparr>Start = 2, Length = 1, Etag = ''03''\<rparr>],
                Sha256Hash := [1, 2, 3]\<rparr>)"
    "objects (snd (UploadFile None file0 ''rp2'' ''bd1'' src_world)) =
        [''0102'' \<mapsto> ([1, 2], etag_of world0 [1, 2]), ''03'' \<mapsto> ([3], etag_of world0 [3])]"
    "pipe (snd (UploadFile None file0 ''rp2'' ''bd1'' src_world)) =
        map (manifest_record ''rp2'' ''bd1'')
          [\<lparr>Start = 0, Length = 2, Etag = ''0102''\<rparr>, \<lparr>Start = 2, Length = 1, Etag = ''03''\<rparr>]"
    using t1 [THEN conjunct2, THEN mp, OF l1, THEN conjunct2, THEN mp, OF hq]
    by (simp_all add: q k cs key hex ref_of_def put_chunks_def put_objects_def)
  have changed: "fst (UploadFile (Some ?older) file0 ''rp2'' ''bd1'' src_world) =
        ((3, None),
         file0\<lparr>Content := [\<lparr>Start = 0, Length = 2, Etag = ''0102''\<rparr>,
                             \<lparr>Start = 2, Length = 1, Etag = ''03''\<rparr>],
                Sha256Hash := [1, 2, 3]\<rparr>)"
    using t2 [THEN conjunct2, THEN mp, OF l2, THEN conjunct2, THEN mp, OF hq]
    by (simp add: q k cs key hex ref_of_def)
  have p: "Content prior0 = [\<lparr>Start = 0, Length = 2, Etag = ''0102''\<rparr>,
      \<lparr>Start = 2, Length = 1, Etag = ''03''\<rparr>]" "Sha256Hash prior0 = [7, 7]"
    by (simp_all add: prior0_def)
  show ?thesis
    using c t n o fresh changed
    by (simp add: reuse p q manifest_record_def Report_def Itoa_1 i)
qed

section \<open>AccessDenied and Forbidden: the whole calls\<close>

lemma denied_not_NotFound: "denied code \<Longrightarrow> code \<noteq> ''NotFound'' \<and> code \<noteq> ''NoSuchKey''"
  by (auto simp: denied_def)

lemma HeadObject_denied_twice:
  assumes "denied c1" "denied c2"
    and "s3_script w = Some (Fails (AwsError c1)) # Some (Fails (AwsError c2)) # later"
    and "bo_script w = Suc b # bs"
  shows "HeadObject key w =
     ((False, [], Some (AwsError c2)),
      (log (EvHeadObject key) (log EvSleepBackOff (sleep_rand (log (EvHeadObject key) w))))
        \<lparr>s3_script := later, bo_script := bs\<rparr>)"
  using assms denied_not_NotFound [OF assms(1)] denied_not_NotFound [OF assms(2)]
  by (cases w)
     (simp add: HeadObject_def NewExponentialBackOff_def HeadObject_loop.simps
        HeadObject_pass_def sdk_HeadObject_def next_fault_def log_def sleep_rand_def
        split: list.splits)

lemma GetObject_denied_twice:
  assumes "denied c1" "denied c2"
    and "s3_script w = Some (Fails (AwsError c1)) # Some (Fails (AwsError c2)) # later"
    and "bo_script w = Suc b # bs"
  shows "GetObject key w =
     (Result ([], Some (AwsError c2)),
      (log (EvGetObject key) (log EvSleepBackOff (sleep_rand (log (EvGetObject key) w))))
        \<lparr>s3_script := later, bo_script := bs\<rparr>)"
  using assms denied_not_NotFound [OF assms(1)] denied_not_NotFound [OF assms(2)]
  by (cases w)
     (simp add: GetObject_def NewExponentialBackOff_def GetObject_loop.simps
        GetObject_pass_def sdk_GetObject_def next_fault_def log_def sleep_rand_def
        split: list.splits)

lemma only_events_refl: "only_events A w w"
  by (simp add: only_events_def)

lemma only_events_trans: "only_events A w w1 \<Longrightarrow> only_events A w1 w2 \<Longrightarrow> only_events A w w2"
  by (auto simp: only_events_def)

lemma only_events_log: "e \<in> A \<Longrightarrow> only_events A w (log e w)"
  by (simp add: only_events_def log_def)

lemma only_events_sleep_rand: "range EvSleepSeconds \<subseteq> A \<Longrightarrow> only_events A w (sleep_rand w)"
  by (auto simp: only_events_def sleep_rand_def log_def split: list.splits)

lemma HeadObject_pass_own:
  "only_events (head_events key) w (snd (HeadObject_pass once key w))
   \<and> S3Session (snd (HeadObject_pass once key w)) = S3Session w
   \<and> cp_script (snd (HeadObject_pass once key w)) = cp_script w
   \<and> HeadObject_pass once key (w\<lparr>CredentialType := t\<rparr>) =
       (fst (HeadObject_pass once key w), (snd (HeadObject_pass once key w))\<lparr>CredentialType := t\<rparr>)"
  by (auto simp: HeadObject_pass_def sdk_HeadObject_def next_fault_def log_def sleep_rand_def
      only_events_def head_events_def
      split: list.splits option.splits fault.splits go_error.splits)

lemma HeadObject_loop_own:
  "only_events (head_events key) w (snd (HeadObject_loop bo once key w))
   \<and> S3Session (snd (HeadObject_loop bo once key w)) = S3Session w
   \<and> cp_script (snd (HeadObject_loop bo once key w)) = cp_script w
   \<and> HeadObject_loop bo once key (w\<lparr>CredentialType := t\<rparr>) =
       (fst (HeadObject_loop bo once key w), (snd (HeadObject_loop bo once key w))\<lparr>CredentialType := t\<rparr>)"
proof (induction bo arbitrary: once w)
  case 0
  show ?case
    using HeadObject_pass_own [of key w once t]
    by (cases "HeadObject_pass once key w")
       (auto simp: HeadObject_loop.simps [of 0] split: pass.splits)
next
  case (Suc bo)
  obtain r w1 where p: "HeadObject_pass once key w = (r, w1)"
    by (meson surj_pair)
  note o = HeadObject_pass_own [of key w once t, unfolded p, simplified]
  show ?case
  proof (cases r)
    case (Return x)
    then show ?thesis
      using p o by (simp add: HeadObject_loop.simps [of "Suc bo"])
  next
    case (Retry v)
    obtain once' err where v: "v = (once', err)"
      by (meson surj_pair)
    let ?w = "log EvSleepBackOff w1"
    have s: "only_events (head_events key) w ?w" "S3Session ?w = S3Session w"
      "cp_script ?w = cp_script w"
      "log EvSleepBackOff (w1\<lparr>CredentialType := t\<rparr>) = ?w\<lparr>CredentialType := t\<rparr>"
      using o only_events_trans [OF _ only_events_log [of EvSleepBackOff "head_events key" w1]]
      by (simp_all add: log_def head_events_def)
    show ?thesis
      using p o Retry v s Suc.IH [of ?w once']
      by (auto simp: HeadObject_loop.simps [of "Suc bo"] intro: only_events_trans)
  qed
qed

lemma HeadObject_own:
  "only_events (head_events key) w (snd (HeadObject key w))
   \<and> S3Session (snd (HeadObject key w)) = S3Session w
   \<and> cp_script (snd (HeadObject key w)) = cp_script w
   \<and> HeadObject key (w\<lparr>CredentialType := t\<rparr>) =
       (fst (HeadObject key w), (snd (HeadObject key w))\<lparr>CredentialType := t\<rparr>)"
proof -
  obtain bo w0 where n: "NewExponentialBackOff w = (bo, w0)"
    by (meson surj_pair)
  have f: "trace w0 = trace w" "S3Session w0 = S3Session w" "cp_script w0 = cp_script w"
    "NewExponentialBackOff (w\<lparr>CredentialType := t\<rparr>) = (bo, w0\<lparr>CredentialType := t\<rparr>)"
    using n by (auto simp: NewExponentialBackOff_def split: list.splits)
  show ?thesis
    using HeadObject_loop_own [of key w0 bo False t] f
    by (simp add: HeadObject_def n only_events_def)
qed

lemma GetObject_pass_own:
  "only_events (get_events key) w (snd (GetObject_pass once key w))
   \<and> S3Session (snd (GetObject_pass once key w)) = S3Session w
   \<and> cp_script (snd (GetObject_pass once key w)) = cp_script w
   \<and> GetObject_pass once key (w\<lparr>CredentialType := t\<rparr>) =
       (fst (GetObject_pass once key w), (snd (GetObject_pass once key w))\<lparr>CredentialType := t\<rparr>)"
  by (auto simp: GetObject_pass_def sdk_GetObject_def next_fault_def log_def sleep_rand_def
      only_events_def get_events_def
      split: list.splits option.splits fault.splits go_error.splits)

lemma GetObject_loop_own:
  "only_events (get_events key) w (snd (GetObject_loop bo once key w))
   \<and> S3Session (snd (GetObject_loop bo once key w)) = S3Session w
   \<and> cp_script (snd (GetObject_loop bo once key w)) = cp_script w
   \<and> GetObject_loop bo once key (w\<lparr>CredentialType := t\<rparr>) =
       (fst (GetObject_loop bo once key w), (snd (GetObject_loop bo once key w))\<lparr>CredentialType := t\<rparr>)"
proof (induction bo arbitrary: once w)
  case 0
  show ?case
    using GetObject_pass_own [of key w once t]
    by (cases "GetObject_pass once key w")
       (auto simp: GetObject_loop.simps [of 0] split: pass.splits)
next
  case (Suc bo)
  obtain r w1 where p: "GetObject_pass once key w = (r, w1)"
    by (meson surj_pair)
  note o = GetObject_pass_own [of key w once t, unfolded p, simplified]
  show ?case
  proof (cases r)
    case (Return x)
    then show ?thesis
      using p o by (simp add: GetObject_loop.simps [of "Suc bo"])
  next
    case (Retry once')
    let ?w = "log EvSleepBackOff w1"
    have s: "only_events (get_events key) w ?w" "S3Session ?w = S3Session w"
      "cp_script ?w = cp_script w"
      "log EvSleepBackOff (w1\<lparr>CredentialType := t\<rparr>) = ?w\<lparr>CredentialType := t\<rparr>"
      using o only_events_trans [OF _ only_events_log [of EvSleepBackOff "get_events key" w1]]
      by (simp_all add: log_def get_events_def)
    show ?thesis
      using p o Retry s Suc.IH [of ?w once']
      by (auto simp: GetObject_loop.simps [of "Suc bo"] intro: only_events_trans)
  qed
qed

lemma GetObject_own:
  "only_events (get_events key) w (snd (GetObject key w))
   \<and> S3Session (snd (GetObject key w)) = S3Session w
   \<and> cp_script (snd (GetObject key w)) = cp_script w
   \<and> GetObject key (w\<lparr>CredentialType := t\<rparr>) =
       (fst (GetObject key w), (snd (GetObject key w))\<lparr>CredentialType := t\<rparr>)"
proof -
  obtain bo w0 where n: "NewExponentialBackOff w = (bo, w0)"
    by (meson surj_pair)
  have f: "trace w0 = trace w" "S3Session w0 = S3Session w" "cp_script w0 = cp_script w"
    "NewExponentialBackOff (w\<lparr>CredentialType := t\<rparr>) = (bo, w0\<lparr>CredentialType := t\<rparr>)"
    using n by (auto simp: NewExponentialBackOff_def split: list.splits)
  show ?thesis
    using GetObject_loop_own [of key w0 bo False t] f
    by (simp add: GetObject_def n only_events_def)
qed

lemma HeadObject_denied_twice_world:
  assumes "denied c1" "denied c2"
    and "s3_script w = Some (Fails (AwsError c1)) # Some (Fails (AwsError c2)) # later"
    and "bo_script w = Suc b # bs"
  shows "HeadObject key w =
     ((False, [], Some (AwsError c2)),
      (denied_twice (EvHeadObject key) w)\<lparr>s3_script := later, bo_script := bs\<rparr>)"
  using HeadObject_denied_twice [OF assms] by (simp add: denied_twice_def)

lemma VerifyObject_denied_twice_other:
  assumes "denied c1" "denied c2"
    and "s3_script w = Some (Fails (AwsError c1)) # Some (Fails (AwsError c2)) # later"
    and "bo_script w = vb # Suc hb # bs"
    and "CredentialType w \<noteq> ''DEFAULT''"
  shows "VerifyObject key w =
     (case vb of
        0 \<Rightarrow> ((False, False, [], Some (AwsError c2)),
              (denied_twice (EvHeadObject key) w)\<lparr>s3_script := later, bo_script := bs\<rparr>)
      | Suc n \<Rightarrow>
          VerifyObject_loop n key
            ((denied_twice (EvHeadObject key) w)\<lparr>s3_script := later, bo_script := bs\<rparr>))"
proof -
  let ?w0 = "w\<lparr>bo_script := Suc hb # bs\<rparr>"
  let ?wh = "(denied_twice (EvHeadObject key) w)\<lparr>s3_script := later, bo_script := bs\<rparr>"
  have n: "NewExponentialBackOff w = (vb, ?w0)"
    using assms(4) by (simp add: NewExponentialBackOff_def)
  have "HeadObject key ?w0 =
      ((False, [], Some (AwsError c2)),
       (denied_twice (EvHeadObject key) ?w0)\<lparr>s3_script := later, bo_script := bs\<rparr>)"
    using assms(3) by (intro HeadObject_denied_twice_world [OF assms(1,2)]) simp_all
  moreover have "(denied_twice (EvHeadObject key) ?w0)\<lparr>s3_script := later, bo_script := bs\<rparr> = ?wh"
    by (cases w) (simp add: denied_twice_def log_def sleep_rand_def split: list.splits)
  ultimately have h: "HeadObject key ?w0 = ((False, [], Some (AwsError c2)), ?wh)"
    by simp
  have c: "CredentialType ?wh = CredentialType w"
    by (simp add: denied_twice_def log_def sleep_rand_def split: list.splits)
  note nf = denied_not_NotFound [OF assms(2)]
  show ?thesis
    using n h c nf assms(2,5)
    by (simp add: VerifyObject_def VerifyObject_loop.simps [of vb key ?w0] VerifyObject_pass_def
        split: nat.splits)
qed

lemma VerifyObject_denied_twice_DEFAULT:
  assumes "denied c1" "denied c2"
    and "s3_script w = Some (Fails (AwsError c1)) # Some (Fails (AwsError c2)) # later"
    and "bo_script w = vb # Suc hb # bs"
    and "CredentialType w = ''DEFAULT''" "cp_script w = Some cred # cps"
    and "AwsAccessKeyId cred \<noteq> []" "AwsSecretAccessKey cred \<noteq> []"
  shows "VerifyObject key w =
     (case vb of
        0 \<Rightarrow> ((False, False, [], Some (AwsError c2)),
              (refreshed cred (denied_twice (EvHeadObject key) w))
                \<lparr>s3_script := later, bo_script := bs, cp_script := cps\<rparr>)
      | Suc n \<Rightarrow>
          VerifyObject_loop n key
            ((refreshed cred (denied_twice (EvHeadObject key) w))
               \<lparr>s3_script := later, bo_script := bs, cp_script := cps\<rparr>))"
proof -
  let ?w0 = "w\<lparr>bo_script := Suc hb # bs\<rparr>"
  let ?wh = "(denied_twice (EvHeadObject key) w)\<lparr>s3_script := later, bo_script := bs\<rparr>"
  let ?wr = "(refreshed cred (denied_twice (EvHeadObject key) w))
      \<lparr>s3_script := later, bo_script := bs, cp_script := cps\<rparr>"
  have n: "NewExponentialBackOff w = (vb, ?w0)"
    using assms(4) by (simp add: NewExponentialBackOff_def)
  have "HeadObject key ?w0 =
      ((False, [], Some (AwsError c2)),
       (denied_twice (EvHeadObject key) ?w0)\<lparr>s3_script := later, bo_script := bs\<rparr>)"
    using assms(3) by (intro HeadObject_denied_twice_world [OF assms(1,2)]) simp_all
  moreover have "(denied_twice (EvHeadObject key) ?w0)\<lparr>s3_script := later, bo_script := bs\<rparr> = ?wh"
    by (cases w) (simp add: denied_twice_def log_def sleep_rand_def split: list.splits)
  ultimately have h: "HeadObject key ?w0 = ((False, [], Some (AwsError c2)), ?wh)"
    by simp
  have c: "CredentialType ?wh = ''DEFAULT''" "cp_script ?wh = Some cred # cps"
    using assms(5,6) by (simp_all add: denied_twice_def log_def sleep_rand_def split: list.splits)
  have g: "GetCredentialStorageVault ?wh
      = (Inr cred, (log EvGetCredentialStorageVault ?wh)\<lparr>cp_script := cps\<rparr>)"
    using c(2) by (simp add: GetCredentialStorageVault_def log_def)
  have r: "RefreshCredential cred ((log EvGetCredentialStorageVault ?wh)\<lparr>cp_script := cps\<rparr>)
      = (None, ?wr)"
    using assms(7,8)
    by (cases w)
       (simp add: RefreshCredential_def refreshed_def denied_twice_def log_def sleep_rand_def
          split: list.splits)
  note nf = denied_not_NotFound [OF assms(2)]
  show ?thesis
    using n h c(1) g r nf assms(2)
    by (simp add: VerifyObject_def VerifyObject_loop.simps [of vb key ?w0] VerifyObject_pass_def
        split: nat.splits)
qed

lemma PutObject_denied_put:
  assumes "denied code"
    and "VerifyObject key w = ((False, i1, e1, r1), w1)"
    and "sdk_PutObject key b w1 = (Some (AwsError code), w2)"
  shows "manifest_key key \<Longrightarrow>
           PutObject_loop (Suc bo) False err key b w =
             PutObject_loop bo True (Some (AwsError code)) key b
               (log EvSleepBackOff (sleep_rand w2))
           \<and> PutObject_loop 0 False err key b w = (Some (AwsError code), sleep_rand w2)
           \<and> PutObject_loop bo True err key b w = (Some (AwsError code), w2)"
    and "\<not> manifest_key key \<Longrightarrow> VerifyObject key w2 = ((False, i2, e2, r2), w3) \<Longrightarrow>
           PutObject_loop (Suc bo) False err key b w =
             PutObject_loop bo True (Some (AwsError code)) key b
               (log EvSleepBackOff (sleep_rand w3))
           \<and> PutObject_loop 0 False err key b w = (Some (AwsError code), sleep_rand w3)
           \<and> PutObject_loop bo True err key b w = (Some (AwsError code), w3)"
    and "\<not> manifest_key key \<Longrightarrow> VerifyObject key w2 = ((True, True, e2, r2), w3) \<Longrightarrow>
           PutObject_loop bo once err key b w = (Some (AwsError code), w3)"
    and "\<not> manifest_key key \<Longrightarrow> VerifyObject key w2 = ((True, False, e2, r2), w3) \<Longrightarrow>
           sdk_PutObject key b w3 = (None, w4) \<Longrightarrow>
           PutObject_loop bo once err key b w = (None, w4)"
  using assms
  by (simp_all add: PutObject_loop.simps [of _ _ err key b w] PutObject_pass_def
      PutObject_body_def)

lemma PutObject_denied_overwrite:
  assumes "denied code"
    and "VerifyObject key w = ((True, False, e1, r1), w1)"
    and "sdk_PutObject key b w1 = (Some (AwsError code), w2)"
  shows "PutObject_loop (Suc bo) False err key b w =
           PutObject_loop bo True (Some (AwsError code)) key b
             (log EvSleepBackOff (sleep_rand w2))
         \<and> PutObject_loop 0 False err key b w = (Some (AwsError code), sleep_rand w2)
         \<and> PutObject_loop bo True err key b w = (Some (AwsError code), w2)"
  using assms
  by (simp add: PutObject_loop.simps [of _ _ err key b w] PutObject_pass_def
      PutObject_body_def)

lemma PutObject_body_after_verify:
  "prefix (trace (snd (VerifyObject key w))) (trace (snd (PutObject_body err key b w)))"
proof -
  obtain r1 w1 where v1: "VerifyObject key w = (r1, w1)" by (meson surj_pair)
  obtain p1 w2 where p1: "sdk_PutObject key b w1 = (p1, w2)" by force
  then have g2: "prefix (trace w1) (trace w2)"
    using grows_sdk_PutObject [of w1 key b] by simp
  obtain r2 w3 where v2: "VerifyObject key w2 = (r2, w3)" by (meson surj_pair)
  then have g3: "prefix (trace w2) (trace w3)"
    using grows_VerifyObject [of w2 key] by simp
  obtain p2 w4 where p2: "sdk_PutObject key b w3 = (p2, w4)" by force
  then have g4: "prefix (trace w3) (trace w4)"
    using grows_sdk_PutObject [of w3 key b] by simp
  have a3: "prefix (trace w1) (trace w3)" using g2 g3 by (rule prefix_order.trans)
  have a4: "prefix (trace w1) (trace w4)" using a3 g4 by (rule prefix_order.trans)
  show ?thesis
    using v1 p1 v2 p2 g2 a3 a4
    by (auto simp: PutObject_body_def split: prod.splits option.splits)
qed

lemma PutObject_loop_after_verify:
  "prefix (trace (snd (VerifyObject key w))) (trace (snd (PutObject_loop bo once err key b w)))"
proof -
  obtain r w1 where h: "PutObject_body err key b w = (r, w1)" by force
  have g1: "prefix (trace (snd (VerifyObject key w))) (trace w1)"
    using PutObject_body_after_verify [of key w err b] h by simp
  obtain p wp where p: "PutObject_pass once err key b w = (p, wp)" by force
  have g2: "prefix (trace w1) (trace wp)"
    using h p grows_sleep_rand [of w1]
    by (auto simp: PutObject_pass_def split: pass.splits go_error.splits if_splits)
  have g3: "prefix (trace wp) (trace (snd (PutObject_loop bo once err key b w)))"
  proof (cases p)
    case (Return x)
    then show ?thesis
      using p by (simp add: PutObject_loop.simps [of bo once err key b w])
  next
    case (Retry v)
    obtain once' e where v: "v = (once', e)" by force
    show ?thesis
    proof (cases bo)
      case 0
      then show ?thesis
        using p Retry v by (simp add: PutObject_loop.simps [of 0 once err key b w])
    next
      case (Suc n)
      have "prefix (trace wp) (trace (log EvSleepBackOff wp))" by simp
      then have "prefix (trace wp)
          (trace (snd (PutObject_loop n once' (Some e) key b (log EvSleepBackOff wp))))"
        using grows_PutObject_loop [of "log EvSleepBackOff wp" n once' "Some e" key b]
        by (rule prefix_order.trans)
      then show ?thesis
        using p Retry v Suc by (simp add: PutObject_loop.simps [of "Suc n" once err key b w])
    qed
  qed
  show ?thesis
    using g1 g2 g3 by (meson prefix_order.trans)
qed

lemma PutObject_refreshes_for_head:
  assumes "denied c1" "denied c2"
    and "s3_script w = Some (Fails (AwsError c1)) # Some (Fails (AwsError c2)) # later"
    and "bo_script w = pb # vb # Suc hb # bs"
    and "CredentialType w = ''DEFAULT''" "cp_script w = Some cred # cps"
    and "AwsAccessKeyId cred \<noteq> []" "AwsSecretAccessKey cred \<noteq> []"
  shows "prefix (trace w @ [EvHeadObject key, EvSleepSeconds (seconds w), EvSleepBackOff,
                            EvHeadObject key, EvGetCredentialStorageVault, EvNewSession cred])
           (trace (snd (PutObject key b w)))"
proof -
  let ?w0 = "w\<lparr>bo_script := vb # Suc hb # bs\<rparr>"
  let ?wr = "(refreshed cred (denied_twice (EvHeadObject key) ?w0))
      \<lparr>s3_script := later, bo_script := bs, cp_script := cps\<rparr>"
  have n: "NewExponentialBackOff w = (pb, ?w0)"
    using assms(4) by (simp add: NewExponentialBackOff_def)
  have v: "VerifyObject key ?w0 =
      (case vb of
         0 \<Rightarrow> ((False, False, [], Some (AwsError c2)), ?wr)
       | Suc n \<Rightarrow> VerifyObject_loop n key ?wr)"
    using assms(3,5-8) by (intro VerifyObject_denied_twice_DEFAULT [OF assms(1,2)]) simp_all
  have s: "snd (VerifyObject key ?w0) =
      (case vb of 0 \<Rightarrow> ?wr | Suc n \<Rightarrow> snd (VerifyObject_loop n key ?wr))"
    by (simp add: v split: nat.splits)
  have a: "prefix (trace ?wr) (trace (snd (VerifyObject key ?w0)))"
  proof (cases vb)
    case 0
    show ?thesis
      unfolding s by (simp add: 0)
  next
    case (Suc n)
    show ?thesis
      unfolding s by (simp only: Suc nat.case) (rule grows_VerifyObject_loop)
  qed
  have t: "trace ?wr = trace w @ [EvHeadObject key, EvSleepSeconds (seconds w),
      EvSleepBackOff, EvHeadObject key, EvGetCredentialStorageVault, EvNewSession cred]"
    by (simp add: refreshed_def denied_twice_def log_def sleep_rand_def seconds_def
        split: list.splits)
  have p: "prefix (trace (snd (VerifyObject key ?w0))) (trace (snd (PutObject key b w)))"
    using PutObject_loop_after_verify [of key ?w0 pb False None b] by (simp add: PutObject_def n)
  show ?thesis
    using prefix_order.trans [OF a p] unfolding t .
qed

lemma VerifyObject_absent:
  assumes "s3_script w = None # later" "objects w key = None"
  shows "VerifyObject key w =
     ((False, False, [], None),
      (log (EvHeadObject key) w)\<lparr>s3_script := later, bo_script := tl (tl (bo_script w))\<rparr>)"
  using assms
  by (cases w)
     (simp add: VerifyObject_def NewExponentialBackOff_def VerifyObject_loop.simps
        VerifyObject_pass_def HeadObject_def HeadObject_loop.simps HeadObject_pass_def
        sdk_HeadObject_def next_fault_def log_def split: list.splits)

lemma sdk_PutObject_fails:
  assumes "s3_script w = Some (Fails e) # later"
  shows "sdk_PutObject key b w = (Some e, (log (EvPutObject key b) w)\<lparr>s3_script := later\<rparr>)"
  using assms by (cases w) (simp add: sdk_PutObject_def next_fault_def log_def)

lemma PutObject_denied_put_twice:
  assumes "denied c1" "denied c2" "objects w key = None" "bo_script w = Suc pb # bs"
    and "\<not> manifest_key key"
    and "s3_script w = None # Some (Fails (AwsError c1)) # None
                       # None # Some (Fails (AwsError c2)) # None # later"
  shows "fst (PutObject key b w) = Some (AwsError c2)
    \<and> trace (snd (PutObject key b w)) =
        trace w @ [EvHeadObject key, EvPutObject key b, EvHeadObject key,
                   EvSleepSeconds (seconds w), EvSleepBackOff,
                   EvHeadObject key, EvPutObject key b, EvHeadObject key]
    \<and> S3Session (snd (PutObject key b w)) = S3Session w
    \<and> cp_script (snd (PutObject key b w)) = cp_script w
    \<and> objects (snd (PutObject key b w)) = objects w"
proof -
  let ?s1 = "Some (Fails (AwsError c1)) # None # None # Some (Fails (AwsError c2)) # None # later"
  let ?s2 = "None # None # Some (Fails (AwsError c2)) # None # later"
  let ?s3 = "None # Some (Fails (AwsError c2)) # None # later"
  let ?s4 = "Some (Fails (AwsError c2)) # None # later"
  let ?s5 = "None # later"
  let ?w0 = "w\<lparr>bo_script := bs\<rparr>"
  let ?w1 = "(log (EvHeadObject key) ?w0)\<lparr>s3_script := ?s1, bo_script := tl (tl (bo_script ?w0))\<rparr>"
  let ?w2 = "(log (EvPutObject key b) ?w1)\<lparr>s3_script := ?s2\<rparr>"
  let ?w3 = "(log (EvHeadObject key) ?w2)\<lparr>s3_script := ?s3, bo_script := tl (tl (bo_script ?w2))\<rparr>"
  let ?w4 = "log EvSleepBackOff (sleep_rand ?w3)"
  let ?w5 = "(log (EvHeadObject key) ?w4)\<lparr>s3_script := ?s4, bo_script := tl (tl (bo_script ?w4))\<rparr>"
  let ?w6 = "(log (EvPutObject key b) ?w5)\<lparr>s3_script := ?s5\<rparr>"
  let ?w7 = "(log (EvHeadObject key) ?w6)\<lparr>s3_script := later, bo_script := tl (tl (bo_script ?w6))\<rparr>"
  have n: "NewExponentialBackOff w = (Suc pb, ?w0)"
    using assms(4) by (simp add: NewExponentialBackOff_def)
  have v1: "VerifyObject key ?w0 = ((False, False, [], None), ?w1)"
    using assms(3,6) by (intro VerifyObject_absent) simp_all
  have p1: "sdk_PutObject key b ?w1 = (Some (AwsError c1), ?w2)"
    by (intro sdk_PutObject_fails) (simp add: log_def)
  have v2: "VerifyObject key ?w2 = ((False, False, [], None), ?w3)"
    using assms(3) by (intro VerifyObject_absent) (simp_all add: log_def)
  have l1: "PutObject_loop (Suc pb) False None key b ?w0 =
      PutObject_loop pb True (Some (AwsError c1)) key b ?w4"
    by (rule conjunct1 [OF PutObject_denied_put(2) [OF assms(1) v1 p1 assms(5) v2]])
  have s4: "s3_script ?w4 = ?s3" "objects ?w4 key = None"
    using assms(3) by (simp_all add: log_def sleep_rand_def split: list.splits)
  have v3: "VerifyObject key ?w4 = ((False, False, [], None), ?w5)"
    using s4 by (intro VerifyObject_absent)
  have p2: "sdk_PutObject key b ?w5 = (Some (AwsError c2), ?w6)"
    by (intro sdk_PutObject_fails) (simp add: log_def)
  have s6: "objects ?w6 key = None"
    using s4(2) by (simp add: log_def)
  have v4: "VerifyObject key ?w6 = ((False, False, [], None), ?w7)"
    using s6 by (intro VerifyObject_absent) (simp_all add: log_def)
  have l2: "PutObject_loop pb True (Some (AwsError c1)) key b ?w4 = (Some (AwsError c2), ?w7)"
    by (rule conjunct2 [OF conjunct2 [OF PutObject_denied_put(2) [OF assms(2) v3 p2 assms(5) v4]]])
  have e: "PutObject key b w = (Some (AwsError c2), ?w7)"
    unfolding PutObject_def n prod.case l1 l2 ..
  show ?thesis
    unfolding e by (simp add: log_def sleep_rand_def seconds_def split: list.splits)
qed

lemma seconds_sleep_rand:
  "seconds w < 3 \<and> trace (sleep_rand w) = trace w @ [EvSleepSeconds (seconds w)]"
  by (simp add: seconds_def sleep_rand_def split: list.splits)

text \<open>
  C5 (as amended). What follows an \<open>AccessDenied\<close> or \<open>Forbidden\<close> answer of the store
  depends on the operation.

  \<^item> \<open>HeadObject\<close> and \<open>GetObject\<close> never read the credential type, never ask the control
    plane and never make a new session. The first such answer sets \<open>once\<close> and is followed
    by a sleep of 0, 1 or 2 seconds and, when the backoff allows, by the backoff's sleep
    and the next request; an answer of that kind when \<open>once\<close> is set is returned to the
    caller. So two denials in a row end the call with the second one.

  \<^item> \<open>VerifyObject\<close>, whose requests are made by \<open>HeadObject\<close>: when \<open>HeadObject\<close> comes back
    with such an error and the type is \<open>DEFAULT\<close>, it asks the control plane for
    credentials and makes a new session of them with \<open>RefreshCredential\<close>; with another
    type it does neither. In both cases it then goes into its next pass, without
    sleeping, for as long as its backoff allows, and returns the error of \<open>HeadObject\<close>
    when the backoff stops.

  \<^item> \<open>PutObject\<close> starts every pass with \<open>VerifyObject\<close>, so with \<open>DEFAULT\<close> credentials two
    denials of the head request are followed by the fetch and the new session inside
    \<open>PutObject\<close>. A denial of its put request never is. With a manifest key, or when the
    verification after the put does not find the object, the first denied put sets
    \<open>once\<close> and is followed by a sleep of 0, 1 or 2 seconds and, when the backoff allows,
    the backoff's sleep and the next pass; a denied put when \<open>once\<close> is set is returned.
    When the verification after the put finds the object with integrity, the denial is
    returned at once, with no sleep and whatever \<open>once\<close> is; when it finds the object
    without integrity, the put is made again at once. A denied put on an object that
    was found without integrity at the start of the pass is handled like the first case.
\<close>

theorem denied_requests:
  assumes "denied code" "denied code_again"
  shows
    "(s3_script w = Some (Fails (AwsError code)) # Some (Fails (AwsError code_again)) # later
        \<and> bo_script w = Suc hb # bs \<longrightarrow>
        HeadObject key w =
          ((False, [], Some (AwsError code_again)),
           (denied_twice (EvHeadObject key) w)\<lparr>s3_script := later, bo_script := bs\<rparr>)
        \<and> GetObject key w =
          (Result ([], Some (AwsError code_again)),
           (denied_twice (EvGetObject key) w)\<lparr>s3_script := later, bo_script := bs\<rparr>))
     \<and> (fst (sdk_HeadObject key w) = Inl (AwsError code) \<longrightarrow>
          HeadObject_loop (Suc bo) False key w =
            HeadObject_loop bo True key
              (log EvSleepBackOff (sleep_rand (snd (sdk_HeadObject key w))))
          \<and> HeadObject_loop bo True key w =
              ((False, [], Some (AwsError code)), snd (sdk_HeadObject key w)))
     \<and> (fst (sdk_GetObject key w) = Inl (AwsError code) \<longrightarrow>
          GetObject_loop (Suc bo) False key w =
            GetObject_loop bo True key
              (log EvSleepBackOff (sleep_rand (snd (sdk_GetObject key w))))
          \<and> GetObject_loop bo True key w =
              (Result ([], Some (AwsError code)), snd (sdk_GetObject key w)))
     \<and> only_events (head_events key) w (snd (HeadObject key w))
     \<and> S3Session (snd (HeadObject key w)) = S3Session w
     \<and> cp_script (snd (HeadObject key w)) = cp_script w
     \<and> HeadObject key (w\<lparr>CredentialType := t\<rparr>) =
         (fst (HeadObject key w), (snd (HeadObject key w))\<lparr>CredentialType := t\<rparr>)
     \<and> only_events (get_events key) w (snd (GetObject key w))
     \<and> S3Session (snd (GetObject key w)) = S3Session w
     \<and> cp_script (snd (GetObject key w)) = cp_script w
     \<and> GetObject key (w\<lparr>CredentialType := t\<rparr>) =
         (fst (GetObject key w), (snd (GetObject key w))\<lparr>CredentialType := t\<rparr>)
     \<and> (s3_script w = Some (Fails (AwsError code)) # Some (Fails (AwsError code_again)) # later
          \<and> bo_script w = vb # Suc hb # bs
          \<and> CredentialType w = ''DEFAULT'' \<and> cp_script w = Some cred # cps
          \<and> AwsAccessKeyId cred \<noteq> [] \<and> AwsSecretAccessKey cred \<noteq> [] \<longrightarrow>
          VerifyObject key w =
            (case vb of
               0 \<Rightarrow> ((False, False, [], Some (AwsError code_again)),
                     (refreshed cred (denied_twice (EvHeadObject key) w))
                       \<lparr>s3_script := later, bo_script := bs, cp_script := cps\<rparr>)
             | Suc n \<Rightarrow>
                 VerifyObject_loop n key
                   ((refreshed cred (denied_twice (EvHeadObject key) w))
                      \<lparr>s3_script := later, bo_script := bs, cp_script := cps\<rparr>)))
     \<and> (s3_script w = Some (Fails (AwsError code)) # Some (Fails (AwsError code_again)) # later
          \<and> bo_script w = vb # Suc hb # bs
          \<and> CredentialType w \<noteq> ''DEFAULT'' \<longrightarrow>
          VerifyObject key w =
            (case vb of
               0 \<Rightarrow> ((False, False, [], Some (AwsError code_again)),
                     (denied_twice (EvHeadObject key) w)\<lparr>s3_script := later, bo_script := bs\<rparr>)
             | Suc n \<Rightarrow>
                 VerifyObject_loop n key
                   ((denied_twice (EvHeadObject key) w)\<lparr>s3_script := later, bo_script := bs\<rparr>)))
     \<and> (HeadObject key w = ((ex, etag, Some (AwsError code)), wh)
          \<and> CredentialType wh = ''DEFAULT''
          \<and> GetCredentialStorageVault wh = (Inr cred, wc)
          \<and> RefreshCredential cred wc = (None, wr) \<longrightarrow>
          VerifyObject_loop (Suc bo) key w = VerifyObject_loop bo key wr
          \<and> trace wr = trace wh @ [EvGetCredentialStorageVault, EvNewSession cred]
          \<and> S3Session wr = cred)
     \<and> (HeadObject key w = ((ex, etag, Some (AwsError code)), wh)
          \<and> CredentialType wh \<noteq> ''DEFAULT'' \<longrightarrow>
          VerifyObject_loop (Suc bo) key w = VerifyObject_loop bo key wh)
     \<and> (s3_script w = Some (Fails (AwsError code)) # Some (Fails (AwsError code_again)) # later
          \<and> bo_script w = pb # vb # Suc hb # bs
          \<and> CredentialType w = ''DEFAULT'' \<and> cp_script w = Some cred # cps
          \<and> AwsAccessKeyId cred \<noteq> [] \<and> AwsSecretAccessKey cred \<noteq> [] \<longrightarrow>
          prefix (trace w @ [EvHeadObject key, EvSleepSeconds (seconds w), EvSleepBackOff,
                             EvHeadObject key, EvGetCredentialStorageVault, EvNewSession cred])
            (trace (snd (PutObject key b w))))
     \<and> (VerifyObject key w = ((False, integ, etag, verr), wv)
          \<and> sdk_PutObject key b wv = (Some (AwsError code), wp)
          \<and> (manifest_key key \<and> wq = wp
              \<or> \<not> manifest_key key \<and> (\<exists>i e r. VerifyObject key wp = ((False, i, e, r), wq))) \<longrightarrow>
          PutObject_loop (Suc bo) False err key b w =
            PutObject_loop bo True (Some (AwsError code)) key b
              (log EvSleepBackOff (sleep_rand wq))
          \<and> PutObject_loop 0 False err key b w = (Some (AwsError code), sleep_rand wq)
          \<and> PutObject_loop bo True err key b w = (Some (AwsError code), wq))
     \<and> (VerifyObject key w = ((False, integ, etag, verr), wv)
          \<and> sdk_PutObject key b wv = (Some (AwsError code), wp)
          \<and> \<not> manifest_key key
          \<and> VerifyObject key wp = ((True, True, etag_after, verr_after), wq) \<longrightarrow>
          PutObject_loop bo once err key b w = (Some (AwsError code), wq))
     \<and> (VerifyObject key w = ((False, integ, etag, verr), wv)
          \<and> sdk_PutObject key b wv = (Some (AwsError code), wp)
          \<and> \<not> manifest_key key
          \<and> VerifyObject key wp = ((True, False, etag_after, verr_after), wq)
          \<and> sdk_PutObject key b wq = (None, wz) \<longrightarrow>
          PutObject_loop bo once err key b w = (None, wz))
     \<and> (VerifyObject key w = ((True, False, etag, verr), wv)
          \<and> sdk_PutObject key b wv = (Some (AwsError code), wp) \<longrightarrow>
          PutObject_loop (Suc bo) False err key b w =
            PutObject_loop bo True (Some (AwsError code)) key b
              (log EvSleepBackOff (sleep_rand wp))
          \<and> PutObject_loop 0 False err key b w = (Some (AwsError code), sleep_rand wp)
          \<and> PutObject_loop bo True err key b w = (Some (AwsError code), wp))
     \<and> (objects w key = None \<and> bo_script w = Suc pb # bs \<and> \<not> manifest_key key
          \<and> s3_script w = None # Some (Fails (AwsError code)) # None
                            # None # Some (Fails (AwsError code_again)) # None # later \<longrightarrow>
          fst (PutObject key b w) = Some (AwsError code_again)
          \<and> trace (snd (PutObject key b w)) =
              trace w @ [EvHeadObject key, EvPutObject key b, EvHeadObject key,
                         EvSleepSeconds (seconds w), EvSleepBackOff,
                         EvHeadObject key, EvPutObject key b, EvHeadObject key]
          \<and> S3Session (snd (PutObject key b w)) = S3Session w
          \<and> cp_script (snd (PutObject key b w)) = cp_script w
          \<and> objects (snd (PutObject key b w)) = objects w)
     \<and> seconds w < 3 \<and> trace (sleep_rand w) = trace w @ [EvSleepSeconds (seconds w)]"
proof -
  note d = assms(1) and da = assms(2)
  have t1: "s3_script w = Some (Fails (AwsError code)) # Some (Fails (AwsError code_again)) # later
        \<and> bo_script w = Suc hb # bs \<longrightarrow>
        HeadObject key w =
          ((False, [], Some (AwsError code_again)),
           (denied_twice (EvHeadObject key) w)\<lparr>s3_script := later, bo_script := bs\<rparr>)
        \<and> GetObject key w =
          (Result ([], Some (AwsError code_again)),
           (denied_twice (EvGetObject key) w)\<lparr>s3_script := later, bo_script := bs\<rparr>)"
    using HeadObject_denied_twice [OF d da, of w later hb bs key]
      GetObject_denied_twice [OF d da, of w later hb bs key]
    by (simp add: denied_twice_def)
  have t2: "fst (sdk_HeadObject key w) = Inl (AwsError code) \<longrightarrow>
          HeadObject_loop (Suc bo) False key w =
            HeadObject_loop bo True key
              (log EvSleepBackOff (sleep_rand (snd (sdk_HeadObject key w))))
          \<and> HeadObject_loop bo True key w =
              ((False, [], Some (AwsError code)), snd (sdk_HeadObject key w))"
    using HeadObject_loop_denied [OF d, of key w bo] by blast
  have t3: "fst (sdk_GetObject key w) = Inl (AwsError code) \<longrightarrow>
          GetObject_loop (Suc bo) False key w =
            GetObject_loop bo True key
              (log EvSleepBackOff (sleep_rand (snd (sdk_GetObject key w))))
          \<and> GetObject_loop bo True key w =
              (Result ([], Some (AwsError code)), snd (sdk_GetObject key w))"
    using GetObject_loop_denied [OF d, of key w bo] by blast
  note t4 = HeadObject_own [of key w t]
  note t5 = GetObject_own [of key w t]
  have t6: "s3_script w = Some (Fails (AwsError code)) # Some (Fails (AwsError code_again)) # later
          \<and> bo_script w = vb # Suc hb # bs
          \<and> CredentialType w = ''DEFAULT'' \<and> cp_script w = Some cred # cps
          \<and> AwsAccessKeyId cred \<noteq> [] \<and> AwsSecretAccessKey cred \<noteq> [] \<longrightarrow>
          VerifyObject key w =
            (case vb of
               0 \<Rightarrow> ((False, False, [], Some (AwsError code_again)),
                     (refreshed cred (denied_twice (EvHeadObject key) w))
                       \<lparr>s3_script := later, bo_script := bs, cp_script := cps\<rparr>)
             | Suc n \<Rightarrow>
                 VerifyObject_loop n key
                   ((refreshed cred (denied_twice (EvHeadObject key) w))
                      \<lparr>s3_script := later, bo_script := bs, cp_script := cps\<rparr>))"
    using VerifyObject_denied_twice_DEFAULT [OF d da, of w later vb hb bs cred cps key] by blast
  have t7: "s3_script w = Some (Fails (AwsError code)) # Some (Fails (AwsError code_again)) # later
          \<and> bo_script w = vb # Suc hb # bs
          \<and> CredentialType w \<noteq> ''DEFAULT'' \<longrightarrow>
          VerifyObject key w =
            (case vb of
               0 \<Rightarrow> ((False, False, [], Some (AwsError code_again)),
                     (denied_twice (EvHeadObject key) w)\<lparr>s3_script := later, bo_script := bs\<rparr>)
             | Suc n \<Rightarrow>
                 VerifyObject_loop n key
                   ((denied_twice (EvHeadObject key) w)\<lparr>s3_script := later, bo_script := bs\<rparr>))"
    using VerifyObject_denied_twice_other [OF d da, of w later vb hb bs key] by blast
  have t8: "HeadObject key w = ((ex, etag, Some (AwsError code)), wh)
          \<and> CredentialType wh = ''DEFAULT''
          \<and> GetCredentialStorageVault wh = (Inr cred, wc)
          \<and> RefreshCredential cred wc = (None, wr) \<longrightarrow>
          VerifyObject_loop (Suc bo) key w = VerifyObject_loop bo key wr
          \<and> trace wr = trace wh @ [EvGetCredentialStorageVault, EvNewSession cred]
          \<and> S3Session wr = cred"
    using VerifyObject_loop_denied(1) [OF d, of key w ex etag wh cred wc wr bo] by blast
  have t9: "HeadObject key w = ((ex, etag, Some (AwsError code)), wh)
          \<and> CredentialType wh \<noteq> ''DEFAULT'' \<longrightarrow>
          VerifyObject_loop (Suc bo) key w = VerifyObject_loop bo key wh"
    using VerifyObject_loop_denied(2) [OF d, of key w ex etag wh bo] by blast
  have t10: "s3_script w = Some (Fails (AwsError code)) # Some (Fails (AwsError code_again)) # later
          \<and> bo_script w = pb # vb # Suc hb # bs
          \<and> CredentialType w = ''DEFAULT'' \<and> cp_script w = Some cred # cps
          \<and> AwsAccessKeyId cred \<noteq> [] \<and> AwsSecretAccessKey cred \<noteq> [] \<longrightarrow>
          prefix (trace w @ [EvHeadObject key, EvSleepSeconds (seconds w), EvSleepBackOff,
                             EvHeadObject key, EvGetCredentialStorageVault, EvNewSession cred])
            (trace (snd (PutObject key b w)))"
    using PutObject_refreshes_for_head [OF d da, of w later pb vb hb bs cred cps key b] by blast
  have t11: "VerifyObject key w = ((False, integ, etag, verr), wv)
          \<and> sdk_PutObject key b wv = (Some (AwsError code), wp)
          \<and> (manifest_key key \<and> wq = wp
              \<or> \<not> manifest_key key \<and> (\<exists>i e r. VerifyObject key wp = ((False, i, e, r), wq))) \<longrightarrow>
          PutObject_loop (Suc bo) False err key b w =
            PutObject_loop bo True (Some (AwsError code)) key b
              (log EvSleepBackOff (sleep_rand wq))
          \<and> PutObject_loop 0 False err key b w = (Some (AwsError code), sleep_rand wq)
          \<and> PutObject_loop bo True err key b w = (Some (AwsError code), wq)"
    using PutObject_denied_put(1) [OF d, of key w integ etag verr wv b wp bo err]
      PutObject_denied_put(2) [OF d, of key w integ etag verr wv b wp _ _ _ wq bo err]
    by blast
  have t12: "VerifyObject key w = ((False, integ, etag, verr), wv)
          \<and> sdk_PutObject key b wv = (Some (AwsError code), wp)
          \<and> \<not> manifest_key key
          \<and> VerifyObject key wp = ((True, True, etag_after, verr_after), wq) \<longrightarrow>
          PutObject_loop bo once err key b w = (Some (AwsError code), wq)"
    using PutObject_denied_put(3) [OF d, of key w integ etag verr wv b wp etag_after verr_after wq
        bo once err]
    by blast
  have t13: "VerifyObject key w = ((False, integ, etag, verr), wv)
          \<and> sdk_PutObject key b wv = (Some (AwsError code), wp)
          \<and> \<not> manifest_key key
          \<and> VerifyObject key wp = ((True, False, etag_after, verr_after), wq)
          \<and> sdk_PutObject key b wq = (None, wz) \<longrightarrow>
          PutObject_loop bo once err key b w = (None, wz)"
    using PutObject_denied_put(4) [OF d, of key w integ etag verr wv b wp etag_after verr_after wq
        wz bo once err]
    by blast
  have t14: "VerifyObject key w = ((True, False, etag, verr), wv)
          \<and> sdk_PutObject key b wv = (Some (AwsError code), wp) \<longrightarrow>
          PutObject_loop (Suc bo) False err key b w =
            PutObject_loop bo True (Some (AwsError code)) key b
              (log EvSleepBackOff (sleep_rand wp))
          \<and> PutObject_loop 0 False err key b w = (Some (AwsError code), sleep_rand wp)
          \<and> PutObject_loop bo True err key b w = (Some (AwsError code), wp)"
    using PutObject_denied_overwrite [OF d, of key w etag verr wv b wp bo err] by blast
  have t15: "objects w key = None \<and> bo_script w = Suc pb # bs \<and> \<not> manifest_key key
          \<and> s3_script w = None # Some (Fails (AwsError code)) # None
                            # None # Some (Fails (AwsError code_again)) # None # later \<longrightarrow>
          fst (PutObject key b w) = Some (AwsError code_again)
          \<and> trace (snd (PutObject key b w)) =
              trace w @ [EvHeadObject key, EvPutObject key b, EvHeadObject key,
                         EvSleepSeconds (seconds w), EvSleepBackOff,
                         EvHeadObject key, EvPutObject key b, EvHeadObject key]
          \<and> S3Session (snd (PutObject key b w)) = S3Session w
          \<and> cp_script (snd (PutObject key b w)) = cp_script w
          \<and> objects (snd (PutObject key b w)) = objects w"
    using PutObject_denied_put_twice [OF d da, of w key pb bs later b] by blast
  note t16 = seconds_sleep_rand [of w]
  note own = t4 [THEN conjunct1] t4 [THEN conjunct2, THEN conjunct1]
    t4 [THEN conjunct2, THEN conjunct2, THEN conjunct1]
    t4 [THEN conjunct2, THEN conjunct2, THEN conjunct2]
    t5 [THEN conjunct1] t5 [THEN conjunct2, THEN conjunct1]
    t5 [THEN conjunct2, THEN conjunct2, THEN conjunct1]
    t5 [THEN conjunct2, THEN conjunct2, THEN conjunct2]
    t16 [THEN conjunct1] t16 [THEN conjunct2]
  show ?thesis
    by (intro conjI) (fact t1 t2 t3 t6 t7 t8 t9 t10 t11 t12 t13 t14 t15 own)+
qed

text \<open>
  The witness. On the store that answers \<open>Forbidden\<close> twice, \<open>HeadObject\<close> and \<open>GetObject\<close>
  return the second \<open>Forbidden\<close> after one sleep of each kind; \<open>VerifyObject\<close> with
  \<open>DEFAULT\<close> credentials makes a new session and then finds the key absent, and with
  \<open>STATIC\<close> credentials goes into its next pass without one; \<open>PutObject\<close> on that store
  does the same inside its first verification and then stores the chunk. On the store
  that denies the put twice \<open>PutObject\<close> returns the second denial and makes no new
  session. On the store where the object appears before the verification after the put,
  \<open>PutObject\<close> returns the denial of its first put after three requests and no sleep.
\<close>

theorem denied_requests_witness:
  "denied ''Forbidden'' \<and> denied ''AccessDenied''
   \<and> CredentialType denying = ''DEFAULT''
   \<and> fst (HeadObject ''k'' denying) = (False, [], Some (AwsError ''Forbidden''))
   \<and> trace (snd (HeadObject ''k'' denying)) =
       [EvHeadObject ''k'', EvSleepSeconds 1, EvSleepBackOff, EvHeadObject ''k'']
   \<and> fst (GetObject ''k'' denying) = Result ([], Some (AwsError ''Forbidden''))
   \<and> trace (snd (GetObject ''k'' denying)) =
       [EvGetObject ''k'', EvSleepSeconds 1, EvSleepBackOff, EvGetObject ''k'']
   \<and> fst (VerifyObject ''k'' denying) = (False, False, [], None)
   \<and> trace (snd (VerifyObject ''k'' denying)) =
       [EvHeadObject ''k'', EvSleepSeconds 1, EvSleepBackOff, EvHeadObject ''k'',
        EvGetCredentialStorageVault, EvNewSession fresh_cred, EvHeadObject ''k'']
   \<and> S3Session (snd (VerifyObject ''k'' denying)) = fresh_cred
   \<and> trace (snd (VerifyObject ''k'' (denying\<lparr>CredentialType := ''STATIC''\<rparr>))) =
       [EvHeadObject ''k'', EvSleepSeconds 1, EvSleepBackOff, EvHeadObject ''k'',
        EvHeadObject ''k'']
   \<and> S3Session (snd (VerifyObject ''k'' (denying\<lparr>CredentialType := ''STATIC''\<rparr>))) =
       S3Session denying
   \<and> prefix [EvHeadObject ''0102'', EvSleepSeconds 1, EvSleepBackOff, EvHeadObject ''0102'',
              EvGetCredentialStorageVault, EvNewSession fresh_cred]
        (trace (snd (PutObject ''0102'' [1, 2] denying)))
   \<and> fst (PutObject ''0102'' [1, 2] denying) = None
   \<and> trace (snd (PutObject ''0102'' [1, 2] (denying\<lparr>CredentialType := ''STATIC''\<rparr>))) =
       [EvHeadObject ''0102'', EvSleepSeconds 1, EvSleepBackOff, EvHeadObject ''0102'',
        EvHeadObject ''0102'', EvPutObject ''0102'' [1, 2], EvHeadObject ''0102'']
   \<and> fst (PutObject ''0102'' [1, 2] put_denying) = Some (AwsError ''AccessDenied'')
   \<and> trace (snd (PutObject ''0102'' [1, 2] put_denying)) =
       [EvHeadObject ''0102'', EvPutObject ''0102'' [1, 2], EvHeadObject ''0102'',
        EvSleepSeconds 1, EvSleepBackOff,
        EvHeadObject ''0102'', EvPutObject ''0102'' [1, 2], EvHeadObject ''0102'']
   \<and> S3Session (snd (PutObject ''0102'' [1, 2] put_denying)) = S3Session put_denying
   \<and> PutObject ''0102'' [1, 2] racing =
       (Some (AwsError ''Forbidden''),
        racing\<lparr>s3_script := [],
               trace := [EvHeadObject ''0102'', EvPutObject ''0102'' [1, 2],
                         EvHeadObject ''0102'']\<rparr>)"
proof -
  have d: "denied ''Forbidden''" and da: "denied ''AccessDenied''"
    by (simp_all add: denied_def)
  have q: "s3_script denying
        = Some (Fails (AwsError ''Forbidden'')) # Some (Fails (AwsError ''Forbidden'')) # []"
    "bo_script denying = Suc 4 # [5, 5]"
    "CredentialType denying = ''DEFAULT''" "cp_script denying = Some fresh_cred # []"
    "AwsAccessKeyId fresh_cred \<noteq> []" "AwsSecretAccessKey fresh_cred \<noteq> []"
    by (simp_all add: denying_def world0_def fresh_cred_def)
  have qb: "bo_script denying = Suc 4 # Suc 4 # [5]" "bo_script denying = 5 # Suc 4 # Suc 4 # []"
    by (simp_all add: denying_def world0_def)
  have tw: "\<And>e. trace (denied_twice e denying) = [e, EvSleepSeconds 1, EvSleepBackOff, e]"
    "seconds denying = 1" "trace denying = []"
    by (simp_all add: denied_twice_def sleep_rand_def log_def denying_def world0_def seconds_def)
  note t = denied_requests [OF d d, where w = denying and key = "''k''" and later = "[]"
      and hb = 4 and bs = "[5, 5]"]
  have h: "HeadObject ''k'' denying =
      ((False, [], Some (AwsError ''Forbidden'')),
       (denied_twice (EvHeadObject ''k'') denying)\<lparr>s3_script := [], bo_script := [5, 5]\<rparr>)"
    using t [THEN conjunct1, THEN mp, OF conjI [OF q(1) q(2)], THEN conjunct1] .
  have g: "GetObject ''k'' denying =
      (Result ([], Some (AwsError ''Forbidden'')),
       (denied_twice (EvGetObject ''k'') denying)\<lparr>s3_script := [], bo_script := [5, 5]\<rparr>)"
    using t [THEN conjunct1, THEN mp, OF conjI [OF q(1) q(2)], THEN conjunct2] .
  note defs = VerifyObject_def VerifyObject_loop.simps VerifyObject_pass_def HeadObject_def
    HeadObject_loop.simps HeadObject_pass_def GetCredentialStorageVault_def
    RefreshCredential_def NewExponentialBackOff_def sdk_HeadObject_def next_fault_def log_def
    sleep_rand_def denied_def
  note tv = denied_requests [OF d d, where w = denying and key = "''k''" and later = "[]"
      and vb = "Suc 4" and hb = 4 and bs = "[5]" and cred = fresh_cred and cps = "[]"]
  have v0: "VerifyObject ''k'' denying =
      VerifyObject_loop 4 ''k''
        ((refreshed fresh_cred (denied_twice (EvHeadObject ''k'') denying))
           \<lparr>s3_script := [], bo_script := [5], cp_script := []\<rparr>)"
    using tv [THEN conjunct2, THEN conjunct2, THEN conjunct2, THEN conjunct2, THEN conjunct2, THEN conjunct2, THEN conjunct2, THEN conjunct2, THEN conjunct2, THEN conjunct2, THEN conjunct2, THEN conjunct1, THEN mp, OF conjI [OF q(1) conjI [OF qb(1) conjI [OF q(3) conjI [OF q(4)
      conjI [OF q(5) q(6)]]]]]]
    by (simp only: nat.case)
  have v1: "VerifyObject_loop 4 ''k''
        ((refreshed fresh_cred (denied_twice (EvHeadObject ''k'') denying))
           \<lparr>s3_script := [], bo_script := [5], cp_script := []\<rparr>) =
      ((False, False, [], None),
       denying\<lparr>s3_script := [], cp_script := [], bo_script := [], rand_script := [],
                S3Session := fresh_cred,
                trace := [EvHeadObject ''k'', EvSleepSeconds 1, EvSleepBackOff, EvHeadObject ''k'',
                          EvGetCredentialStorageVault, EvNewSession fresh_cred,
                          EvHeadObject ''k'']\<rparr>)"
    by (simp add: refreshed_def denied_twice_def denying_def world0_def fresh_cred_def defs)
  note v = v0 [unfolded v1]
  let ?static = "denying\<lparr>CredentialType := ''STATIC''\<rparr>"
  have qs: "s3_script ?static
        = Some (Fails (AwsError ''Forbidden'')) # Some (Fails (AwsError ''Forbidden'')) # []"
    "bo_script ?static = Suc 4 # Suc 4 # [5]" "CredentialType ?static \<noteq> ''DEFAULT''"
    by (simp_all add: denying_def world0_def)
  note ts = denied_requests [OF d d, where w = ?static and key = "''k''" and later = "[]"
      and vb = "Suc 4" and hb = 4 and bs = "[5]"]
  have s0: "VerifyObject ''k'' ?static =
      VerifyObject_loop 4 ''k''
        ((denied_twice (EvHeadObject ''k'') ?static)\<lparr>s3_script := [], bo_script := [5]\<rparr>)"
    using ts [THEN conjunct2, THEN conjunct2, THEN conjunct2, THEN conjunct2, THEN conjunct2, THEN conjunct2, THEN conjunct2, THEN conjunct2, THEN conjunct2, THEN conjunct2, THEN conjunct2, THEN conjunct2, THEN conjunct1, THEN mp, OF conjI [OF qs(1) conjI [OF qs(2) qs(3)]]]
    by (simp only: nat.case)
  have s1: "VerifyObject_loop 4 ''k''
        ((denied_twice (EvHeadObject ''k'') ?static)\<lparr>s3_script := [], bo_script := [5]\<rparr>) =
      ((False, False, [], None),
       denying\<lparr>s3_script := [], bo_script := [], rand_script := [],
                CredentialType := ''STATIC'',
                trace := [EvHeadObject ''k'', EvSleepSeconds 1, EvSleepBackOff, EvHeadObject ''k'',
                          EvHeadObject ''k'']\<rparr>)"
    by (simp add: denied_twice_def denying_def world0_def defs)
  note s = s0 [unfolded s1]
  note pdefs = PutObject_def PutObject_loop.simps PutObject_pass_def PutObject_body_def
    manifest_key_def sdk_PutObject_def Contains.simps HasPrefix.simps EncodeToString_def
    hex_digit_def
  note tp = denied_requests [OF d d, where w = denying and key = "''0102''" and later = "[]"
      and pb = 5 and vb = "Suc 4" and hb = 4 and bs = "[]" and cred = fresh_cred and cps = "[]"
      and b = "[1, 2]"]
  have p1: "prefix [EvHeadObject ''0102'', EvSleepSeconds 1, EvSleepBackOff,
      EvHeadObject ''0102'', EvGetCredentialStorageVault, EvNewSession fresh_cred]
      (trace (snd (PutObject ''0102'' [1, 2] denying)))"
    using tp [THEN conjunct2, THEN conjunct2, THEN conjunct2, THEN conjunct2, THEN conjunct2, THEN conjunct2, THEN conjunct2, THEN conjunct2, THEN conjunct2, THEN conjunct2, THEN conjunct2, THEN conjunct2, THEN conjunct2, THEN conjunct2, THEN conjunct2, THEN conjunct1, THEN mp, OF conjI [OF q(1) conjI [OF qb(2) conjI [OF q(3) conjI [OF q(4)
      conjI [OF q(5) q(6)]]]]]]
    by (simp only: tw append_Nil)
  have p2: "fst (PutObject ''0102'' [1, 2] denying) = None"
    by (simp add: denying_def world0_def fresh_cred_def defs pdefs)
  have p3: "trace (snd (PutObject ''0102'' [1, 2] ?static)) =
       [EvHeadObject ''0102'', EvSleepSeconds 1, EvSleepBackOff, EvHeadObject ''0102'',
        EvHeadObject ''0102'', EvPutObject ''0102'' [1, 2], EvHeadObject ''0102'']"
    by (simp add: denying_def world0_def fresh_cred_def defs pdefs)
  have qd: "objects put_denying ''0102'' = None" "bo_script put_denying = Suc 4 # []"
    "\<not> manifest_key ''0102''"
    "s3_script put_denying = None # Some (Fails (AwsError ''Forbidden'')) # None
        # None # Some (Fails (AwsError ''AccessDenied'')) # None # []"
    by (simp_all add: put_denying_def world0_def manifest_key_def)
  have qt: "trace put_denying = []" "seconds put_denying = 1"
    by (simp_all add: put_denying_def world0_def seconds_def)
  note td = denied_requests [OF d da, where w = put_denying and key = "''0102''"
      and later = "[]" and pb = 4 and bs = "[]" and b = "[1, 2]"]
  note p4 = td [THEN conjunct2, THEN conjunct2, THEN conjunct2, THEN conjunct2, THEN conjunct2, THEN conjunct2, THEN conjunct2, THEN conjunct2, THEN conjunct2, THEN conjunct2, THEN conjunct2, THEN conjunct2, THEN conjunct2, THEN conjunct2, THEN conjunct2, THEN conjunct2, THEN conjunct2, THEN conjunct2, THEN conjunct2, THEN conjunct2, THEN conjunct1, THEN mp, OF conjI [OF qd(1) conjI [OF qd(2) conjI [OF qd(3) qd(4)]]],
      unfolded qt append_Nil]
  let ?rv = "racing\<lparr>s3_script := [Some (Fails (AwsError ''Forbidden''))],
      trace := [EvHeadObject ''0102'']\<rparr>"
  let ?rp = "racing\<lparr>s3_script := [],
      trace := [EvHeadObject ''0102'', EvPutObject ''0102'' [1, 2]]\<rparr>"
  let ?rq = "racing\<lparr>s3_script := [],
      trace := [EvHeadObject ''0102'', EvPutObject ''0102'' [1, 2], EvHeadObject ''0102'']\<rparr>"
  have r1: "VerifyObject ''0102'' racing = ((False, False, [], None), ?rv)"
    by (simp add: racing_def world0_def defs)
  have r2: "sdk_PutObject ''0102'' [1, 2] ?rv = (Some (AwsError ''Forbidden''), ?rp)"
    by (simp add: racing_def world0_def sdk_PutObject_def next_fault_def log_def)
  have r3: "VerifyObject ''0102'' ?rp =
      ((True, True, etag_of world0 [1, 2], None), ?rq)"
    by (simp add: racing_def world0_def defs Contains.simps HasPrefix.simps EncodeToString_def
        hex_digit_def)
  have r0: "PutObject ''0102'' [1, 2] racing = PutObject_loop 0 False None ''0102'' [1, 2] racing"
    by (simp add: PutObject_def NewExponentialBackOff_def racing_def world0_def)
  note tr = denied_requests [OF d d, where w = racing and key = "''0102''" and b = "[1, 2]"
      and integ = False and etag = "[]" and verr = None and wv = ?rv and wp = ?rp
      and etag_after = "etag_of world0 [1, 2]" and verr_after = None and wq = ?rq
      and bo = 0 and once = False and err = None]
  have p5: "PutObject ''0102'' [1, 2] racing = (Some (AwsError ''Forbidden''), ?rq)"
    unfolding r0 using tr [THEN conjunct2, THEN conjunct2, THEN conjunct2, THEN conjunct2, THEN conjunct2, THEN conjunct2, THEN conjunct2, THEN conjunct2, THEN conjunct2, THEN conjunct2, THEN conjunct2, THEN conjunct2, THEN conjunct2, THEN conjunct2, THEN conjunct2, THEN conjunct2, THEN conjunct2, THEN conjunct1, THEN mp, OF conjI [OF r1 conjI [OF r2 conjI [OF qd(3) r3]]]] .
  have f: "fst (HeadObject ''k'' denying) = (False, [], Some (AwsError ''Forbidden''))"
    "trace (snd (HeadObject ''k'' denying)) =
       [EvHeadObject ''k'', EvSleepSeconds 1, EvSleepBackOff, EvHeadObject ''k'']"
    "fst (GetObject ''k'' denying) = Result ([], Some (AwsError ''Forbidden''))"
    "trace (snd (GetObject ''k'' denying)) =
       [EvGetObject ''k'', EvSleepSeconds 1, EvSleepBackOff, EvGetObject ''k'']"
    by (simp_all add: h g tw)
  have fv: "fst (VerifyObject ''k'' denying) = (False, False, [], None)"
    "trace (snd (VerifyObject ''k'' denying)) =
       [EvHeadObject ''k'', EvSleepSeconds 1, EvSleepBackOff, EvHeadObject ''k'',
        EvGetCredentialStorageVault, EvNewSession fresh_cred, EvHeadObject ''k'']"
    "S3Session (snd (VerifyObject ''k'' denying)) = fresh_cred"
    "trace (snd (VerifyObject ''k'' ?static)) =
       [EvHeadObject ''k'', EvSleepSeconds 1, EvSleepBackOff, EvHeadObject ''k'',
        EvHeadObject ''k'']"
    "S3Session (snd (VerifyObject ''k'' ?static)) = S3Session denying"
    by (simp_all add: v s)
  have f4: "S3Session (snd (PutObject ''0102'' [1, 2] put_denying)) = S3Session put_denying"
    "fst (PutObject ''0102'' [1, 2] put_denying) = Some (AwsError ''AccessDenied'')"
    "trace (snd (PutObject ''0102'' [1, 2] put_denying)) =
       [EvHeadObject ''0102'', EvPutObject ''0102'' [1, 2], EvHeadObject ''0102'',
        EvSleepSeconds 1, EvSleepBackOff,
        EvHeadObject ''0102'', EvPutObject ''0102'' [1, 2], EvHeadObject ''0102'']"
    using p4 by simp_all
  show ?thesis
    by (intro conjI) (fact d da q(3) f fv p1 p2 p3 f4 p5)+
qed

end
